theory Spec2Isabelle
  imports Complex_Main "HOL-Library.Word" "HOL-Library.Char_ord" "HOL-Library.List_Lexorder"
begin

section \<open>Physical constants and particle kinds (bahnen2005.c, file scope)\<close>

text \<open>
  The tracking code computes in \<^verbatim>\<open>long double\<close>.  The embedding idealises these
  numbers as exact reals: every arithmetic expression below is the source's expression,
  read over \<^typ>\<open>real\<close>.  Division by zero and the square root of a negative
  number, which yield infinities or NaN in the program, are therefore outside the model:
  there the functions below return a real number and the program does not.  The
  statements about expressions that divide or take a root carry the side condition
  under which the program computes with finite numbers (\<open>r > 0\<close>, a mass other than zero,
  a speed not above that of light).
\<close>

definition ele_e :: real where "ele_e = 1602176487 / 10 ^ 28"
definition gravconst :: real where "gravconst = 980665 / 10 ^ 5"
definition c_0 :: real where "c_0 = 299792458"
definition mu_nSI :: real where "mu_nSI = 96623641 / 10 ^ 34"
definition m_n :: real where "m_n = (1674927211 / 10 ^ 36) / (1602176487 / 10 ^ 28)"
definition m_p :: real where "m_p = (1672621637 / 10 ^ 36) / (1602176487 / 10 ^ 28)"
definition m_e :: real where "m_e = (910938215 / 10 ^ 39) / (1602176487 / 10 ^ 28)"
definition tau :: real where "tau = 8857 / 10"
definition conv :: real where "conv = 1745329251 / 10 ^ 11"

text \<open>Initial value of the global \<^verbatim>\<open>Qm0\<close>: elementary charge over proton mass (SI).\<close>

definition Qm0_init :: real where
  "Qm0_init = (1602176487 / 10 ^ 28) / (1672621637 / 10 ^ 36)"

text \<open>
  \<^verbatim>\<open>protneut\<close> and \<^verbatim>\<open>polarisation\<close> are \<^verbatim>\<open>int\<close> globals compared against
  macros of \<^verbatim>\<open>main.h\<close>, which is not among the sources.  The macros are kept symbolic:
  one constructor per macro, and one for every other integer value.
\<close>

datatype protneut_t = NEUTRON | PROTON | BF_ONLY | ELECTRONS | OtherKind int

datatype polarisation_t =
  POLARISATION_GOOD | POLARISATION_BAD | POLARISATION_NONE | OtherPolarisation int

section \<open>State of the equations of motion\<close>

text \<open>The arrays \<^verbatim>\<open>y[1..6]\<close> and \<^verbatim>\<open>dydx[1..6]\<close>: \<open>r, dr/dt, z, dz/dt, phi, dphi/dt\<close>.\<close>

record yvec =
  y1 :: real
  y2 :: real
  y3 :: real
  y4 :: real
  y5 :: real
  y6 :: real

text \<open>
  What \<^verbatim>\<open>BFeld\<close> leaves in the globals that the tracking code reads afterwards: the
  components, their derivatives, the magnitude \<^verbatim>\<open>Bws\<close> and its gradient.
\<close>

record bfield =
  Br :: real
  dBrdr :: real
  dBrdphi :: real
  dBrdz :: real
  Bphi :: real
  dBphidr :: real
  dBphidphi :: real
  dBphidz :: real
  Bz :: real
  dBzdr :: real
  dBzdphi :: real
  dBzdz :: real
  Bws :: real
  dBdr :: real
  dBdphi :: real
  dBdz :: real

record efield =
  Er :: real
  Ephi :: real
  Ez :: real

text \<open>
  The functions of the repository that \<^verbatim>\<open>derivs\<close> calls but that are not among the
  sources are parameters of the model: \<^verbatim>\<open>BFeld(r, phi, z, t)\<close>, \<^verbatim>\<open>EFeld(r, phi, z)\<close> and
  \<^verbatim>\<open>Entkommen(y, x, H)\<close>.  The last one is the check "should the particle end"; it is
  modelled as an update of the pair (\<^verbatim>\<open>stopall\<close>, \<^verbatim>\<open>kennz\<close>) only.
\<close>

record fields_env =
  BFeld :: "real \<Rightarrow> real \<Rightarrow> real \<Rightarrow> real \<Rightarrow> bfield"
  EFeld :: "real \<Rightarrow> real \<Rightarrow> real \<Rightarrow> efield"
  Entkommen :: "yvec \<Rightarrow> real \<Rightarrow> real \<Rightarrow> int \<times> int \<Rightarrow> int \<times> int"

text \<open>The globals that \<^verbatim>\<open>derivs\<close> and the spin bookkeeping read and write.\<close>

record motion =
  protneut :: protneut_t
  polarisation :: polarisation_t
  BruteForce :: bool
  M :: real
  hfs :: int
  mu_n :: real
  mumB :: real
  Qm0 :: real
  H :: real
  NSF :: int
  firstint :: bool
  stopall :: int
  kennz :: int
  B :: bfield
  E :: efield

section \<open>derivs\<close>

definition derivs ::
  "fields_env \<Rightarrow> real \<Rightarrow> yvec \<Rightarrow> yvec \<Rightarrow> 'a motion_scheme
     \<Rightarrow> yvec \<times> 'a motion_scheme" where
  "derivs env x y dydx g =
    (let (sa, kz) = Entkommen env y x (H g) (stopall g, kennz g);
         g = g\<lparr>stopall := sa, kennz := kz\<rparr>;
         g = g\<lparr>B := BFeld env (y1 y) (y5 y) (y3 y) x\<rparr>;
         g = (if protneut g \<noteq> NEUTRON then g\<lparr>E := EFeld env (y1 y) (y5 y) (y3 y)\<rparr> else g)
     in if protneut g = NEUTRON then
          (\<lparr>y1 = y2 y,
            y2 = y1 y * (y6 y * y6 y) + mumB g * dBdr (B g),
            y3 = y4 y,
            y4 = mumB g * dBdz (B g) - gravconst,
            y5 = y6 y,
            y6 = - 2 * y2 y * y6 y / y1 y + mumB g / y1 y * dBdphi (B g) / y1 y\<rparr>, g)
        else if protneut g = PROTON then
          (\<lparr>y1 = y2 y,
            y2 = y1 y * (y6 y * y6 y)
                 + Qm0 g * (Bz (B g) * y1 y * y6 y - Bphi (B g) * y4 y + Er (E g)),
            y3 = y4 y,
            y4 = Qm0 g * (Ez (E g) + Bphi (B g) * y2 y - y1 y * Br (B g) * y6 y),
            y5 = y6 y,
            y6 = - 2 * y2 y * y6 y / y1 y
                 + Qm0 g * (Ephi (E g) + Br (B g) * y4 y - Bz (B g) * y2 y) / y1 y\<rparr>, g)
        else if protneut g = ELECTRONS then
          (let g = g\<lparr>Qm0 := - 1 / M g
                      * sqrt (1 - (y2 y * y2 y + y1 y * y1 y * y6 y * y6 y + y4 y * y4 y)
                                  / (c_0 * c_0))\<rparr>
           in (\<lparr>y1 = y2 y,
                y2 = y1 y * (y6 y * y6 y)
                     + Qm0 g * (Bz (B g) * y1 y * y6 y - Bphi (B g) * y4 y + Er (E g)),
                y3 = y4 y,
                y4 = Qm0 g * (Ez (E g) + Bphi (B g) * y2 y - y1 y * Br (B g) * y6 y),
                y5 = y6 y,
                y6 = - 2 * y2 y * y6 y / y1 y
                     + Qm0 g * (Ephi (E g) + Br (B g) * y4 y - Bz (B g) * y2 y) / y1 y\<rparr>, g))
        else (dydx, g))"

text \<open>
  The spin set-up at the start of \<^verbatim>\<open>IntegrateParticle\<close> (the block guarded by
  \<^verbatim>\<open>if(BruteForce)\<close>): the polarisation chosen by the user fixes the discrete label
  \<^verbatim>\<open>hfs\<close>, from which the magnetic moment and the moment per mass are computed.
\<close>

definition set_hfs :: "int \<Rightarrow> 'a motion_scheme \<Rightarrow> 'a motion_scheme" where
  "set_hfs h g = (let g = g\<lparr>hfs := h\<rparr>;
                      g = g\<lparr>mu_n := of_int (hfs g) * mu_nSI / ele_e\<rparr>
                  in g\<lparr>mumB := mu_n g / M g\<rparr>)"

definition spin_setup :: "'a motion_scheme \<Rightarrow> 'a motion_scheme" where
  "spin_setup g =
    (if BruteForce g then
       (let g = g\<lparr>NSF := 0, firstint := False\<rparr>
        in if protneut g = NEUTRON then
             (if polarisation g = POLARISATION_GOOD then set_hfs (- 1) g
              else if polarisation g = POLARISATION_BAD then set_hfs 1 g
              else if polarisation g = POLARISATION_NONE then
                (let g = g\<lparr>hfs := 0\<rparr>; g = g\<lparr>mu_n := 0\<rparr> in g\<lparr>mumB := mu_n g / M g\<rparr>)
              else g)
           else g)
     else g)"

text \<open>
  The velocity in cylindrical components is \<open>(dr/dt, r dphi/dt, dz/dt)\<close>; the components
  of \<open>E + v \<times> B\<close> in the same frame, written out.
\<close>

definition lorentz_r :: "yvec \<Rightarrow> bfield \<Rightarrow> efield \<Rightarrow> real" where
  "lorentz_r y b e = Er e + ((y1 y * y6 y) * Bz b - y4 y * Bphi b)"

definition lorentz_phi :: "yvec \<Rightarrow> bfield \<Rightarrow> efield \<Rightarrow> real" where
  "lorentz_phi y b e = Ephi e + (y4 y * Br b - y2 y * Bz b)"

definition lorentz_z :: "yvec \<Rightarrow> bfield \<Rightarrow> efield \<Rightarrow> real" where
  "lorentz_z y b e = Ez e + (y2 y * Bphi b - (y1 y * y6 y) * Br b)"

definition speed2 :: "yvec \<Rightarrow> real" where
  "speed2 y = (y2 y)\<^sup>2 + (y1 y)\<^sup>2 * (y6 y)\<^sup>2 + (y4 y)\<^sup>2"


section \<open>Output streams\<close>

text \<open>
  File names are produced by \<^verbatim>\<open>sprintf\<close> from the output path, the job number and a
  running file index (\<^verbatim>\<open>"%s/%06dtrack%03d.out"\<close>, \<^verbatim>\<open>"%s/%06dBF%03d.out"\<close>,
  \<^verbatim>\<open>"%s/%06dend.out"\<close>); the model keeps the three arguments instead of the text.
  A line of a file is a header (the literal text) or a row of numbers.  A stream is the
  file a \<^verbatim>\<open>FILE*\<close> is open on together with what has been written to it; streams are
  taken to have been opened by \<^verbatim>\<open>main\<close> (a \<^verbatim>\<open>NULL\<close> handle is outside the model).
  Of the terminal output the model keeps the messages that report an event of the spin
  tracking, of the file rollover and of the start check, each with the values printed;
  banners, progress marks and the copy of the messages in the log-screen file are left
  out.
\<close>


datatype fname =
  TrackFile string int int
| BFFile string int int
| EndFile string int

datatype line = Header string | Row "real list"

datatype msg =
  Msg_I_before real int real real real
| Msg_I_after real real
| Msg_spin_flipped real int
| Msg_Ekin_negative real
| Msg_new_file fname

record stream =
  sname :: fname
  slines :: "line list"

definition fprintf :: "line \<Rightarrow> stream \<Rightarrow> stream" where
  "fprintf l f = f\<lparr>slines := slines f @ [l]\<rparr>"

definition fopen_w :: "fname \<Rightarrow> stream" where
  "fopen_w n = \<lparr>sname = n, slines = []\<rparr>"

definition BF_header :: string where
  "BF_header = ''t Babs Polar logPolar Ix Iy Iz Bx By Bz''"

definition track_header_rollover :: string where
  "track_header_rollover = ''Teilchen t r drdt z dzdt phi dphidt x y v H Matora Br dBrdr dBrdphi dBrdz Bphi dBphidr dBphidphi dBphidz Bz dBzdr dBzdphi dBzdz Babs Polar Er Ez timestep Bcheck logvlad logthumb''"

section \<open>Dense output of the trajectory integrator and of the Bloch integrator\<close>

text \<open>
  \<^verbatim>\<open>odeint\<close> leaves \<^verbatim>\<open>kount\<close> intermediate points in the global arrays \<^verbatim>\<open>xp[k]\<close>,
  \<^verbatim>\<open>yp[1..6][k]\<close>, \<^verbatim>\<open>Bp[1..13][k]\<close> and \<^verbatim>\<open>Ep[1..2][k]\<close>; a sample of the field
  columns is one record.  The spin code reads \<^verbatim>\<open>Bp[1]\<close>, \<^verbatim>\<open>Bp[5]\<close>, \<^verbatim>\<open>Bp[9]\<close> (the
  components) and \<^verbatim>\<open>Bp[13]\<close> (the magnitude).  Arrays are total functions on the index;
  the allocated length is not modelled.
\<close>

record bsample =
  Bp1 :: real
  Bp2 :: real
  Bp3 :: real
  Bp4 :: real
  Bp5 :: real
  Bp6 :: real
  Bp7 :: real
  Bp8 :: real
  Bp9 :: real
  Bp10 :: real
  Bp11 :: real
  Bp12 :: real
  Bp13 :: real
  Ep1 :: real
  Ep2 :: real

record dense =
  kount :: int
  xp :: "int \<Rightarrow> real"
  yp :: "int \<Rightarrow> yvec"
  Bp :: "int \<Rightarrow> bsample"

text \<open>Three-component arrays \<^verbatim>\<open>v[1..3]\<close>.\<close>

record vec3 =
  c1 :: real
  c2 :: real
  c3 :: real

text \<open>
  What \<^verbatim>\<open>BFodeintrk\<close> returns: the spin vector at the end of the interval (written back
  into its first argument) and its own dense output \<^verbatim>\<open>BFkount\<close>, \<^verbatim>\<open>BFxp\<close>, \<^verbatim>\<open>BFyp\<close>,
  \<^verbatim>\<open>BFypFields\<close>.
\<close>

record bloch_out =
  I_end :: vec3
  o_BFkount :: int
  o_BFxp :: "int \<Rightarrow> real"
  o_BFyp :: "int \<Rightarrow> vec3"
  o_BFypFields :: "int \<Rightarrow> vec3"

text \<open>
  Parameters of the spin code: the Bloch integrator \<^verbatim>\<open>BFodeintrk\<close> (called with the spin
  vector, the start and end time, and reading the buffer through \<^verbatim>\<open>BFderivs\<close>), the
  coordinate change \<^verbatim>\<open>CylKartCoord\<close>, the values of the output-mode macros, and the
  random numbers.  A seeded Mersenne twister is the sequence of doubles it will return;
  its state is the position in that sequence, so \<^verbatim>\<open>mt_get_double\<close> returns the number
  at the position and advances it.
\<close>

record spin_env =
  BFodeintrk :: "vec3 \<Rightarrow> real \<Rightarrow> real \<Rightarrow> (int \<Rightarrow> real) \<Rightarrow> (int \<Rightarrow> int \<Rightarrow> real) \<Rightarrow> int
                 \<Rightarrow> bloch_out"
  CylKartCoord :: "real \<Rightarrow> real \<Rightarrow> real \<Rightarrow> real \<Rightarrow> vec3"
  mt_double :: "nat \<Rightarrow> real"
  OUTPUT_EVERYTHING :: int
  OUTPUT_EVERYTHINGandSPIN :: int
  OUTPUT_ENDPOINTSandSPIN :: int

section \<open>Globals of the brute-force spin tracking\<close>

record globals = motion +
  dxsav :: real
  BFBmin :: real
  BFTargetB :: real
  BFPolmin :: bool
  BFpol :: real
  BFlogpol :: real
  BFsurvprob :: real
  BFflipprob :: real
  flipspin :: bool
  rando :: real
  mt_pos :: nat
  offset :: int
  BFtime :: "int \<Rightarrow> real"
  BFField :: "int \<Rightarrow> int \<Rightarrow> real"
  BFBws :: "int \<Rightarrow> real"
  I_n :: vec3
  gammaend :: real
  BFkount :: int
  BFcount :: int
  BFxp :: "int \<Rightarrow> real"
  BFyp :: "int \<Rightarrow> vec3"
  BFypFields :: "int \<Rightarrow> vec3"
  ausgabewunsch :: int
  BFZeilencount :: int
  BFFilecount :: int
  BFLOG :: stream
  Zeilencount :: int
  Filecount :: int
  OUTFILE1 :: stream
  closed :: "stream list"
  outpath :: string
  jobnumber :: int
  delx_n :: real
  stdout :: "msg list"

section \<open>BruteForceIntegration\<close>

text \<open>The C library's \<^verbatim>\<open>atan2l(y, x)\<close> on reals.\<close>

definition atan2l :: "real \<Rightarrow> real \<Rightarrow> real" where
  "atan2l y x =
     (if 0 < x then arctan (y / x)
      else if x < 0 \<and> 0 \<le> y then arctan (y / x) + pi
      else if x < 0 then arctan (y / x) - pi
      else if 0 < y then pi / 2
      else if y < 0 then - pi / 2
      else 0)"

text \<open>The scan for the smallest \<^verbatim>\<open>Bp[13][klauf]\<close>, \<^verbatim>\<open>klauf = 1..kount\<close>.\<close>

definition BF_scan_min :: "dense \<Rightarrow> 'a globals_scheme \<Rightarrow> 'a globals_scheme" where
  "BF_scan_min d g =
     fold (\<lambda>klauf g. if Bp13 (Bp d klauf) < BFBmin g
                      then g\<lparr>BFBmin := Bp13 (Bp d klauf)\<rparr> else g)
          [1..kount d] g"

text \<open>
  The block guarded by \<^verbatim>\<open>(BFBmin>BFTargetB)&&(BFPolmin)\<close>: update of the survival and
  flip probabilities and, with \<^verbatim>\<open>flipspin\<close>, the random flip of the discrete label.  The
  first random number goes to \<^verbatim>\<open>rando\<close> and is not used; the comparison draws a second.
\<close>

definition BF_flip :: "spin_env \<Rightarrow> 'a globals_scheme \<Rightarrow> 'a globals_scheme" where
  "BF_flip env g =
     (let g = g\<lparr>rando := mt_double env (mt_pos g), mt_pos := Suc (mt_pos g)\<rparr>;
          u = mt_double env (mt_pos g);
          g = g\<lparr>mt_pos := Suc (mt_pos g)\<rparr>
      in if u < 1 - (BFpol g + 0.5) then
           (let g = g\<lparr>hfs := hfs g * (- 1)\<rparr>;
                g = g\<lparr>mu_n := of_int (hfs g) * mu_nSI / ele_e\<rparr>;
                g = g\<lparr>mumB := mu_n g / M g\<rparr>;
                g = g\<lparr>NSF := NSF g + 1\<rparr>
            in g\<lparr>stdout := stdout g @ [Msg_spin_flipped (BFpol g) (NSF g)]\<rparr>)
         else g)"

definition BF_update_prob :: "spin_env \<Rightarrow> 'a globals_scheme \<Rightarrow> 'a globals_scheme" where
  "BF_update_prob env g =
     (let g = g\<lparr>BFsurvprob := (BFpol g + 0.5) * BFsurvprob g\<rparr>;
          g = g\<lparr>BFflipprob := 1 - BFsurvprob g\<rparr>
      in if flipspin g then BF_flip env g else g)"

text \<open>
  The block guarded by \<^verbatim>\<open>BFBmin<BFTargetB\<close>: the step's samples \<^verbatim>\<open>klaufstart..kount\<close> go
  to the positions \<^verbatim>\<open>offset+klauf-(klaufstart-1)\<close> of the buffer.
\<close>

definition BF_store :: "spin_env \<Rightarrow> dense \<Rightarrow> int \<Rightarrow> int \<Rightarrow> 'a globals_scheme \<Rightarrow> 'a globals_scheme" where
  "BF_store env d klaufstart klauf g =
     (let i = offset g + klauf - (klaufstart - 1);
          c = CylKartCoord env (Bp1 (Bp d klauf)) (Bp5 (Bp d klauf)) (Bp9 (Bp d klauf))
                (y5 (yp d klauf))
      in g\<lparr>BFtime := (BFtime g)(i := xp d klauf),
            BFField := (BFField g)
               (1 := (BFField g 1)(i := c1 c),
                2 := (BFField g 2)(i := c2 c),
                3 := (BFField g 3)(i := c3 c),
                4 := (BFField g 4)(i := y1 (yp d klauf)),
                5 := (BFField g 5)(i := y3 (yp d klauf)))\<rparr>)"

definition BF_append :: "spin_env \<Rightarrow> dense \<Rightarrow> 'a globals_scheme \<Rightarrow> 'a globals_scheme" where
  "BF_append env d g =
     (let klaufstart = (if offset g > 0 then 2 else 1);
          g = (if klaufstart = 1
               then g\<lparr>gammaend := atan2l (sqrt ((y2 (yp d 2))\<^sup>2 + (y1 (yp d 2) * y6 (yp d 2))\<^sup>2))
                                     (y4 (yp d 2)) / conv\<rparr>
               else g);
          g = fold (BF_store env d klaufstart) [klaufstart..kount d] g
      in g\<lparr>offset := offset g + kount d - (klaufstart - 1)\<rparr>)"


text \<open>
  One row of the spin log (the body of the loop over \<^verbatim>\<open>BFcount = 2..BFkount\<close>).
  \<^verbatim>\<open>log10l\<close> is the logarithm to base ten.
\<close>

definition norm3 :: "vec3 \<Rightarrow> real" where
  "norm3 v = sqrt ((c1 v)\<^sup>2 + (c2 v)\<^sup>2 + (c3 v)\<^sup>2)"

definition BF_proj :: "vec3 \<Rightarrow> vec3 \<Rightarrow> real" where
  "BF_proj s b = (c1 s * c1 b + c2 s * c2 b + c3 s * c3 b)
                 / sqrt (c1 b * c1 b + c2 b * c2 b + c3 b * c3 b)"

definition BF_log_row :: "int \<Rightarrow> 'a globals_scheme \<Rightarrow> 'a globals_scheme" where
  "BF_log_row k g =
     (let s = BFyp g k; b = BFypFields g k;
          g = g\<lparr>BFBws := (BFBws g)(k := sqrt (c1 b * c1 b + c2 b * c2 b + c3 b * c3 b))\<rparr>;
          g = g\<lparr>BFpol := BF_proj s b\<rparr>;
          g = (if BFpol g < 0.5 then g\<lparr>BFlogpol := log 10 (0.5 + BFpol g)\<rparr>
               else if BFpol g = 0.5 then g\<lparr>BFlogpol := 0\<rparr> else g);
          g = g\<lparr>BFLOG := fprintf (Row [BFxp g k, BFBws g k, BFpol g, BFlogpol g,
                                          c1 s, c2 s, c3 s, c1 b, c2 b, c3 b]) (BFLOG g)\<rparr>
      in g\<lparr>BFZeilencount := BFZeilencount g + 1\<rparr>)"

text \<open>
  The block "Perform integration".  With \<^verbatim>\<open>firstint\<close> the spin starts parallel to the
  first buffered field, with length one half.  The integrator runs from \<^verbatim>\<open>BFtime[1]\<close> to
  \<^verbatim>\<open>BFtime[offset]\<close>; afterwards \<^verbatim>\<open>BFpol\<close> is the projection of the spin on the field
  direction at the last point \<^verbatim>\<open>BFkount\<close> of the integrator's dense output, the rows are
  logged if the output mode asks for the spin, and the buffer is emptied.
\<close>

definition BF_init_spin :: "'a globals_scheme \<Rightarrow> 'a globals_scheme" where
  "BF_init_spin g =
     (if firstint g then
        (let g = g\<lparr>BFBws := (BFBws g)(1 := sqrt ((BFField g 1 1)\<^sup>2 + (BFField g 2 1)\<^sup>2
                                                + (BFField g 3 1)\<^sup>2))\<rparr>;
             g = g\<lparr>I_n := \<lparr>c1 = (BFField g 1 1 / BFBws g 1) * 0.5,
                          c2 = (BFField g 2 1 / BFBws g 1) * 0.5,
                          c3 = (BFField g 3 1 / BFBws g 1) * 0.5\<rparr>\<rparr>
         in g\<lparr>stdout := stdout g @ [Msg_I_before (BFtime g (offset g)) (offset g)
                                          (delx_n g) (Bws (B g)) (norm3 (I_n g))]\<rparr>)
      else g)"

definition BF_call_integrator :: "spin_env \<Rightarrow> 'a globals_scheme \<Rightarrow> 'a globals_scheme" where
  "BF_call_integrator env g =
     (let r = BFodeintrk env (I_n g) (BFtime g 1) (BFtime g (offset g))
                (BFtime g) (BFField g) (offset g);
          g = g\<lparr>I_n := I_end r, BFkount := o_BFkount r, BFxp := o_BFxp r,
                  BFyp := o_BFyp r, BFypFields := o_BFypFields r\<rparr>;
          g = g\<lparr>stdout := stdout g @ [Msg_I_after (norm3 (I_n g)) (BFflipprob g)]\<rparr>;
          g = g\<lparr>firstint := False\<rparr>
      in g\<lparr>BFpol := (c1 (BFyp g (BFkount g)) * c1 (BFypFields g (BFkount g))
                       + c2 (BFyp g (BFkount g)) * c2 (BFypFields g (BFkount g))
                       + c3 (BFyp g (BFkount g)) * c3 (BFypFields g (BFkount g)))
                      / sqrt ((c1 (BFypFields g (BFkount g)))\<^sup>2
                              + (c2 (BFypFields g (BFkount g)))\<^sup>2
                              + (c3 (BFypFields g (BFkount g)))\<^sup>2)\<rparr>)"

definition BF_log_rows :: "spin_env \<Rightarrow> 'a globals_scheme \<Rightarrow> 'a globals_scheme" where
  "BF_log_rows env g =
     (if ausgabewunsch g = OUTPUT_EVERYTHINGandSPIN env
         \<or> ausgabewunsch g = OUTPUT_ENDPOINTSandSPIN env
      then (fold BF_log_row [2..BFkount g] g)
             \<lparr>BFcount := (if 2 \<le> BFkount g then BFkount g + 1 else 2)\<rparr>
      else g)"

definition BF_integrate :: "spin_env \<Rightarrow> 'a globals_scheme \<Rightarrow> 'a globals_scheme" where
  "BF_integrate env g =
     (let g = BF_init_spin g;
          g = BF_call_integrator env g;
          g = BF_log_rows env g
      in g\<lparr>offset := 0\<rparr>)"

text \<open>
  \<^verbatim>\<open>BruteForceIntegration\<close> is a sequence of five blocks, each with its own guard; the
  model has one function per block, in the order of the source.

  First block: remember in \<^verbatim>\<open>BFPolmin\<close> whether the previous step was below the
  threshold, then find the smallest field magnitude of this step.
\<close>

definition BF_block_min :: "dense \<Rightarrow> 'a globals_scheme \<Rightarrow> 'a globals_scheme" where
  "BF_block_min d g =
     (let g = g\<lparr>dxsav := 1 / 10 ^ 9\<rparr>;
          g = (if BFBmin g < BFTargetB g then g\<lparr>BFPolmin := True\<rparr>
               else if BFBmin g \<ge> BFTargetB g then g\<lparr>BFPolmin := False\<rparr> else g);
          g = g\<lparr>BFBmin := 10\<rparr>
      in BF_scan_min d g)"

text \<open>Second block ("output of polarisation after BF int completed").\<close>

definition BF_block_prob :: "spin_env \<Rightarrow> 'a globals_scheme \<Rightarrow> 'a globals_scheme" where
  "BF_block_prob env g =
     (if BFBmin g > BFTargetB g \<and> BFPolmin g then BF_update_prob env g else g)"

text \<open>Third block: above the threshold the next integration starts with a fresh spin.\<close>

definition BF_block_firstint :: "'a globals_scheme \<Rightarrow> 'a globals_scheme" where
  "BF_block_firstint g = (if BFBmin g > BFTargetB g then g\<lparr>firstint := True\<rparr> else g)"

text \<open>Fourth block: below the threshold the step's samples go to the buffer.\<close>

definition BF_block_append :: "spin_env \<Rightarrow> dense \<Rightarrow> 'a globals_scheme \<Rightarrow> 'a globals_scheme" where
  "BF_block_append env d g = (if BFBmin g < BFTargetB g then BF_append env d g else g)"

text \<open>Fifth block ("Perform integration").\<close>

definition BF_integration_due :: "'a globals_scheme \<Rightarrow> bool" where
  "BF_integration_due g \<longleftrightarrow>
     (BFBmin g \<ge> BFTargetB g \<and> offset g \<ge> 10) \<or> offset g \<ge> 2000"

definition BF_block_integrate :: "spin_env \<Rightarrow> 'a globals_scheme \<Rightarrow> 'a globals_scheme" where
  "BF_block_integrate env g = (if BF_integration_due g then BF_integrate env g else g)"

text \<open>The first four blocks, and the whole function.\<close>

definition BF_prepare :: "spin_env \<Rightarrow> dense \<Rightarrow> 'a globals_scheme \<Rightarrow> 'a globals_scheme" where
  "BF_prepare env d g =
     (let g = BF_block_min d g;
          g = BF_block_prob env g;
          g = BF_block_firstint g
      in BF_block_append env d g)"

definition BruteForceIntegration ::
  "spin_env \<Rightarrow> dense \<Rightarrow> 'a globals_scheme \<Rightarrow> 'a globals_scheme" where
  "BruteForceIntegration env d g = BF_block_integrate env (BF_prepare env d g)"

subsection \<open>Quantities used to state what the blocks do\<close>

text \<open>
  The value of \<^verbatim>\<open>BFBmin\<close> after the scan of a step: the scan starts from 10 and keeps
  the smallest \<^verbatim>\<open>Bp[13][klauf]\<close>.
\<close>

definition step_Bmin :: "dense \<Rightarrow> real" where
  "step_Bmin d = fold (\<lambda>klauf m. if Bp13 (Bp d klauf) < m then Bp13 (Bp d klauf) else m)
                      [1..kount d] 10"

text \<open>What one pass of the copy loop does to the two buffer arrays.\<close>

definition store_time :: "dense \<Rightarrow> int \<Rightarrow> int \<Rightarrow> int \<Rightarrow> (int \<Rightarrow> real) \<Rightarrow> (int \<Rightarrow> real)" where
  "store_time d off klaufstart klauf t = t(off + klauf - (klaufstart - 1) := xp d klauf)"

definition store_field ::
  "spin_env \<Rightarrow> dense \<Rightarrow> int \<Rightarrow> int \<Rightarrow> int \<Rightarrow> (int \<Rightarrow> int \<Rightarrow> real) \<Rightarrow> (int \<Rightarrow> int \<Rightarrow> real)" where
  "store_field env d off klaufstart klauf f =
     (let i = off + klauf - (klaufstart - 1);
          c = CylKartCoord env (Bp1 (Bp d klauf)) (Bp5 (Bp d klauf)) (Bp9 (Bp d klauf))
                (y5 (yp d klauf))
      in f(1 := (f 1)(i := c1 c),
           2 := (f 2)(i := c2 c),
           3 := (f 3)(i := c3 c),
           4 := (f 4)(i := y1 (yp d klauf)),
           5 := (f 5)(i := y3 (yp d klauf))))"

text \<open>The value stored in row \<open>j\<close> of \<^verbatim>\<open>BFField\<close> for the sample \<open>klauf\<close>.\<close>

definition stored_field :: "spin_env \<Rightarrow> dense \<Rightarrow> int \<Rightarrow> int \<Rightarrow> real" where
  "stored_field env d j klauf =
     (let c = CylKartCoord env (Bp1 (Bp d klauf)) (Bp5 (Bp d klauf)) (Bp9 (Bp d klauf))
                (y5 (yp d klauf))
      in if j = 1 then c1 c else if j = 2 then c2 c else if j = 3 then c3 c
         else if j = 4 then y1 (yp d klauf) else y3 (yp d klauf))"

text \<open>
  The spin vector handed to the Bloch integrator, its result on the buffer as it stands,
  and the output modes that log the spin.
\<close>

definition BF_start_spin :: "'a globals_scheme \<Rightarrow> vec3" where
  "BF_start_spin g =
     (if firstint g then
        (let w = sqrt ((BFField g 1 1)\<^sup>2 + (BFField g 2 1)\<^sup>2 + (BFField g 3 1)\<^sup>2)
         in \<lparr>c1 = (BFField g 1 1 / w) * 0.5, c2 = (BFField g 2 1 / w) * 0.5,
             c3 = (BFField g 3 1 / w) * 0.5\<rparr>)
      else I_n g)"

definition BF_run :: "spin_env \<Rightarrow> 'a globals_scheme \<Rightarrow> bloch_out" where
  "BF_run env g = BFodeintrk env (BF_start_spin g) (BFtime g 1) (BFtime g (offset g))
                    (BFtime g) (BFField g) (offset g)"

definition BF_logmode :: "spin_env \<Rightarrow> 'a globals_scheme \<Rightarrow> bool" where
  "BF_logmode env g \<longleftrightarrow> ausgabewunsch g = OUTPUT_EVERYTHINGandSPIN env
                            \<or> ausgabewunsch g = OUTPUT_ENDPOINTSandSPIN env"

text \<open>
  A Bloch integration announces itself on the terminal (\<^verbatim>\<open>"|I| after ..."\<close>);
  \<open>bloch_runs\<close> counts these messages.
\<close>

primrec is_I_after :: "msg \<Rightarrow> bool" where
  "is_I_after (Msg_I_before a b c d e) = False"
| "is_I_after (Msg_I_after a b) = True"
| "is_I_after (Msg_spin_flipped a b) = False"
| "is_I_after (Msg_Ekin_negative a) = False"
| "is_I_after (Msg_new_file f) = False"

definition bloch_runs :: "msg list \<Rightarrow> nat" where
  "bloch_runs ms = length (filter is_I_after ms)"

primrec is_Row :: "line \<Rightarrow> bool" where
  "is_Row (Header h) = False"
| "is_Row (Row r) = True"

section \<open>Concrete inputs for the examples\<close>

definition bfield_zero :: bfield where
  "bfield_zero = \<lparr>Br = 0, dBrdr = 0, dBrdphi = 0, dBrdz = 0, Bphi = 0, dBphidr = 0,
     dBphidphi = 0, dBphidz = 0, Bz = 0, dBzdr = 0, dBzdphi = 0, dBzdz = 0, Bws = 0,
     dBdr = 0, dBdphi = 0, dBdz = 0\<rparr>"


definition motion0 :: motion where
  "motion0 = \<lparr>protneut = NEUTRON, polarisation = POLARISATION_GOOD, BruteForce = True,
     M = m_n, hfs = 0, mu_n = 0, mumB = 0, Qm0 = Qm0_init, H = 0, NSF = 0, firstint = True,
     stopall = 0, kennz = 0,
     B = bfield_zero,
     E = \<lparr>Er = 0, Ephi = 0, Ez = 0\<rparr>\<rparr>"

definition fields0 :: fields_env where
  "fields0 = \<lparr>BFeld = (\<lambda>r phi z t. bfield_zero\<lparr>Bz := 1, Bws := 1, dBdr := 2, dBdphi := 3, dBdz := 5\<rparr>),
     EFeld = (\<lambda>r phi z. \<lparr>Er = 1, Ephi = 2, Ez = 3\<rparr>),
     Entkommen = (\<lambda>y x h sk. sk)\<rparr>"

definition yvec0 :: yvec where
  "yvec0 = \<lparr>y1 = 2, y2 = 1, y3 = 1, y4 = 3, y5 = 0, y6 = 1\<rparr>"

text \<open>
  A tracking state of a neutron run in brute-force mode (file-scope initial values where
  the source has them), a Bloch integrator that returns a fixed spin of length one half
  in a field along \<open>z\<close>, and an accepted step with two dense samples of equal field
  magnitude \<open>b\<close>.
\<close>

definition zero3 :: vec3 where "zero3 = \<lparr>c1 = 0, c2 = 0, c3 = 0\<rparr>"

definition globals_start :: globals where
  "globals_start = \<lparr>protneut = NEUTRON, polarisation = POLARISATION_GOOD, BruteForce = True,
     M = m_n, hfs = - 1, mu_n = - mu_nSI / ele_e, mumB = (- mu_nSI / ele_e) / m_n,
     Qm0 = Qm0_init, H = 0, NSF = 0, firstint = False, stopall = 0, kennz = 0,
     B = bfield_zero,
     E = \<lparr>Er = 0, Ephi = 0, Ez = 0\<rparr>,
     dxsav = 1 / 10 ^ 5, BFBmin = 10, BFTargetB = 1 / 10, BFPolmin = False, BFpol = 1 / 2,
     BFlogpol = 0, BFsurvprob = 1, BFflipprob = 0, flipspin = True, rando = 0, mt_pos = 0,
     offset = 0, BFtime = (\<lambda>i. 0), BFField = (\<lambda>j i. 0), BFBws = (\<lambda>i. 0),
     I_n = \<lparr>c1 = 0, c2 = 0, c3 = 1 / 2\<rparr>, gammaend = 0, BFkount = 0, BFcount = 0,
     BFxp = (\<lambda>i. 0), BFyp = (\<lambda>i. zero3), BFypFields = (\<lambda>i. zero3),
     ausgabewunsch = 5, BFZeilencount = 0, BFFilecount = 1,
     BFLOG = fopen_w (BFFile ''./out'' 0 1), Zeilencount = 0, Filecount = 1,
     OUTFILE1 = fopen_w (TrackFile ''./out'' 0 1), closed = [],
     outpath = ''./out'', jobnumber = 0, delx_n = 0, stdout = []\<rparr>"

definition spin_env0 :: spin_env where
  "spin_env0 = \<lparr>
     BFodeintrk = (\<lambda>I t0 t1 bt bf n.
        \<lparr>I_end = \<lparr>c1 = 3 / 10, c2 = 0, c3 = 2 / 5\<rparr>, o_BFkount = 1, o_BFxp = (\<lambda>k. t1),
         o_BFyp = (\<lambda>k. \<lparr>c1 = 3 / 10, c2 = 0, c3 = 2 / 5\<rparr>),
         o_BFypFields = (\<lambda>k. \<lparr>c1 = 0, c2 = 0, c3 = 1\<rparr>)\<rparr>),
     CylKartCoord = (\<lambda>br bphi bz phi.
        \<lparr>c1 = br * cos phi - bphi * sin phi, c2 = br * sin phi + bphi * cos phi, c3 = bz\<rparr>),
     mt_double = (\<lambda>n. 0),
     OUTPUT_EVERYTHING = 1, OUTPUT_EVERYTHINGandSPIN = 3, OUTPUT_ENDPOINTSandSPIN = 4\<rparr>"

text \<open>The same with a Bloch integrator that returns the spin opposite to the field.\<close>

definition spin_env_reversed :: spin_env where
  "spin_env_reversed = spin_env0\<lparr>
     BFodeintrk := (\<lambda>I t0 t1 bt bf n.
        \<lparr>I_end = \<lparr>c1 = 0, c2 = 0, c3 = - 1 / 2\<rparr>, o_BFkount = 1, o_BFxp = (\<lambda>k. t1),
         o_BFyp = (\<lambda>k. \<lparr>c1 = 0, c2 = 0, c3 = - 1 / 2\<rparr>),
         o_BFypFields = (\<lambda>k. \<lparr>c1 = 0, c2 = 0, c3 = 1\<rparr>)\<rparr>)\<rparr>"

definition dense_of :: "real \<Rightarrow> dense" where
  "dense_of b = \<lparr>kount = 2, xp = (\<lambda>k. of_int k / 1000),
     yp = (\<lambda>k. \<lparr>y1 = 3 / 10, y2 = 1, y3 = 1 / 2, y4 = 0, y5 = 0, y6 = 0\<rparr>),
     Bp = (\<lambda>k. \<lparr>Bp1 = 0, Bp2 = 0, Bp3 = 0, Bp4 = 0, Bp5 = 0, Bp6 = 0, Bp7 = 0, Bp8 = 0,
                Bp9 = b, Bp10 = 0, Bp11 = 0, Bp12 = 0, Bp13 = b, Ep1 = 0, Ep2 = 0\<rparr>)\<rparr>"

section \<open>The command line, the seed and the summary (src/main.cpp, bahnen2005.c)\<close>

text \<open>
  \<^verbatim>\<open>argv\<close> is the list of arguments with the program name at index 0, so \<^verbatim>\<open>argc\<close> is its
  length.  The extraction operators of the standard library
  (\<^verbatim>\<open>istringstream(s) >> n\<close>) are parameters, and so is everything
  \<^verbatim>\<open>main\<close> calls that is not among the sources: reading the configuration, opening a
  result file, creating and integrating a particle.
\<close>

datatype simType =
  PARTICLE | SIM_BF_ONLY | BF_CUT | GEOMETRY | MR_THETA_OUT_ANGLE | MR_THETA_I_ENERGY
| OtherSim int

text \<open>The result files of the diagnostic modes.\<close>

datatype outfile =
  MR_SldAngDRP_file | MR_Tot_DRP_file | BF_out_file | BFCut_out_file | Geometry_out_file

record cli_args =
  a_jobnumber :: int
  a_inpath :: string
  a_outpath :: string
  a_seed :: "64 word"

definition usage_line :: string where
  "usage_line = ''Usage:\<newline>PENTrack [jobnumber [path/to/in/files [path/to/out/files [seed]]]]''"

subsection \<open>The end of a particle\<close>

text \<open>The events of the table of stop codes (section 7 of the specification).\<close>

datatype fate =
  AbsorbedOnSurface | AbsorbedInBulk | NotCategorized | OutOfSimulationTime
| LeftBoundingBox | IntegrationError | NeutronDecayed | NoInitialPosition
| GeometryPredicateFailure | OtherGeometryError

definition all_fates :: "fate list" where
  "all_fates = [AbsorbedOnSurface, AbsorbedInBulk, NotCategorized, OutOfSimulationTime,
     LeftBoundingBox, IntegrationError, NeutronDecayed, NoInitialPosition,
     GeometryPredicateFailure, OtherGeometryError]"

text \<open>
  Modelled from the spec: \<^verbatim>\<open>TParticle::Integrate\<close> and \<^verbatim>\<open>TParticle::GetStopID\<close>
  (\<^verbatim>\<open>particle.h\<close> is not among the sources).  By the specification a particle terminates
  by one of the events of the table, and the stop code attached to it is the integer
  that the table gives to the event.
\<close>

definition GetStopID :: "fate \<Rightarrow> int" where
  "GetStopID f =
     (case f of
        AbsorbedOnSurface \<Rightarrow> 2
      | AbsorbedInBulk \<Rightarrow> 1
      | NotCategorized \<Rightarrow> 0
      | OutOfSimulationTime \<Rightarrow> - 1
      | LeftBoundingBox \<Rightarrow> - 2
      | IntegrationError \<Rightarrow> - 3
      | NeutronDecayed \<Rightarrow> - 4
      | NoInitialPosition \<Rightarrow> - 5
      | GeometryPredicateFailure \<Rightarrow> - 6
      | OtherGeometryError \<Rightarrow> - 7)"

text \<open>
  Modelled from the spec: the lifetime of a neutron (the source of particles is not among
  the sources).  By the specification it is sampled from the exponential distribution with
  \<open>\<tau> = 885.7 s\<close>, the constant \<^verbatim>\<open>tau\<close> of bahnen2005.c; the model takes the sample from a
  uniform number \<open>u\<close> in \<open>[0, 1)\<close> by inversion of the distribution function.
\<close>

definition neutron_lifetime :: "real \<Rightarrow> real" where
  "neutron_lifetime u = - tau * ln (1 - u)"

text \<open>
  Modelled from the spec: how a neutron that is not stopped by another event ends
  (\<^verbatim>\<open>TParticle::Integrate\<close>).  By the specification it decays when its sampled lifetime is
  over, and it runs out of simulation time if the configured time is over first.
\<close>

definition time_fate :: "real \<Rightarrow> real \<Rightarrow> fate" where
  "time_fate simtime lifetime =
     (if lifetime < simtime then NeutronDecayed else OutOfSimulationTime)"

text \<open>
  An integrated particle as \<^verbatim>\<open>main\<close> reads it: its name, the event that ended it, its
  number of steps, and the same for each of its secondaries.
\<close>

record presult =
  p_name :: string
  p_fate :: fate
  p_steps :: int
  p_secondaries :: "(string \<times> fate \<times> int) list"

record cpp_env =
  read_int :: "string \<Rightarrow> int"
  read_uint64 :: "string \<Rightarrow> 64 word"
  cfg_simtype :: "string \<Rightarrow> simType"
  cfg_simcount :: "string \<Rightarrow> int"
  cfg_secondaries :: "string \<Rightarrow> int"
  can_open :: "outfile \<Rightarrow> bool"
  simulate :: "cli_args \<Rightarrow> int \<Rightarrow> int \<Rightarrow> presult"

text \<open>The argument handling of \<^verbatim>\<open>main\<close> after the test for \<^verbatim>\<open>-h\<close>.\<close>

definition parse_args :: "cpp_env \<Rightarrow> string list \<Rightarrow> cli_args" where
  "parse_args env argv =
     (let a = \<lparr>a_jobnumber = 0, a_inpath = ''./in'', a_outpath = ''./out'', a_seed = 0\<rparr>;
          a = (if length argv > 1 then a\<lparr>a_jobnumber := read_int env (argv ! 1)\<rparr> else a);
          a = (if length argv > 2 then a\<lparr>a_inpath := argv ! 2\<rparr> else a);
          a = (if length argv > 3 then a\<lparr>a_outpath := argv ! 3\<rparr> else a)
      in if length argv > 4 then a\<lparr>a_seed := read_uint64 env (argv ! 4)\<rparr> else a)"

subsection \<open>The counters of stop codes and \<^verbatim>\<open>OutputCodes\<close>\<close>

text \<open>
  \<^verbatim>\<open>map<string, map<int, int> >\<close>: the outer map is an association list in key order
  (the order of iteration); the inner map is total with default 0, which is what
  \<^verbatim>\<open>operator[]\<close> gives for a missing key.  A counter goes up by one per integrated
  particle and is modelled as an integer: a run that integrates \<open>2\<^sup>3\<^sup>1\<close> particles of one
  name and code is outside the model.
\<close>

type_synonym ID_counter = "(string \<times> (int \<Rightarrow> int)) list"

fun increment :: "string \<Rightarrow> int \<Rightarrow> ID_counter \<Rightarrow> ID_counter" where
  "increment n c [] = [(n, (\<lambda>k. 0)(c := 1))]"
| "increment n c ((k, m) # rest) =
     (if n = k then (k, m(c := m c + 1)) # rest
      else if n < k then (n, (\<lambda>k. 0)(c := 1)) # (k, m) # rest
      else (k, m) # increment n c rest)"

definition counter :: "ID_counter \<Rightarrow> string \<Rightarrow> int \<Rightarrow> int" where
  "counter idc n c = (case map_of idc n of None \<Rightarrow> 0 | Some m \<Rightarrow> m c)"

text \<open>A printed line of the summary: code, count, particle name, text.\<close>

record fate_row =
  f_code :: int
  f_count :: int
  f_name :: string
  f_text :: string

definition OutputCodes_kind :: "string \<Rightarrow> (int \<Rightarrow> int) \<Rightarrow> fate_row list" where
  "OutputCodes_kind name counts =
     [\<lparr>f_code = 2, f_count = counts 2, f_name = name, f_text = ''were absorbed on a surface''\<rparr>,
      \<lparr>f_code = 1, f_count = counts 1, f_name = name, f_text = ''were absorbed in a material''\<rparr>,
      \<lparr>f_code = 0, f_count = counts 0, f_name = name, f_text = ''were not categorized''\<rparr>,
      \<lparr>f_code = - 1, f_count = counts (- 1), f_name = name, f_text = ''did not finish''\<rparr>,
      \<lparr>f_code = - 2, f_count = counts (- 2), f_name = name, f_text = ''hit outer boundaries''\<rparr>,
      \<lparr>f_code = - 3, f_count = counts (- 3), f_name = name,
        f_text = ''produced integration error''\<rparr>,
      \<lparr>f_code = - 4, f_count = counts (- 4), f_name = name, f_text = ''decayed''\<rparr>,
      \<lparr>f_code = - 5, f_count = counts (- 5), f_name = name,
        f_text = ''found no initial position''\<rparr>,
      \<lparr>f_code = - 6, f_count = counts (- 6), f_name = name,
        f_text = ''encountered CGAL error''\<rparr>,
      \<lparr>f_code = - 7, f_count = counts (- 7), f_name = name,
        f_text = ''encountered geometry error''\<rparr>]"

definition OutputCodes :: "ID_counter \<Rightarrow> fate_row list" where
  "OutputCodes idc = concat (map (\<lambda>(name, counts). OutputCodes_kind name counts) idc)"

text \<open>
  The loop over the particles: every integrated particle, primary or secondary, is
  counted under its name and stop code.  \<^verbatim>\<open>int ntotalsteps\<close> is 32 bits wide; its sum
  wraps (two's complement), and \<open>sint\<close> reads it.
\<close>

definition count_secondary ::
  "string \<times> fate \<times> int \<Rightarrow> ID_counter \<times> 32 word \<Rightarrow> ID_counter \<times> 32 word" where
  "count_secondary s st = (case s of (n, f, steps) \<Rightarrow>
     (increment n (GetStopID f) (fst st), snd st + word_of_int steps))"

definition count_particle ::
  "int \<Rightarrow> presult \<Rightarrow> ID_counter \<times> 32 word \<Rightarrow> ID_counter \<times> 32 word" where
  "count_particle secondaries p st =
     (let st = (increment (p_name p) (GetStopID (p_fate p)) (fst st),
                snd st + word_of_int (p_steps p))
      in if secondaries = 1 then fold count_secondary (p_secondaries p) st else st)"

subsection \<open>main\<close>

record run =
  exit_status :: int
  usage_shown :: bool
  args :: "cli_args option"
  generator_seed :: "64 word option"
  srand_seed :: "32 word option"
  written :: "outfile list"
  summary :: "fate_row list"
  ntotalsteps :: "32 word"

definition run0 :: run where
  "run0 = \<lparr>exit_status = 0, usage_shown = False, args = None, generator_seed = None,
           srand_seed = None, written = [], summary = [], ntotalsteps = 0\<rparr>"

text \<open>
  The functions of the diagnostic modes open their result file and write a table to it.
  Four of them test the stream and call \<^verbatim>\<open>exit(-1)\<close> if it is not open;
  \<^verbatim>\<open>PrintGeometry\<close> does not test it, so that with a file that cannot be opened nothing
  is written and the function returns all the same.  The result is \<open>None\<close> for
  \<^verbatim>\<open>exit(-1)\<close>, and otherwise the files that have been written.  The tables themselves
  are computed by functions that are not among the sources and are left out.
\<close>

definition PrintMROutAngle :: "cpp_env \<Rightarrow> outfile list option" where
  "PrintMROutAngle env =
     (if \<not> can_open env MR_SldAngDRP_file then None else Some [MR_SldAngDRP_file])"

definition PrintMRThetaIEnergy :: "cpp_env \<Rightarrow> outfile list option" where
  "PrintMRThetaIEnergy env =
     (if \<not> can_open env MR_Tot_DRP_file then None else Some [MR_Tot_DRP_file])"

definition PrintBFieldCut :: "cpp_env \<Rightarrow> outfile list option" where
  "PrintBFieldCut env =
     (if \<not> can_open env BFCut_out_file then None else Some [BFCut_out_file])"

definition PrintBField :: "cpp_env \<Rightarrow> outfile list option" where
  "PrintBField env =
     (if \<not> can_open env BF_out_file then None else Some [BF_out_file])"

definition PrintGeometry :: "cpp_env \<Rightarrow> outfile list option" where
  "PrintGeometry env =
     Some (if can_open env Geometry_out_file then [Geometry_out_file] else [])"

text \<open>\<^verbatim>\<open>Print...(...); return 0;\<close> in \<^verbatim>\<open>main\<close>.\<close>

definition print_and_return :: "run \<Rightarrow> outfile list option \<Rightarrow> run" where
  "print_and_return r res =
     (case res of None \<Rightarrow> r\<lparr>exit_status := - 1\<rparr>
      | Some fs \<Rightarrow> r\<lparr>written := fs, exit_status := 0\<rparr>)"

text \<open>
  \<^verbatim>\<open>main\<close> of src/main.cpp (\<open>main_run\<close> is the part after the test for \<^verbatim>\<open>-h\<close>);
  \<open>clock\<close> is what \<^verbatim>\<open>time(NULL)\<close> returns.  \<^verbatim>\<open>return n\<close> from
  \<^verbatim>\<open>main\<close> and \<^verbatim>\<open>exit(n)\<close> both end the run with status \<open>n\<close>.  The signal handler
  (\<^verbatim>\<open>exit(1)\<close>) is not modelled.  \<open>generator_seed\<close> is the seed that \<^verbatim>\<open>main\<close> hands
  to the constructor of the generator.
\<close>

definition main_run :: "cpp_env \<Rightarrow> int \<Rightarrow> string list \<Rightarrow> run" where
  "main_run env clock argv =
     (let a = parse_args env argv;
          r = run0\<lparr>args := Some a\<rparr>;
          simtype = cfg_simtype env (a_inpath a)
      in if simtype = MR_THETA_OUT_ANGLE then print_and_return r (PrintMROutAngle env)
         else if simtype = MR_THETA_I_ENERGY then print_and_return r (PrintMRThetaIEnergy env)
         else if simtype = SIM_BF_ONLY then print_and_return r (PrintBField env)
         else if simtype = BF_CUT then print_and_return r (PrintBFieldCut env)
         else if simtype = GEOMETRY then
           print_and_return (r\<lparr>srand_seed := Some (word_of_int clock)\<rparr>) (PrintGeometry env)
         else
           (let r = r\<lparr>generator_seed := Some (a_seed a)\<rparr>
            in if simtype = PARTICLE then
                 (let (idc, n) = fold (\<lambda>iMC. count_particle (cfg_secondaries env (a_inpath a))
                                                 (simulate env a clock iMC))
                                      [1..cfg_simcount env (a_inpath a)] ([], 0)
                  in r\<lparr>summary := OutputCodes idc, ntotalsteps := n, exit_status := 0\<rparr>)
               else r\<lparr>exit_status := - 1\<rparr>))"

definition main_cpp :: "cpp_env \<Rightarrow> int \<Rightarrow> string list \<Rightarrow> run" where
  "main_cpp env clock argv =
     (if length argv > 1 \<and> argv ! 1 = ''-h'' then run0\<lparr>usage_shown := True, exit_status := 0\<rparr>
      else main_run env clock argv)"

subsection \<open>bahnen2005.c: the seed\<close>

text \<open>
  \<^verbatim>\<open>mt_set(v_mt_state, (unsigned long)mytime + jobnumber)\<close>, with \<^verbatim>\<open>unsigned long\<close> of
  64 bits: the sum wraps.
\<close>

definition bahnen_seed :: "int \<Rightarrow> int \<Rightarrow> 64 word" where
  "bahnen_seed mytime job = word_of_int mytime + word_of_int job"

subsection \<open>Quantities used to state what the summary shows\<close>

text \<open>How the texts printed by \<^verbatim>\<open>OutputCodes\<close> are read.\<close>

definition fate_of_text :: "string \<Rightarrow> fate option" where
  "fate_of_text t =
     (if t = ''were absorbed on a surface'' then Some AbsorbedOnSurface
      else if t = ''were absorbed in a material'' then Some AbsorbedInBulk
      else if t = ''were not categorized'' then Some NotCategorized
      else if t = ''did not finish'' then Some OutOfSimulationTime
      else if t = ''hit outer boundaries'' then Some LeftBoundingBox
      else if t = ''produced integration error'' then Some IntegrationError
      else if t = ''decayed'' then Some NeutronDecayed
      else if t = ''found no initial position'' then Some NoInitialPosition
      else if t = ''encountered CGAL error'' then Some GeometryPredicateFailure
      else if t = ''encountered geometry error'' then Some OtherGeometryError
      else None)"

text \<open>
  The particles integrated in a run, as (name, stop code): primaries, and secondaries if
  enabled.
\<close>

definition integrated :: "int \<Rightarrow> presult list \<Rightarrow> (string \<times> int) list" where
  "integrated secondaries ps =
     concat (map (\<lambda>p. (p_name p, GetStopID (p_fate p))
                       # (if secondaries = 1
                          then map (\<lambda>(n, f, k). (n, GetStopID f)) (p_secondaries p)
                          else [])) ps)"

definition tally :: "(string \<times> int) list \<Rightarrow> string \<Rightarrow> int \<Rightarrow> int" where
  "tally xs n c = int (length (filter (\<lambda>x. x = (n, c)) xs))"

definition idc_ok :: "ID_counter \<Rightarrow> (string \<times> int) list \<Rightarrow> bool" where
  "idc_ok idc xs \<longleftrightarrow> sorted_wrt (<) (map fst idc) \<and> fst ` set idc = fst ` set xs
                     \<and> (\<forall>n c. counter idc n c = tally xs n c)"

text \<open>
  A run of two neutrons: the first decays and leaves a proton and an electron that leave
  the bounding box, the second is absorbed on a surface.
\<close>

definition cpp_env0 :: cpp_env where
  "cpp_env0 = \<lparr>read_int = (\<lambda>s. if s = ''7'' then 7 else 0),
     read_uint64 = (\<lambda>s. if s = ''42'' then 42 else 0),
     cfg_simtype = (\<lambda>p. if p = ''./in'' then PARTICLE else OtherSim 99),
     cfg_simcount = (\<lambda>p. 2), cfg_secondaries = (\<lambda>p. 1), can_open = (\<lambda>f. True),
     simulate = (\<lambda>a clock i.
        \<lparr>p_name = ''neutron'', p_fate = (if i = 1 then NeutronDecayed else AbsorbedOnSurface),
         p_steps = 10,
         p_secondaries = (if i = 1 then [(''proton'', LeftBoundingBox, 5),
                                         (''electron'', LeftBoundingBox, 3)] else [])\<rparr>)\<rparr>"

section \<open>IntegrateParticle\<close>

text \<open>
  The start values that \<^verbatim>\<open>MCStartwerte\<close> dices, as one record for the parameter.
\<close>

record startvals =
  s_r_n :: real
  s_phi_n :: real
  s_z_n :: real
  s_Energie :: real
  s_alpha :: real
  s_gammaa :: real
  s_xstart :: real

text \<open>What \<^verbatim>\<open>odeint\<close> leaves behind: the state at the end of the step, the dense
  output, and the globals that \<^verbatim>\<open>derivs\<close> writes.\<close>

record ode_out =
  o_ystart :: yvec
  o_dense :: dense
  o_B :: bfield
  o_E :: efield
  o_stopall :: int
  o_kennz :: int
  o_Qm0 :: real

text \<open>
  Parameters of the particle loop: the functions it calls that are not among the sources.
  \<^verbatim>\<open>MCStartwerte\<close> dices start values from the random stream; \<^verbatim>\<open>GeomCheck\<close> says whether
  a start point is outside (1); \<^verbatim>\<open>odeint\<close> integrates \<^verbatim>\<open>derivs\<close> from \<^verbatim>\<open>x1\<close> to \<^verbatim>\<open>x2\<close>
  with the stepper selected by \<^verbatim>\<open>runge\<close>; \<open>flux_record\<close> is the record of the
  flux-line block (\<^verbatim>\<open>protneut == 99\<close>); \<^verbatim>\<open>fopen\<close> may fail.

  Modelled from the spec: \<^verbatim>\<open>ausgabe\<close> (not among the sources) emits one end-log record
  for the terminated particle; its numbers are the parameter \<open>ausgabe\<close>, given the end
  time, the end state, the end speed, the energy and the end angle.
\<close>

record track_env =
  MCStartwerte :: "real \<Rightarrow> startvals \<Rightarrow> nat \<Rightarrow> startvals \<times> nat"
  GeomCheck :: "real \<Rightarrow> real \<Rightarrow> real \<Rightarrow> int"
  odeint :: "int \<Rightarrow> yvec \<Rightarrow> real \<Rightarrow> real \<Rightarrow> motion \<Rightarrow> ode_out"
  ausgabe :: "real \<Rightarrow> yvec \<Rightarrow> real \<Rightarrow> real \<Rightarrow> real \<Rightarrow> motion \<Rightarrow> real list"
  flux_record :: "real \<Rightarrow> real \<Rightarrow> real \<Rightarrow> real \<Rightarrow> real list"
  fopen_ok :: "fname \<Rightarrow> bool"

record tracker = globals +
  MonteCarlo :: int
  Energie :: real
  EnergieE :: real
  r_n :: real
  r_ne :: real
  z_n :: real
  z_ne :: real
  alpha :: real
  alphae :: real
  gammaa :: real
  gammae :: real
  phi_n :: real
  phie :: real
  dphi :: real
  xstart :: real
  xend :: real
  x1 :: real
  x2 :: real
  delx :: real
  v_n :: real
  Ekin :: real
  Hstart :: real
  Hmax :: real
  bfeldwahl :: int
  ausgabewunschsave :: int
  runge :: int
  ystart :: yvec
  nintcalls :: real
  ntotalsteps :: real
  vend :: real
  BahnPointSaveTime :: real
  time_temp :: real
  timetemp :: real
  spinflipcheck :: int
  vlad :: real
  frac :: real
  logvlad :: real
  logfrac :: real
  iMC :: int
  ENDLOG :: stream
  STARTIN :: "string list"
  dense_out :: dense
  Bxcoor :: real
  Bycoor :: real
  Bzcoor :: real

subsection \<open>Start of a particle\<close>

text \<open>
  The resets at the top of \<^verbatim>\<open>IntegrateParticle\<close>.  Diagnostic counters that the modelled
  code never reads (absorber hits, reflections, trajectory length, the adiabaticity
  estimates) are left out, here and below.
\<close>

definition IP_reset :: "tracker \<Rightarrow> tracker" where
  "IP_reset g =
     g\<lparr>stopall := 0, kennz := 0, BFpol := 0.5, I_n := \<lparr>c1 = 0, c2 = 0, c3 = 0.5\<rparr>,
       offset := 0, BFsurvprob := 1, BFflipprob := 0, Hmax := 0, x2 := 0, x1 := 0\<rparr>"

definition get_start :: "tracker \<Rightarrow> startvals" where
  "get_start g = \<lparr>s_r_n = r_n g, s_phi_n = phi_n g, s_z_n = z_n g, s_Energie = Energie g,
                   s_alpha = alpha g, s_gammaa = gammaa g, s_xstart = xstart g\<rparr>"

definition set_start :: "startvals \<Rightarrow> tracker \<Rightarrow> tracker" where
  "set_start s g = g\<lparr>r_n := s_r_n s, phi_n := s_phi_n s, z_n := s_z_n s,
                      Energie := s_Energie s, alpha := s_alpha s, gammaa := s_gammaa s,
                      xstart := s_xstart s\<rparr>"

definition call_MCStartwerte :: "track_env \<Rightarrow> tracker \<Rightarrow> tracker" where
  "call_MCStartwerte te g =
     (let (s, p) = MCStartwerte te (delx g) (get_start g) (mt_pos g)
      in (set_start s g)\<lparr>mt_pos := p\<rparr>)"

text \<open>
  \<^verbatim>\<open>while(BadParticle==1)\<close>: dice until the start point is inside.  The loop need not
  end, so the result is optional.
\<close>

partial_function (option) IP_dice :: "track_env \<Rightarrow> tracker \<Rightarrow> tracker option" where
  "IP_dice te g =
     (let g = call_MCStartwerte te g
      in if GeomCheck te (r_n g) (z_n g) (phi_n g) = 1 then IP_dice te g else Some g)"

definition IP_montecarlo :: "track_env \<Rightarrow> tracker \<Rightarrow> tracker option" where
  "IP_montecarlo te g =
     (if MonteCarlo g = 1 then map_option (\<lambda>g. g\<lparr>x2 := xstart g\<rparr>) (IP_dice te g)
      else Some g)"

text \<open>
  \<^verbatim>\<open>MonteCarlo==2\<close>: the start file is read to its end (the \<^verbatim>\<open>sscanf\<close> is commented
  out); for protons the energy and direction are diced and the position put back (the
  source restores \<^verbatim>\<open>r_n\<close> and \<^verbatim>\<open>phi_n\<close>).
\<close>

definition IP_startfile :: "track_env \<Rightarrow> tracker \<Rightarrow> tracker" where
  "IP_startfile te g =
     (if MonteCarlo g = 2 then
        (let g = g\<lparr>STARTIN := []\<rparr>
         in if protneut g = PROTON then
              (let rtmp = r_n g; phitmp = phi_n g;
                   g = call_MCStartwerte te g
               in g\<lparr>r_n := rtmp, phi_n := phitmp\<rparr>)
            else g)
      else g)"

text \<open>
  The start check for neutrons.  \<open>Inl\<close> is the early \<^verbatim>\<open>return\<close>; \<open>Inr\<close> goes on.
  \<^verbatim>\<open>powl(x, 0.5)\<close> is the square root.
\<close>

definition IP_force_scan_end :: "tracker \<Rightarrow> tracker" where
  "IP_force_scan_end g =
     g\<lparr>Energie := EnergieE g + 1, z_n := z_ne g + 1, r_n := r_ne g + 1,
       alpha := alphae g + 1, gammaa := gammae g + 1\<rparr>"

definition IP_energy :: "fields_env \<Rightarrow> tracker \<Rightarrow> tracker + tracker" where
  "IP_energy fe g =
     (if protneut g = NEUTRON then
        (let g = g\<lparr>B := BFeld fe (r_n g) (phi_n g * conv) (z_n g) 0\<rparr>;
             g = g\<lparr>Ekin := Energie g - M g * gravconst * z_n g + mu_n g * Bws (B g)\<rparr>
         in if Ekin g \<ge> 0 then
              (let g = g\<lparr>v_n := sqrt (2 / M g * Ekin g)\<rparr>;
                   g = (if bfeldwahl g = 3 then g\<lparr>v_n := 1\<rparr> else g)
               in Inr (g\<lparr>ausgabewunsch := ausgabewunschsave g\<rparr>))
            else
              (let g = g\<lparr>v_n := 0\<rparr>;
                   g = g\<lparr>stopall := 1\<rparr>;
                   g = g\<lparr>ausgabewunsch := 5\<rparr>;
                   g = g\<lparr>stdout := stdout g @ [Msg_Ekin_negative (Ekin g)]\<rparr>
               in Inl (if MonteCarlo g \<noteq> 0 then IP_force_scan_end g else g)))
      else Inr g)"

subsection \<open>Start velocity and first point\<close>

definition IP_velocity :: "tracker \<Rightarrow> tracker" where
  "IP_velocity g =
     (let g = (if protneut g = PROTON then g\<lparr>v_n := sqrt (2 * Energie g / m_p)\<rparr> else g)
      in if protneut g = ELECTRONS then
           (let gammarel = Energie g / m_e / c_0 / c_0 + 1
            in g\<lparr>v_n := c_0 * sqrt (1 - 1 / (gammarel * gammarel))\<rparr>)
         else g)"

definition IP_ystart :: "fields_env \<Rightarrow> tracker \<Rightarrow> tracker" where
  "IP_ystart fe g =
     (if protneut g \<noteq> BF_ONLY then
        (let projz = cos (conv * gammaa g);
             vz_n = v_n g * projz;
             vtemp = v_n g * sin (conv * gammaa g);
             vr_n = vtemp * cos (conv * (alpha g - phi_n g));
             vphi_n = vtemp * sin (conv * (alpha g - phi_n g));
             g = g\<lparr>ystart := (ystart g)\<lparr>y1 := r_n g, y2 := vr_n, y3 := z_n g, y4 := vz_n,
                                        y5 := conv * phi_n g\<rparr>\<rparr>;
             g = (if r_n g \<noteq> 0 then g\<lparr>ystart := (ystart g)\<lparr>y6 := vphi_n / r_n g\<rparr>\<rparr>
                  else g\<lparr>ystart := (ystart g)\<lparr>y6 := 0\<rparr>\<rparr>);
             (sa, kz) = Entkommen fe (ystart g) (x2 g) (H g) (stopall g, kennz g)
         in g\<lparr>stopall := sa, kennz := kz\<rparr>)
      else g)"

definition IP_first_H :: "tracker \<Rightarrow> tracker" where
  "IP_first_H g =
     (let g = (if protneut g = NEUTRON then
                 g\<lparr>H := (m_n * gravconst * y3 (ystart g) + 0.5 * m_n * v_n g * v_n g
                          - mu_n g * Bws (B g)) * 10 ^ 9\<rparr>
               else if protneut g = PROTON then g\<lparr>H := 0.5 * m_p * v_n g * v_n g\<rparr>
               else if protneut g = ELECTRONS then
                 g\<lparr>H := c_0 * c_0 * m_e * (1 / sqrt (1 - v_n g * v_n g / (c_0 * c_0)) - 1)\<rparr>
               else g)
      in g\<lparr>Hmax := H g\<rparr>)"

subsection \<open>One pass of the tracking loop\<close>

text \<open>The source's \<^verbatim>\<open>pi\<close> is a variable with this value.\<close>

definition pi_c :: real where "pi_c = 3141592655359 / 10 ^ 12"

definition IP_stepsize :: "tracker \<Rightarrow> real" where
  "IP_stepsize g =
     (if Bws (B g) < BFTargetB g + 0.1 \<and> BruteForce g then delx g / 10
      else if Bws (B g) < BFTargetB g \<and> BruteForce g then delx g / 100
      else delx g)"

definition IP_wrap_phi :: "yvec \<Rightarrow> yvec" where
  "IP_wrap_phi y =
     (let y = (if y5 y > 2 * pi_c then y\<lparr>y5 := y5 y - 2 * pi_c\<rparr> else y)
      in if y5 y < - 2 * pi_c then y\<lparr>y5 := y5 y + 2 * pi_c\<rparr> else y)"

definition call_odeint :: "track_env \<Rightarrow> int \<Rightarrow> tracker \<Rightarrow> tracker" where
  "call_odeint te r g =
     (let res = odeint te r (ystart g) (x1 g) (x2 g) (motion.truncate g)
      in g\<lparr>ystart := o_ystart res, dense_out := o_dense res, B := o_B res, E := o_E res,
            stopall := o_stopall res, kennz := o_kennz res, Qm0 := o_Qm0 res\<rparr>)"

definition rel_energy :: "real \<Rightarrow> real \<Rightarrow> real" where
  "rel_energy m v = c_0 * c_0 * m * (1 / sqrt (1 - v * v / (c_0 * c_0)) - 1)"

definition speed :: "yvec \<Rightarrow> real" where
  "speed y = sqrt \<bar>y2 y * y2 y + y1 y * y1 y * y6 y * y6 y + y4 y * y4 y\<bar>"

text \<open>
  The speed and the energy \<^verbatim>\<open>H\<close> of a state \<open>y\<close> in a field of magnitude \<open>bws\<close>
  (neutrons in neV, protons and electrons relativistic in eV).
\<close>

definition IP_row_energy :: "yvec \<Rightarrow> real \<Rightarrow> tracker \<Rightarrow> tracker" where
  "IP_row_energy y bws g =
     (let g = g\<lparr>vend := speed y\<rparr>
      in if protneut g = NEUTRON then
           g\<lparr>H := (M g * gravconst * y3 y + 0.5 * M g * vend g * vend g - mu_n g * bws) * 10 ^ 9\<rparr>
         else if protneut g = PROTON \<or> protneut g = ELECTRONS then
           g\<lparr>H := rel_energy (M g) (vend g)\<rparr>
         else g)"

definition IP_energy_now :: "tracker \<Rightarrow> tracker" where
  "IP_energy_now g =
     (let g = IP_row_energy (ystart g) (Bws (B g)) g
      in if H g > Hmax g then g\<lparr>Hmax := H g\<rparr> else g)"

definition IP_savetime :: "tracker \<Rightarrow> tracker" where
  "IP_savetime g =
     (let g = (if \<not> BruteForce g \<and> protneut g \<noteq> PROTON \<and> protneut g \<noteq> ELECTRONS
               then g\<lparr>BahnPointSaveTime := 1 / 10 ^ 3\<rparr>
               else if BruteForce g then g\<lparr>BahnPointSaveTime := 1 / 10 ^ 4\<rparr> else g)
      in if spinflipcheck g = 3 then g\<lparr>BahnPointSaveTime := 1 / 10 ^ 4\<rparr> else g)"

text \<open>The start of a pass: field at the start point, length of the step, its time interval.\<close>

definition IP_times :: "fields_env \<Rightarrow> tracker \<Rightarrow> tracker" where
  "IP_times fe g =
     (let g = g\<lparr>B := BFeld fe (y1 (ystart g)) (y5 (ystart g)) (y3 (ystart g)) (x2 g)\<rparr>;
          g = g\<lparr>delx_n := IP_stepsize g\<rparr>;
          g = g\<lparr>x1 := x2 g\<rparr>;
          g = g\<lparr>x2 := x1 g + delx_n g\<rparr>
      in g\<lparr>ystart := IP_wrap_phi (ystart g)\<rparr>)"

definition IP_integrate :: "track_env \<Rightarrow> tracker \<Rightarrow> tracker" where
  "IP_integrate te g =
     (let g = (if runge g = 2 then call_odeint te 2 g else g);
          g = (if runge g = 1 then call_odeint te 1 g else g);
          g = g\<lparr>nintcalls := nintcalls g + 1\<rparr>
      in g\<lparr>ntotalsteps := ntotalsteps g + of_int (kount (dense_out g))\<rparr>)"

definition IP_advance :: "fields_env \<Rightarrow> track_env \<Rightarrow> tracker \<Rightarrow> tracker" where
  "IP_advance fe te g =
     (let g = IP_times fe g;
          g = IP_integrate te g;
          g = IP_energy_now g
      in IP_savetime g)"

definition IP_spin :: "spin_env \<Rightarrow> tracker \<Rightarrow> tracker" where
  "IP_spin se g = (if BruteForce g then BruteForceIntegration se (dense_out g) g else g)"

text \<open>The output of intermediate values to the track file.\<close>

definition IP_logs :: "tracker \<Rightarrow> tracker" where
  "IP_logs g =
     (if spinflipcheck g = 2 then
        (let g = (if vlad g > 1 / 10 ^ 99 then g\<lparr>logvlad := log 10 (vlad g)\<rparr> else g)
         in if frac g > 1 / 10 ^ 99 then g\<lparr>logfrac := log 10 (frac g)\<rparr> else g)
      else g)"

definition track_write_dense :: "int \<Rightarrow> tracker \<Rightarrow> tracker" where
  "track_write_dense klauf g =
     (let d = dense_out g; y = yp d klauf; b = Bp d klauf;
          g = g\<lparr>OUTFILE1 := fprintf (Row [of_int (iMC g), xp d klauf,
                  y1 y, y2 y, y3 y, y4 y, y5 y, y6 y, y1 y * cos (y5 y), y1 y * sin (y5 y),
                  vend g, H g, Bp1 b, Bp2 b, Bp3 b, Bp4 b, Bp5 b, Bp6 b, Bp7 b, Bp8 b,
                  Bp9 b, Bp10 b, Bp11 b, Bp12 b, Bp13 b, Ep1 b, Ep2 b, x2 g - x1 g,
                  logvlad g, logfrac g]) (OUTFILE1 g)\<rparr>
      in g\<lparr>Zeilencount := Zeilencount g + 1\<rparr>)"

definition track_row_dense :: "int \<Rightarrow> tracker \<Rightarrow> tracker" where
  "track_row_dense klauf g =
     (if xp (dense_out g) klauf - time_temp g \<ge> BahnPointSaveTime g then
        (let g = IP_row_energy (yp (dense_out g) klauf) (Bp13 (Bp (dense_out g) klauf)) g;
             g = IP_logs g;
             g = track_write_dense klauf g
         in g\<lparr>time_temp := xp (dense_out g) klauf\<rparr>)
      else g)"

definition track_write_end :: "tracker \<Rightarrow> tracker" where
  "track_write_end g =
     (let y = ystart g; b = B g;
          g = g\<lparr>OUTFILE1 := fprintf (Row [of_int (iMC g), x2 g,
                  y1 y, y2 y, y3 y, y4 y, y5 y, y6 y, y1 y * cos (y5 y), y1 y * sin (y5 y),
                  y2 y * y2 y + y6 y * y6 y * y1 y * y1 y + y4 y * y4 y, H g,
                  Br b, dBrdr b, dBrdphi b, dBrdz b, Bphi b, dBphidr b, dBphidphi b,
                  dBphidz b, Bz b, dBzdr b, dBzdphi b, dBzdz b, Bws b, Er (E g), Ez (E g),
                  x2 g - x1 g, logvlad g, logfrac g]) (OUTFILE1 g)\<rparr>
      in g\<lparr>Zeilencount := Zeilencount g + 1\<rparr>)"

definition track_row_end :: "fields_env \<Rightarrow> tracker \<Rightarrow> tracker" where
  "track_row_end fe g =
     (if x2 g - timetemp g \<ge> BahnPointSaveTime g then
        (let g = g\<lparr>B := BFeld fe (y1 (ystart g)) (y5 (ystart g)) (y3 (ystart g)) (x2 g)\<rparr>;
             g = IP_row_energy (ystart g) (Bws (B g)) g;
             g = IP_logs g;
             g = track_write_end g
         in g\<lparr>timetemp := x2 g\<rparr>)
      else g)"

definition track_output :: "fields_env \<Rightarrow> spin_env \<Rightarrow> tracker \<Rightarrow> tracker" where
  "track_output fe se g =
     (if (ausgabewunsch g = OUTPUT_EVERYTHING se \<or> ausgabewunsch g = OUTPUT_EVERYTHINGandSPIN se)
         \<and> x2 g - x1 g \<ge> BahnPointSaveTime g
      then fold track_row_dense [2..kount (dense_out g)] g
      else if (ausgabewunsch g = OUTPUT_EVERYTHING se
               \<or> ausgabewunsch g = OUTPUT_EVERYTHINGandSPIN se)
              \<and> x2 g - x1 g < BahnPointSaveTime g
      then track_row_end fe g
      else g)"

text \<open>
  The two rollover blocks.  The track file is reopened without a check of the handle;
  for the spin log a failed \<^verbatim>\<open>fopen\<close> ends the program with \<^verbatim>\<open>exit(1)\<close> (\<open>Inl 1\<close>).
\<close>

definition track_rollover :: "'a globals_scheme \<Rightarrow> 'a globals_scheme" where
  "track_rollover g =
     (if Zeilencount g > 40000 then
        (let g = g\<lparr>closed := closed g @ [OUTFILE1 g]\<rparr>;
             g = g\<lparr>Filecount := Filecount g + 1\<rparr>;
             g = g\<lparr>OUTFILE1 := fopen_w (TrackFile (outpath g) (jobnumber g) (Filecount g))\<rparr>;
             g = g\<lparr>OUTFILE1 := fprintf (Header track_header_rollover) (OUTFILE1 g)\<rparr>;
             g = g\<lparr>stdout := stdout g @ [Msg_new_file (sname (OUTFILE1 g))]\<rparr>
         in g\<lparr>Zeilencount := 1\<rparr>)
      else g)"

definition BF_rollover :: "(fname \<Rightarrow> bool) \<Rightarrow> 'a globals_scheme \<Rightarrow> int + 'a globals_scheme" where
  "BF_rollover can_fopen g =
     (if BFZeilencount g > 100000 \<and> BruteForce g then
        (let g = g\<lparr>closed := closed g @ [BFLOG g]\<rparr>;
             g = g\<lparr>BFFilecount := BFFilecount g + 1\<rparr>
         in if \<not> can_fopen (BFFile (outpath g) (jobnumber g) (BFFilecount g)) then Inl 1
            else
              (let g = g\<lparr>BFLOG := fopen_w (BFFile (outpath g) (jobnumber g) (BFFilecount g))\<rparr>;
                   g = g\<lparr>BFLOG := fprintf (Header BF_header) (BFLOG g)\<rparr>;
                   g = g\<lparr>stdout := stdout g @ [Msg_new_file (sname (BFLOG g))]\<rparr>
               in Inr (g\<lparr>BFZeilencount := 1\<rparr>)))
      else Inr g)"

definition call_Entkommen :: "fields_env \<Rightarrow> tracker \<Rightarrow> tracker" where
  "call_Entkommen fe g =
     (let (sa, kz) = Entkommen fe (ystart g) (x2 g) (H g) (stopall g, kennz g)
      in g\<lparr>stopall := sa, kennz := kz\<rparr>)"

definition IP_step :: "fields_env \<Rightarrow> spin_env \<Rightarrow> track_env \<Rightarrow> tracker \<Rightarrow> int + tracker" where
  "IP_step fe se te g =
     (let g = IP_advance fe te g;
          g = IP_spin se g;
          g = track_output fe se g;
          g = track_rollover g
      in case BF_rollover (fopen_ok te) g of
           Inl e \<Rightarrow> Inl e
         | Inr g \<Rightarrow> Inr (call_Entkommen fe g))"

text \<open>The \<^verbatim>\<open>do ... while\<close> loop of one particle.  It need not end.\<close>

partial_function (option) IP_loop ::
  "fields_env \<Rightarrow> spin_env \<Rightarrow> track_env \<Rightarrow> tracker \<Rightarrow> (int + tracker) option" where
  "IP_loop fe se te g =
     (case IP_step fe se te g of
        Inl e \<Rightarrow> Some (Inl e)
      | Inr g \<Rightarrow> if x2 g - xstart g \<le> xend g \<and> stopall g = 0 then IP_loop fe se te g
                 else Some (Inr g))"

subsection \<open>End of a particle and the whole function\<close>

text \<open>The C library's \<^verbatim>\<open>fmodl\<close>: the remainder with the sign of the dividend.\<close>

definition fmodl :: "real \<Rightarrow> real \<Rightarrow> real" where
  "fmodl x y = x - y * of_int (if 0 \<le> x / y then \<lfloor>x / y\<rfloor> else \<lceil>x / y\<rceil>)"

definition IP_end :: "track_env \<Rightarrow> tracker \<Rightarrow> tracker" where
  "IP_end te g =
     (let g = g\<lparr>timetemp := 0, time_temp := 0\<rparr>;
          g = g\<lparr>vend := speed (ystart g)\<rparr>;
          phitemp = y5 (ystart g) / conv;
          phiend = fmodl phitemp 360;
          phiend = (if phiend < 0 then 360 + phiend else phiend);
          g = (if protneut g = NEUTRON then
                 g\<lparr>H := (M g * gravconst * y3 (ystart g) + 0.5 * M g * vend g * vend g
                          - mu_n g * Bws (B g)) * 10 ^ 9\<rparr>
               else if protneut g = PROTON \<or> protneut g = ELECTRONS then
                 g\<lparr>H := rel_energy (M g) (v_n g)\<rparr>
               else g)
      in g\<lparr>ENDLOG := fprintf (Row (ausgabe te (x2 g) (ystart g) (vend g) (H g) phiend
                                       (motion.truncate g))) (ENDLOG g)\<rparr>)"

definition IP_track ::
  "fields_env \<Rightarrow> spin_env \<Rightarrow> track_env \<Rightarrow> tracker \<Rightarrow> (int + tracker) option" where
  "IP_track fe se te g =
     (if protneut g = NEUTRON \<or> protneut g = PROTON \<or> protneut g = ELECTRONS then
        (let g = (if BruteForce g then
                    g\<lparr>I_n := \<lparr>c1 = Bxcoor g / Bws (B g) * 0.5, c2 = Bycoor g / Bws (B g) * 0.5,
                                c3 = Bzcoor g / Bws (B g) * 0.5\<rparr>\<rparr>
                  else g);
             g = g\<lparr>timetemp := 0\<rparr>
         in map_option (map_sum (\<lambda>e. e) (IP_end te)) (IP_loop fe se te g))
      else Some (Inr g))"

text \<open>The flux-line block (\<^verbatim>\<open>protneut == 99\<close>) and the field output (\<^verbatim>\<open>BF_ONLY\<close>).\<close>

definition IP_fluxline :: "fields_env \<Rightarrow> track_env \<Rightarrow> tracker \<Rightarrow> tracker" where
  "IP_fluxline fe te g =
     (if protneut g = OtherKind 99 then
        (let g = g\<lparr>B := BFeld fe (r_n g) (phi_n g * conv) (z_n g) 500\<rparr>
         in g\<lparr>ENDLOG := fprintf (Row (flux_record te (r_n g) (phi_n g * conv) (z_n g)
                                          (Energie g))) (ENDLOG g)\<rparr>)
      else g)"

definition IP_bf_only :: "fields_env \<Rightarrow> tracker \<Rightarrow> tracker" where
  "IP_bf_only fe g =
     (if protneut g = BF_ONLY then
        (let g = g\<lparr>B := BFeld fe (r_n g) (phi_n g) (z_n g) 500\<rparr>;
             g = g\<lparr>B := (B g)\<lparr>Bws := sqrt (Br (B g) * Br (B g) + Bz (B g) * Bz (B g)
                                            + Bphi (B g) * Bphi (B g))\<rparr>\<rparr>;
             g = g\<lparr>ENDLOG := fprintf (Row [r_n g * 100, 0, z_n g * 100, Br (B g) * 10 ^ 4,
                      Bphi (B g) * 10 ^ 4, Bz (B g) * 10 ^ 4, 0, 0, Bws (B g)]) (ENDLOG g)\<rparr>
         in g\<lparr>Energie := (if 0 \<le> EnergieE g then of_int \<lfloor>EnergieE g\<rfloor> + 1 else 0)\<rparr>)
      else g)"

text \<open>The last block: in Monte-Carlo mode the scan loops of \<^verbatim>\<open>main\<close> shall run once.\<close>

definition IP_mc_end :: "tracker \<Rightarrow> tracker" where
  "IP_mc_end g =
     (if MonteCarlo g \<noteq> 0 then
        g\<lparr>Energie := EnergieE g + 1, z_n := z_ne g + 1, r_n := r_ne g + 1,
          alpha := alphae g + 1, gammaa := gammae g + 1, phi_n := phie g + 1\<rparr>
      else g)"

definition IP_prepare :: "track_env \<Rightarrow> tracker \<Rightarrow> tracker option" where
  "IP_prepare te g =
     map_option (\<lambda>g. let g = g\<lparr>Hstart := Energie g\<rparr>;
                          g = spin_setup g;
                          g = IP_startfile te g
                      in g\<lparr>kennz := 0, stopall := 0\<rparr>)
       (IP_montecarlo te (IP_reset g))"

definition IP_after_check ::
  "fields_env \<Rightarrow> spin_env \<Rightarrow> track_env \<Rightarrow> tracker \<Rightarrow> (int + tracker) option" where
  "IP_after_check fe se te g =
     (let g = IP_velocity g;
          g = IP_ystart fe g;
          g = IP_first_H g
      in map_option (map_sum (\<lambda>e. e) (\<lambda>g. IP_mc_end (IP_bf_only fe (IP_fluxline fe te g))))
           (IP_track fe se te g))"

text \<open>
  \<^verbatim>\<open>IntegrateParticle\<close>.  The result is \<open>None\<close> if one of its loops does not end,
  \<open>Some (Inl e)\<close> if the program exits with status \<open>e\<close>, and \<open>Some (Inr g)\<close> if the
  function returns with the globals \<open>g\<close>.
\<close>

definition IntegrateParticle ::
  "fields_env \<Rightarrow> spin_env \<Rightarrow> track_env \<Rightarrow> tracker \<Rightarrow> (int + tracker) option" where
  "IntegrateParticle fe se te g =
     (case IP_prepare te g of
        None \<Rightarrow> None
      | Some g \<Rightarrow>
          (case IP_energy fe g of
             Inl g \<Rightarrow> Some (Inr g)
           | Inr g \<Rightarrow> IP_after_check fe se te g))"

text \<open>
  The innermost scan loop of \<^verbatim>\<open>main\<close>:
  \<^verbatim>\<open>for(phi_n=phis; phi_n<=phie; phi_n+=dphi) IntegrateParticle();\<close> from the current
  \<^verbatim>\<open>phi_n\<close> on.
\<close>

partial_function (option) scan_phi ::
  "fields_env \<Rightarrow> spin_env \<Rightarrow> track_env \<Rightarrow> tracker \<Rightarrow> (int + tracker) option" where
  "scan_phi fe se te g =
     (if phi_n g \<le> phie g then
        (case IntegrateParticle fe se te g of
           None \<Rightarrow> None
         | Some (Inl e) \<Rightarrow> Some (Inl e)
         | Some (Inr g) \<Rightarrow> scan_phi fe se te (g\<lparr>phi_n := phi_n g + dphi g\<rparr>))
      else Some (Inr g))"

subsection \<open>Quantities used to state what a particle and a pass do\<close>

text \<open>
  \<open>scan_frame g g'\<close>: from \<open>g\<close> to \<open>g'\<close> the integrator has not been called, nothing has
  been written to the end log, the track file, the spin log or the terminal, and the
  mode, the end values and the step of the scan, the kind of particle and its mass are
  the same.
\<close>

definition scan_frame :: "tracker \<Rightarrow> tracker \<Rightarrow> bool" where
  "scan_frame g g' \<longleftrightarrow>
     nintcalls g' = nintcalls g \<and> ENDLOG g' = ENDLOG g \<and> OUTFILE1 g' = OUTFILE1 g
     \<and> BFLOG g' = BFLOG g \<and> MonteCarlo g' = MonteCarlo g \<and> EnergieE g' = EnergieE g
     \<and> z_ne g' = z_ne g \<and> r_ne g' = r_ne g \<and> alphae g' = alphae g \<and> gammae g' = gammae g
     \<and> phie g' = phie g \<and> dphi g' = dphi g \<and> stdout g' = stdout g
     \<and> protneut g' = protneut g \<and> M g' = M g"

text \<open>
  A neutron of start energy zero, one metre up in a field of one tesla (\<open>fields0\<close>), in
  Monte-Carlo mode with a scan of \<open>phi\<close> from 0 to 2 in steps of 1; a dice that returns
  this start point with the angles 0, 1, 2, ... in turn and a geometry that accepts every
  start point; an integrator that returns the state it was given with two dense samples
  and the stop flag set; every file can be opened.
\<close>

definition track_env0 :: track_env where
  "track_env0 = \<lparr>
     MCStartwerte = (\<lambda>dx s p. (s\<lparr>s_r_n := 3 / 10, s_phi_n := of_nat p, s_z_n := 1,
                                    s_Energie := 0\<rparr>, Suc p)),
     GeomCheck = (\<lambda>r z phi. 0),
     odeint = (\<lambda>r y t1 t2 m. \<lparr>o_ystart = y, o_dense = dense_of 1, o_B = B m, o_E = E m,
                                 o_stopall = 1, o_kennz = 0, o_Qm0 = Qm0 m\<rparr>),
     ausgabe = (\<lambda>t y v h phi m. [t, v, h, phi]),
     flux_record = (\<lambda>r phi z e. [r, phi, z, e]),
     fopen_ok = (\<lambda>f. True)\<rparr>"

definition tracker_start :: tracker where
  "tracker_start = \<lparr>protneut = NEUTRON, polarisation = POLARISATION_GOOD, BruteForce = True,
     M = m_n, hfs = - 1, mu_n = - mu_nSI / ele_e, mumB = (- mu_nSI / ele_e) / m_n,
     Qm0 = Qm0_init, H = 0, NSF = 0, firstint = False, stopall = 0, kennz = 0,
     B = bfield_zero,
     E = \<lparr>Er = 0, Ephi = 0, Ez = 0\<rparr>,
     dxsav = 1 / 10 ^ 5, BFBmin = 10, BFTargetB = 1 / 10, BFPolmin = False, BFpol = 1 / 2,
     BFlogpol = 0, BFsurvprob = 1, BFflipprob = 0, flipspin = True, rando = 0, mt_pos = 0,
     offset = 0, BFtime = (\<lambda>i. 0), BFField = (\<lambda>j i. 0), BFBws = (\<lambda>i. 0),
     I_n = \<lparr>c1 = 0, c2 = 0, c3 = 1 / 2\<rparr>, gammaend = 0, BFkount = 0, BFcount = 0,
     BFxp = (\<lambda>i. 0), BFyp = (\<lambda>i. zero3), BFypFields = (\<lambda>i. zero3),
     ausgabewunsch = 5, BFZeilencount = 0, BFFilecount = 1,
     BFLOG = fopen_w (BFFile ''./out'' 0 1), Zeilencount = 0, Filecount = 1,
     OUTFILE1 = fopen_w (TrackFile ''./out'' 0 1), closed = [],
     outpath = ''./out'', jobnumber = 0, delx_n = 0, stdout = [],
     MonteCarlo = 1, Energie = 0, EnergieE = 1 / 10 ^ 7, r_n = 3 / 10, r_ne = 1 / 2,
     z_n = 1, z_ne = 3 / 2, alpha = 0, alphae = 0, gammaa = 0, gammae = 0,
     phi_n = 0, phie = 2, dphi = 1, xstart = 0, xend = 10, x1 = 0, x2 = 0,
     delx = 1 / 100, v_n = 0, Ekin = 0, Hstart = 0, Hmax = 0, bfeldwahl = 1,
     ausgabewunschsave = 5, runge = 2, ystart = yvec0, nintcalls = 0, ntotalsteps = 0,
     vend = 0, BahnPointSaveTime = 0, time_temp = 0, timetemp = 0, spinflipcheck = 0,
     vlad = 0, frac = 0, logvlad = 0, logfrac = 0, iMC = 1,
     ENDLOG = fopen_w (EndFile ''./out'' 0), STARTIN = [], dense_out = dense_of 1,
     Bxcoor = 0, Bycoor = 0, Bzcoor = 1\<rparr>"

text \<open>
  The number of data rows of a file, and the globals that the two log files hang on:
  \<open>track_frame\<close> says that a block leaves the track file, its row counter and the mode
  alone, \<open>spin_frame\<close> the same for the spin log, its counter and the terminal.
\<close>

definition file_rows :: "stream \<Rightarrow> int" where
  "file_rows f = int (length (filter is_Row (slines f)))"

definition track_frame :: "'a globals_scheme \<Rightarrow> 'a globals_scheme \<Rightarrow> bool" where
  "track_frame g g' \<longleftrightarrow>
     OUTFILE1 g' = OUTFILE1 g \<and> Zeilencount g' = Zeilencount g \<and> BruteForce g' = BruteForce g"

definition spin_frame :: "'a globals_scheme \<Rightarrow> 'a globals_scheme \<Rightarrow> bool" where
  "spin_frame g g' \<longleftrightarrow>
     BFLOG g' = BFLOG g \<and> BFZeilencount g' = BFZeilencount g \<and> stdout g' = stdout g"

text \<open>
  \<open>appends_rows f n f' n'\<close>: the file \<open>f'\<close> is \<open>f\<close> with data rows appended, and the
  counter has gone from \<open>n\<close> to \<open>n'\<close> by their number.
\<close>

definition appends_rows :: "stream \<Rightarrow> int \<Rightarrow> stream \<Rightarrow> int \<Rightarrow> bool" where
  "appends_rows f n f' n' \<longleftrightarrow>
     sname f' = sname f
     \<and> (\<exists>rows. slines f' = slines f @ rows \<and> list_all is_Row rows \<and> n' = n + int (length rows))"

definition track_out :: "'a globals_scheme \<Rightarrow> 'a globals_scheme \<Rightarrow> bool" where
  "track_out g g' \<longleftrightarrow>
     spin_frame g g' \<and> BruteForce g' = BruteForce g
     \<and> appends_rows (OUTFILE1 g) (Zeilencount g) (OUTFILE1 g') (Zeilencount g')"



section \<open>The equations of motion\<close>

text \<open>
  C1.  For every neutron state at \<open>r > 0\<close>, in brute-force mode or not, \<^verbatim>\<open>derivs\<close> returns
  the velocities and the accelerations \<open>r (dphi/dt)\<^sup>2 + mumB d|B|/dr\<close>,
  \<open>mumB d|B|/dz - g\<close> and \<open>- 2 (dr/dt) (dphi/dt) / r + mumB (1/r\<^sup>2) d|B|/dphi\<close>, where
  \<^verbatim>\<open>mumB\<close> is the global "magnetic moment of the neutron over mass".  The set-up of
  \<^verbatim>\<open>IntegrateParticle\<close>, which assigns it (in brute-force mode, for a particle of mass
  \<open>M \<noteq> 0\<close>), makes it \<open>mu_n / M\<close> with \<open>mu_n = hfs * mu_nSI / ele_e\<close> and \<open>hfs\<close> equal to
  \<open>-1\<close>, \<open>+1\<close> or \<open>0\<close> (unpolarised); after it the accelerations are the ones above
  with \<open>mu_n / M\<close>.
\<close>

theorem derivs_neutron_acceleration:
  assumes "protneut g = NEUTRON" and "0 < y1 y"
  shows "(let b = BFeld env (y1 y) (y5 y) (y3 y) x;
              a = fst (derivs env x y d0 g)
          in y1 a = y2 y \<and> y3 a = y4 y \<and> y5 a = y6 y
             \<and> y2 a = y1 y * (y6 y)\<^sup>2 + mumB g * dBdr b
             \<and> y4 a = mumB g * dBdz b - gravconst
             \<and> y6 a = - 2 * y2 y * y6 y / y1 y + mumB g * (1 / (y1 y)\<^sup>2) * dBdphi b)
         \<and> (BruteForce g \<and> M g \<noteq> 0
             \<and> polarisation g \<in> {POLARISATION_GOOD, POLARISATION_BAD, POLARISATION_NONE} \<longrightarrow>
            (let s = spin_setup g;
                 b = BFeld env (y1 y) (y5 y) (y3 y) x;
                 a = fst (derivs env x y d0 s)
             in hfs s = (case polarisation g of POLARISATION_GOOD \<Rightarrow> - 1
                           | POLARISATION_BAD \<Rightarrow> 1 | _ \<Rightarrow> 0)
                \<and> mu_n s = of_int (hfs s) * mu_nSI / ele_e
                \<and> mumB s = mu_n s / M s \<and> M s = M g
                \<and> y1 a = y2 y \<and> y3 a = y4 y \<and> y5 a = y6 y
                \<and> y2 a = y1 y * (y6 y)\<^sup>2 + (mu_n s / M s) * dBdr b
                \<and> y4 a = (mu_n s / M s) * dBdz b - gravconst
                \<and> y6 a = - 2 * y2 y * y6 y / y1 y
                         + (mu_n s / M s) * (1 / (y1 y)\<^sup>2) * dBdphi b))"
proof -
  have a: "(let b = BFeld env (y1 y) (y5 y) (y3 y) x;
              a = fst (derivs env x y d0 h)
          in y1 a = y2 y \<and> y3 a = y4 y \<and> y5 a = y6 y
             \<and> y2 a = y1 y * (y6 y)\<^sup>2 + mumB h * dBdr b
             \<and> y4 a = mumB h * dBdz b - gravconst
             \<and> y6 a = - 2 * y2 y * y6 y / y1 y + mumB h * (1 / (y1 y)\<^sup>2) * dBdphi b)"
    if "protneut h = NEUTRON" for h :: "'a motion_scheme"
    using that assms(2)
    by (simp add: derivs_def Let_def split_beta power2_eq_square)
  have b: "protneut (spin_setup g) = NEUTRON" "M (spin_setup g) = M g"
    using assms(1) by (auto simp: spin_setup_def set_hfs_def Let_def)
  have c: "mumB (spin_setup g) = mu_n (spin_setup g) / M g"
    "mu_n (spin_setup g) = of_int (hfs (spin_setup g)) * mu_nSI / ele_e"
    "hfs (spin_setup g) = (case polarisation g of POLARISATION_GOOD \<Rightarrow> - 1
                        | POLARISATION_BAD \<Rightarrow> 1 | _ \<Rightarrow> 0)"
    if "BruteForce g"
      "polarisation g \<in> {POLARISATION_GOOD, POLARISATION_BAD, POLARISATION_NONE}"
    using that assms(1) by (auto simp: spin_setup_def set_hfs_def Let_def)
  show ?thesis
    using a [OF assms(1)] a [OF b(1)] b(2) c
    by (simp add: Let_def)
qed

theorem derivs_neutron_acceleration_witness:
  "(let g = motion0\<lparr>BruteForce := False, mumB := - 1 / 2\<rparr>;
        a = fst (derivs fields0 0 yvec0 yvec0 g)
    in protneut g = NEUTRON \<and> 0 < y1 yvec0
       \<and> y2 a = 1 \<and> y4 a = - 5 / 2 - gravconst \<and> y6 a = - 11 / 8)
   \<and> (let s = spin_setup motion0; a = fst (derivs fields0 0 yvec0 yvec0 s)
      in BruteForce motion0 \<and> M motion0 \<noteq> 0 \<and> polarisation motion0 = POLARISATION_GOOD
         \<and> hfs s = - 1 \<and> mu_n s = - mu_nSI / ele_e \<and> y2 a = 2 + (mu_n s / m_n) * 2
         \<and> y4 a = (mu_n s / m_n) * 5 - gravconst \<and> y6 a = - 1 + (mu_n s / m_n) * (3 / 4))"
proof -
  have m: "m_n \<noteq> 0" by (simp add: m_n_def)
  show ?thesis
    using m derivs_neutron_acceleration
          [of "motion0\<lparr>BruteForce := False, mumB := - 1 / 2\<rparr>" yvec0 fields0 0 yvec0]
      derivs_neutron_acceleration [of motion0 yvec0 fields0 0 yvec0]
    by (simp add: motion0_def yvec0_def fields0_def Let_def bfield_zero_def)
qed

text \<open>
  C5.  For protons and electrons, at \<open>r \<noteq> 0\<close> and for electrons of mass \<open>M \<noteq> 0\<close> not faster
  than light (elsewhere the program computes with infinities or NaN, which the reals of
  the model do not have), \<^verbatim>\<open>derivs\<close> returns the Lorentz-force equations in cylindrical
  coordinates, with the acceleration terms \<open>Qm0 (E + v \<times> B)\<close>.  For protons \<open>Qm0\<close> is the
  global as it stands and is left unchanged, so that from its file-scope value, the
  elementary charge over the proton mass, it stays that constant; for electrons it is
  set at every call to \<open>- (1/M) sqrt (1 - |v|\<^sup>2 / c\<^sup>2)\<close> with
  \<open>|v|\<^sup>2 = vr\<^sup>2 + r\<^sup>2 vphi\<^sup>2 + vz\<^sup>2\<close>.
\<close>

theorem derivs_lorentz_force:
  assumes "protneut g = PROTON \<or> protneut g = ELECTRONS"
    and "y1 y \<noteq> 0"
    and "protneut g = ELECTRONS \<longrightarrow> M g \<noteq> 0 \<and> speed2 y \<le> c_0\<^sup>2"
  shows "(let r = derivs env x y d0 g; a = fst r; g' = snd r;
              b = BFeld env (y1 y) (y5 y) (y3 y) x;
              e = EFeld env (y1 y) (y5 y) (y3 y)
          in y1 a = y2 y \<and> y3 a = y4 y \<and> y5 a = y6 y
             \<and> y2 a = y1 y * (y6 y)\<^sup>2 + Qm0 g' * lorentz_r y b e
             \<and> y4 a = Qm0 g' * lorentz_z y b e
             \<and> y6 a = - 2 * y2 y * y6 y / y1 y + Qm0 g' * lorentz_phi y b e / y1 y
             \<and> Qm0 g' = (if protneut g = PROTON then Qm0 g
                          else - (1 / M g) * sqrt (1 - speed2 y / c_0\<^sup>2))
             \<and> (protneut g = PROTON \<and> Qm0 g = Qm0_init \<longrightarrow> Qm0 g' = 1 / m_p))"
  using assms(1)
  by (auto simp: derivs_def Let_def split_beta power2_eq_square lorentz_r_def lorentz_z_def
      lorentz_phi_def speed2_def Qm0_init_def m_p_def algebra_simps)

theorem derivs_lorentz_force_witness:
  "(let g = motion0\<lparr>protneut := ELECTRONS, M := 1\<rparr>; r = derivs fields0 0 yvec0 yvec0 g
    in protneut g = ELECTRONS \<and> y1 yvec0 \<noteq> 0 \<and> M g \<noteq> 0 \<and> speed2 yvec0 \<le> c_0\<^sup>2
       \<and> Qm0 (snd r) = - sqrt (1 - 14 / c_0\<^sup>2) \<and> y4 (fst r) = Qm0 (snd r) * 3)
   \<and> (let g = motion0\<lparr>protneut := PROTON\<rparr>; r = derivs fields0 0 yvec0 yvec0 g
      in protneut g = PROTON \<and> Qm0 g = Qm0_init
         \<and> Qm0 (snd r) = 1 / m_p \<and> y4 (fst r) = 3 / m_p)"
proof -
  have c: "speed2 yvec0 \<le> c_0\<^sup>2"
    by (simp add: speed2_def yvec0_def c_0_def)
  show ?thesis
    using c derivs_lorentz_force [of "motion0\<lparr>protneut := ELECTRONS, M := 1\<rparr>" yvec0 fields0 0 yvec0]
      derivs_lorentz_force [of "motion0\<lparr>protneut := PROTON\<rparr>" yvec0 fields0 0 yvec0]
    by (simp add: motion0_def yvec0_def fields0_def Let_def lorentz_z_def speed2_def
        bfield_zero_def)
qed

section \<open>Brute-force spin tracking: what each block does to the globals\<close>

lemma fold_scan:
  "fold (\<lambda>klauf g. if Bp13 (Bp d klauf) < BFBmin g then g\<lparr>BFBmin := Bp13 (Bp d klauf)\<rparr> else g) ks g
   = g\<lparr>BFBmin := fold (\<lambda>klauf m. if Bp13 (Bp d klauf) < m then Bp13 (Bp d klauf) else m) ks (BFBmin g)\<rparr>"
  by (induction ks arbitrary: g) auto

lemma BF_scan_min_eq:
  "BF_scan_min d (g\<lparr>BFBmin := 10\<rparr>) = g\<lparr>BFBmin := step_Bmin d\<rparr>"
  by (simp add: BF_scan_min_def step_Bmin_def fold_scan)

lemma fold_min_less:
  "fold (\<lambda>klauf m. if f klauf < m then f klauf else m) ks (m0::real) < T
   \<longleftrightarrow> m0 < T \<or> (\<exists>k\<in>set ks. f k < T)"
  by (induction ks arbitrary: m0) auto

lemma step_Bmin_less:
  "step_Bmin d < T \<longleftrightarrow> 10 < T \<or> (\<exists>k\<in>{1..kount d}. Bp13 (Bp d k) < T)"
  by (simp add: step_Bmin_def fold_min_less)

lemma BF_store_eq:
  "BF_store env d ks x g
   = g\<lparr>BFtime := store_time d (offset g) ks x (BFtime g),
        BFField := store_field env d (offset g) ks x (BFField g)\<rparr>"
  by (simp add: BF_store_def store_time_def store_field_def Let_def)

lemma fold_store:
  "fold (BF_store env d ks) xs g
   = g\<lparr>BFtime := fold (store_time d (offset g) ks) xs (BFtime g),
        BFField := fold (store_field env d (offset g) ks) xs (BFField g)\<rparr>"
proof (induction xs arbitrary: g)
  case Nil
  show ?case by simp
next
  case (Cons x xs)
  show ?case
    by (simp add: Cons.IH) (simp add: BF_store_eq)
qed

lemma store_time_apply:
  "store_time d off ks x t i = (if i = off + x - (ks - 1) then xp d x else t i)"
  by (simp add: store_time_def)

lemma fold_store_time_at:
  "fold (store_time d off ks) xs t i
   = (if i - off + (ks - 1) \<in> set xs then xp d (i - off + (ks - 1)) else t i)"
proof (induction xs arbitrary: t)
  case Nil show ?case by simp
next
  case (Cons x xs)
  have "fold (store_time d off ks) (x # xs) t i
        = fold (store_time d off ks) xs (store_time d off ks x t) i" by simp
  also have "\<dots> = (if i - off + (ks - 1) \<in> set xs then xp d (i - off + (ks - 1))
                    else store_time d off ks x t i)" by (rule Cons.IH)
  also have "\<dots> = (if i - off + (ks - 1) \<in> set (x # xs) then xp d (i - off + (ks - 1)) else t i)"
    by (auto simp: store_time_apply)
  finally show ?case .
qed

lemma store_field_apply:
  "store_field env d off ks x f j i
   = (if j \<in> {1..5} \<and> i = off + x - (ks - 1) then stored_field env d j x else f j i)"
  by (simp add: store_field_def stored_field_def Let_def)

lemma fold_store_field_at:
  "fold (store_field env d off ks) xs f j i
   = (if j \<in> {1..5} \<and> i - off + (ks - 1) \<in> set xs
      then stored_field env d j (i - off + (ks - 1)) else f j i)"
proof (induction xs arbitrary: f)
  case Nil show ?case by simp
next
  case (Cons x xs)
  have "fold (store_field env d off ks) (x # xs) f j i
        = fold (store_field env d off ks) xs (store_field env d off ks x f) j i" by simp
  also have "\<dots> = (if j \<in> {1..5} \<and> i - off + (ks - 1) \<in> set xs
                    then stored_field env d j (i - off + (ks - 1))
                    else store_field env d off ks x f j i)" by (rule Cons.IH)
  also have "\<dots> = (if j \<in> {1..5} \<and> i - off + (ks - 1) \<in> set (x # xs)
                    then stored_field env d j (i - off + (ks - 1)) else f j i)"
    by (auto simp: store_field_apply)
  finally show ?case .
qed



lemma BF_append_eq:
  "BF_append env d g =
     (let ks = (if offset g > 0 then 2 else 1)
      in g\<lparr>gammaend := (if offset g > 0 then gammaend g
                          else atan2l (sqrt ((y2 (yp d 2))\<^sup>2 + (y1 (yp d 2) * y6 (yp d 2))\<^sup>2))
                                     (y4 (yp d 2)) / conv),
            BFtime := fold (store_time d (offset g) ks) [ks..kount d] (BFtime g),
            BFField := fold (store_field env d (offset g) ks) [ks..kount d] (BFField g),
            offset := offset g + kount d - (ks - 1)\<rparr>)"
  by (simp add: BF_append_def Let_def fold_store)

lemma BF_block_min_eq:
  "BF_block_min d g = g\<lparr>dxsav := 1 / 10 ^ 9, BFPolmin := (BFBmin g < BFTargetB g),
                          BFBmin := step_Bmin d\<rparr>"
proof (cases "BFBmin g < BFTargetB g")
  case True
  then show ?thesis by (simp add: BF_block_min_def Let_def BF_scan_min_eq)
next
  case False
  then show ?thesis by (simp add: BF_block_min_def Let_def BF_scan_min_eq)
qed

lemma BF_block_min_fields:
  "BFBmin (BF_block_min d g) = step_Bmin d"
  "BFPolmin (BF_block_min d g) = (BFBmin g < BFTargetB g)"
  "BFTargetB (BF_block_min d g) = BFTargetB g"
  "BFpol (BF_block_min d g) = BFpol g"
  "BFsurvprob (BF_block_min d g) = BFsurvprob g"
  "BFflipprob (BF_block_min d g) = BFflipprob g"
  "flipspin (BF_block_min d g) = flipspin g"
  "mt_pos (BF_block_min d g) = mt_pos g"
  "hfs (BF_block_min d g) = hfs g"
  "mu_n (BF_block_min d g) = mu_n g"
  "mumB (BF_block_min d g) = mumB g"
  "M (BF_block_min d g) = M g"
  "NSF (BF_block_min d g) = NSF g"
  "firstint (BF_block_min d g) = firstint g"
  "offset (BF_block_min d g) = offset g"
  "BFtime (BF_block_min d g) = BFtime g"
  "BFField (BF_block_min d g) = BFField g"
  "I_n (BF_block_min d g) = I_n g"
  "stdout (BF_block_min d g) = stdout g"
  "ausgabewunsch (BF_block_min d g) = ausgabewunsch g"
  "BFLOG (BF_block_min d g) = BFLOG g"
  "BFZeilencount (BF_block_min d g) = BFZeilencount g"
  by (simp_all add: BF_block_min_eq)


lemma bloch_runs_append [simp]: "bloch_runs (xs @ ys) = bloch_runs xs + bloch_runs ys"
  by (simp add: bloch_runs_def)

lemma bloch_runs_simps [simp]:
  "bloch_runs [] = 0"
  "bloch_runs (Msg_I_after a b # ms) = Suc (bloch_runs ms)"
  "bloch_runs (Msg_I_before t i dx bw nn # ms) = bloch_runs ms"
  "bloch_runs (Msg_spin_flipped p n # ms) = bloch_runs ms"
  "bloch_runs (Msg_Ekin_negative e # ms) = bloch_runs ms"
  "bloch_runs (Msg_new_file f # ms) = bloch_runs ms"
  by (simp_all add: bloch_runs_def)

lemma BF_block_prob_same:
  "BFBmin (BF_block_prob env g) = BFBmin g"
  "BFTargetB (BF_block_prob env g) = BFTargetB g"
  "BFPolmin (BF_block_prob env g) = BFPolmin g"
  "BFpol (BF_block_prob env g) = BFpol g"
  "flipspin (BF_block_prob env g) = flipspin g"
  "M (BF_block_prob env g) = M g"
  "firstint (BF_block_prob env g) = firstint g"
  "offset (BF_block_prob env g) = offset g"
  "BFtime (BF_block_prob env g) = BFtime g"
  "BFField (BF_block_prob env g) = BFField g"
  "I_n (BF_block_prob env g) = I_n g"
  "ausgabewunsch (BF_block_prob env g) = ausgabewunsch g"
  "BFLOG (BF_block_prob env g) = BFLOG g"
  "BFZeilencount (BF_block_prob env g) = BFZeilencount g"
  "bloch_runs (stdout (BF_block_prob env g)) = bloch_runs (stdout g)"
  by (simp_all add: BF_block_prob_def BF_update_prob_def BF_flip_def Let_def)

lemma BF_block_prob_changed:
  "BFsurvprob (BF_block_prob env g) =
     (if BFTargetB g < BFBmin g \<and> BFPolmin g then (BFpol g + 0.5) * BFsurvprob g
      else BFsurvprob g)"
  "BFflipprob (BF_block_prob env g) =
     (if BFTargetB g < BFBmin g \<and> BFPolmin g then 1 - (BFpol g + 0.5) * BFsurvprob g
      else BFflipprob g)"
  "mt_pos (BF_block_prob env g) =
     (if BFTargetB g < BFBmin g \<and> BFPolmin g \<and> flipspin g then mt_pos g + 2 else mt_pos g)"
  "hfs (BF_block_prob env g) =
     (if BFTargetB g < BFBmin g \<and> BFPolmin g \<and> flipspin g
         \<and> mt_double env (Suc (mt_pos g)) < 1 - (BFpol g + 0.5)
      then - hfs g else hfs g)"
  "mu_n (BF_block_prob env g) =
     (if BFTargetB g < BFBmin g \<and> BFPolmin g \<and> flipspin g
         \<and> mt_double env (Suc (mt_pos g)) < 1 - (BFpol g + 0.5)
      then of_int (- hfs g) * mu_nSI / ele_e else mu_n g)"
  "mumB (BF_block_prob env g) =
     (if BFTargetB g < BFBmin g \<and> BFPolmin g \<and> flipspin g
         \<and> mt_double env (Suc (mt_pos g)) < 1 - (BFpol g + 0.5)
      then (of_int (- hfs g) * mu_nSI / ele_e) / M g else mumB g)"
  "NSF (BF_block_prob env g) =
     (if BFTargetB g < BFBmin g \<and> BFPolmin g \<and> flipspin g
         \<and> mt_double env (Suc (mt_pos g)) < 1 - (BFpol g + 0.5)
      then NSF g + 1 else NSF g)"
  by (simp_all add: BF_block_prob_def BF_update_prob_def BF_flip_def Let_def)

lemma BF_block_firstint_fields:
  "BFBmin (BF_block_firstint g) = BFBmin g"
  "BFTargetB (BF_block_firstint g) = BFTargetB g"
  "BFPolmin (BF_block_firstint g) = BFPolmin g"
  "BFpol (BF_block_firstint g) = BFpol g"
  "BFsurvprob (BF_block_firstint g) = BFsurvprob g"
  "BFflipprob (BF_block_firstint g) = BFflipprob g"
  "flipspin (BF_block_firstint g) = flipspin g"
  "mt_pos (BF_block_firstint g) = mt_pos g"
  "hfs (BF_block_firstint g) = hfs g"
  "mu_n (BF_block_firstint g) = mu_n g"
  "mumB (BF_block_firstint g) = mumB g"
  "M (BF_block_firstint g) = M g"
  "NSF (BF_block_firstint g) = NSF g"
  "offset (BF_block_firstint g) = offset g"
  "BFtime (BF_block_firstint g) = BFtime g"
  "BFField (BF_block_firstint g) = BFField g"
  "I_n (BF_block_firstint g) = I_n g"
  "stdout (BF_block_firstint g) = stdout g"
  "ausgabewunsch (BF_block_firstint g) = ausgabewunsch g"
  "BFLOG (BF_block_firstint g) = BFLOG g"
  "BFZeilencount (BF_block_firstint g) = BFZeilencount g"
  "firstint (BF_block_firstint g) = (BFTargetB g < BFBmin g \<or> firstint g)"
  by (simp_all add: BF_block_firstint_def)

lemma BF_block_append_same:
  "BFBmin (BF_block_append env d g) = BFBmin g"
  "BFTargetB (BF_block_append env d g) = BFTargetB g"
  "BFPolmin (BF_block_append env d g) = BFPolmin g"
  "BFpol (BF_block_append env d g) = BFpol g"
  "BFsurvprob (BF_block_append env d g) = BFsurvprob g"
  "BFflipprob (BF_block_append env d g) = BFflipprob g"
  "flipspin (BF_block_append env d g) = flipspin g"
  "mt_pos (BF_block_append env d g) = mt_pos g"
  "hfs (BF_block_append env d g) = hfs g"
  "mu_n (BF_block_append env d g) = mu_n g"
  "mumB (BF_block_append env d g) = mumB g"
  "M (BF_block_append env d g) = M g"
  "NSF (BF_block_append env d g) = NSF g"
  "firstint (BF_block_append env d g) = firstint g"
  "I_n (BF_block_append env d g) = I_n g"
  "stdout (BF_block_append env d g) = stdout g"
  "ausgabewunsch (BF_block_append env d g) = ausgabewunsch g"
  "BFLOG (BF_block_append env d g) = BFLOG g"
  "BFZeilencount (BF_block_append env d g) = BFZeilencount g"
  by (simp_all add: BF_block_append_def BF_append_eq Let_def)

lemma BF_block_append_changed:
  "offset (BF_block_append env d g) =
     (if BFBmin g < BFTargetB g then offset g + kount d - ((if 0 < offset g then 2 else 1) - 1)
      else offset g)"
  "BFtime (BF_block_append env d g) i =
     (if BFBmin g < BFTargetB g
         \<and> i - offset g + ((if 0 < offset g then 2 else 1) - 1)
             \<in> {(if 0 < offset g then 2 else 1)..kount d}
      then xp d (i - offset g + ((if 0 < offset g then 2 else 1) - 1)) else BFtime g i)"
  "BFField (BF_block_append env d g) j i =
     (if BFBmin g < BFTargetB g \<and> j \<in> {1..5}
         \<and> i - offset g + ((if 0 < offset g then 2 else 1) - 1)
             \<in> {(if 0 < offset g then 2 else 1)..kount d}
      then stored_field env d j (i - offset g + ((if 0 < offset g then 2 else 1) - 1))
      else BFField g j i)"
  by (simp_all add: BF_block_append_def BF_append_eq Let_def fold_store_time_at fold_store_field_at)


lemma BF_log_row_eq:
  "BF_log_row k g =
     (let s = BFyp g k; b = BFypFields g k;
          w = sqrt (c1 b * c1 b + c2 b * c2 b + c3 b * c3 b);
          p = BF_proj s b;
          l = (if p < 0.5 then log 10 (0.5 + p) else if p = 0.5 then 0 else BFlogpol g)
      in g\<lparr>BFBws := (BFBws g)(k := w), BFpol := p, BFlogpol := l,
            BFLOG := fprintf (Row [BFxp g k, w, p, l, c1 s, c2 s, c3 s, c1 b, c2 b, c3 b]) (BFLOG g),
            BFZeilencount := BFZeilencount g + 1\<rparr>)"
  by (simp add: BF_log_row_def Let_def)

lemma fold_log_row_frame:
  "\<exists>w p l rows. fold BF_log_row xs g =
      g\<lparr>BFBws := w, BFpol := p, BFlogpol := l,
        BFLOG := (BFLOG g)\<lparr>slines := slines (BFLOG g) @ rows\<rparr>,
        BFZeilencount := BFZeilencount g + int (length xs)\<rparr>
      \<and> length rows = length xs \<and> (\<forall>r\<in>set rows. is_Row r)
      \<and> p = (if xs = [] then BFpol g else BF_proj (BFyp g (last xs)) (BFypFields g (last xs)))"
proof (induction xs arbitrary: g)
  case Nil
  show ?case
    by (rule exI [of _ "BFBws g"], rule exI [of _ "BFpol g"], rule exI [of _ "BFlogpol g"],
        rule exI [of _ "[]"]) simp
next
  case (Cons x xs)
  define g1 where "g1 = BF_log_row x g"
  have g1: "BFyp g1 = BFyp g" "BFypFields g1 = BFypFields g"
    "BFZeilencount g1 = BFZeilencount g + 1"
    "BFpol g1 = BF_proj (BFyp g x) (BFypFields g x)"
    by (simp_all add: g1_def BF_log_row_eq Let_def)
  obtain r1 where r1: "BFLOG g1 = (BFLOG g)\<lparr>slines := slines (BFLOG g) @ [r1]\<rparr>" "is_Row r1"
    by (simp add: g1_def BF_log_row_eq Let_def fprintf_def)
  obtain w1 p1 l1 f1 z1 where e1:
    "g1 = g\<lparr>BFBws := w1, BFpol := p1, BFlogpol := l1, BFLOG := f1, BFZeilencount := z1\<rparr>"
    by (simp add: g1_def BF_log_row_eq Let_def)
  from Cons.IH [of g1] obtain w p l rows where
    e: "fold BF_log_row xs g1 =
          g1\<lparr>BFBws := w, BFpol := p, BFlogpol := l,
             BFLOG := (BFLOG g1)\<lparr>slines := slines (BFLOG g1) @ rows\<rparr>,
             BFZeilencount := BFZeilencount g1 + int (length xs)\<rparr>"
    and n: "length rows = length xs" and r: "\<forall>r\<in>set rows. is_Row r"
    and p: "p = (if xs = [] then BFpol g1 else BF_proj (BFyp g1 (last xs)) (BFypFields g1 (last xs)))"
    by blast
  have "fold BF_log_row (x # xs) g =
      g\<lparr>BFBws := w, BFpol := p, BFlogpol := l,
        BFLOG := (BFLOG g)\<lparr>slines := slines (BFLOG g) @ (r1 # rows)\<rparr>,
        BFZeilencount := BFZeilencount g + int (length (x # xs))\<rparr>"
    using e r1(1) g1(3) by (simp add: g1_def [symmetric]) (simp add: e1)
  moreover have "length (r1 # rows) = length (x # xs)" using n by simp
  moreover have "\<forall>r\<in>set (r1 # rows). is_Row r" using r r1(2) by simp
  moreover have "p = (if x # xs = [] then BFpol g
                      else BF_proj (BFyp g (last (x # xs))) (BFypFields g (last (x # xs))))"
    using p g1 by simp
  ultimately show ?case by blast
qed

lemma fold_log_row_same:
  "BFBmin (fold BF_log_row xs g) = BFBmin g"
  "BFTargetB (fold BF_log_row xs g) = BFTargetB g"
  "BFPolmin (fold BF_log_row xs g) = BFPolmin g"
  "BFsurvprob (fold BF_log_row xs g) = BFsurvprob g"
  "BFflipprob (fold BF_log_row xs g) = BFflipprob g"
  "flipspin (fold BF_log_row xs g) = flipspin g"
  "mt_pos (fold BF_log_row xs g) = mt_pos g"
  "hfs (fold BF_log_row xs g) = hfs g"
  "mu_n (fold BF_log_row xs g) = mu_n g"
  "mumB (fold BF_log_row xs g) = mumB g"
  "M (fold BF_log_row xs g) = M g"
  "NSF (fold BF_log_row xs g) = NSF g"
  "firstint (fold BF_log_row xs g) = firstint g"
  "offset (fold BF_log_row xs g) = offset g"
  "BFtime (fold BF_log_row xs g) = BFtime g"
  "BFField (fold BF_log_row xs g) = BFField g"
  "I_n (fold BF_log_row xs g) = I_n g"
  "stdout (fold BF_log_row xs g) = stdout g"
  "ausgabewunsch (fold BF_log_row xs g) = ausgabewunsch g"
  "BFkount (fold BF_log_row xs g) = BFkount g"
  "BFyp (fold BF_log_row xs g) = BFyp g"
  "BFypFields (fold BF_log_row xs g) = BFypFields g"
  "BFxp (fold BF_log_row xs g) = BFxp g"
proof -
  from fold_log_row_frame [of xs g] obtain w p l rows where
    e: "fold BF_log_row xs g =
      g\<lparr>BFBws := w, BFpol := p, BFlogpol := l,
        BFLOG := (BFLOG g)\<lparr>slines := slines (BFLOG g) @ rows\<rparr>,
        BFZeilencount := BFZeilencount g + int (length xs)\<rparr>" by blast
  show
  "BFBmin (fold BF_log_row xs g) = BFBmin g"
  "BFTargetB (fold BF_log_row xs g) = BFTargetB g"
  "BFPolmin (fold BF_log_row xs g) = BFPolmin g"
  "BFsurvprob (fold BF_log_row xs g) = BFsurvprob g"
  "BFflipprob (fold BF_log_row xs g) = BFflipprob g"
  "flipspin (fold BF_log_row xs g) = flipspin g"
  "mt_pos (fold BF_log_row xs g) = mt_pos g"
  "hfs (fold BF_log_row xs g) = hfs g"
  "mu_n (fold BF_log_row xs g) = mu_n g"
  "mumB (fold BF_log_row xs g) = mumB g"
  "M (fold BF_log_row xs g) = M g"
  "NSF (fold BF_log_row xs g) = NSF g"
  "firstint (fold BF_log_row xs g) = firstint g"
  "offset (fold BF_log_row xs g) = offset g"
  "BFtime (fold BF_log_row xs g) = BFtime g"
  "BFField (fold BF_log_row xs g) = BFField g"
  "I_n (fold BF_log_row xs g) = I_n g"
  "stdout (fold BF_log_row xs g) = stdout g"
  "ausgabewunsch (fold BF_log_row xs g) = ausgabewunsch g"
  "BFkount (fold BF_log_row xs g) = BFkount g"
  "BFyp (fold BF_log_row xs g) = BFyp g"
  "BFypFields (fold BF_log_row xs g) = BFypFields g"
  "BFxp (fold BF_log_row xs g) = BFxp g"
    by (simp_all add: e)
qed



lemma BF_init_spin_fields:
  "BFBmin (BF_init_spin g) = BFBmin g"
  "BFTargetB (BF_init_spin g) = BFTargetB g"
  "BFPolmin (BF_init_spin g) = BFPolmin g"
  "BFpol (BF_init_spin g) = BFpol g"
  "BFsurvprob (BF_init_spin g) = BFsurvprob g"
  "BFflipprob (BF_init_spin g) = BFflipprob g"
  "flipspin (BF_init_spin g) = flipspin g"
  "mt_pos (BF_init_spin g) = mt_pos g"
  "hfs (BF_init_spin g) = hfs g"
  "mu_n (BF_init_spin g) = mu_n g"
  "mumB (BF_init_spin g) = mumB g"
  "M (BF_init_spin g) = M g"
  "NSF (BF_init_spin g) = NSF g"
  "firstint (BF_init_spin g) = firstint g"
  "offset (BF_init_spin g) = offset g"
  "BFtime (BF_init_spin g) = BFtime g"
  "BFField (BF_init_spin g) = BFField g"
  "ausgabewunsch (BF_init_spin g) = ausgabewunsch g"
  "BFkount (BF_init_spin g) = BFkount g"
  "BFyp (BF_init_spin g) = BFyp g"
  "BFypFields (BF_init_spin g) = BFypFields g"
  "BFxp (BF_init_spin g) = BFxp g"
  "BFLOG (BF_init_spin g) = BFLOG g"
  "BFZeilencount (BF_init_spin g) = BFZeilencount g"
  "I_n (BF_init_spin g) = BF_start_spin g"
  "bloch_runs (stdout (BF_init_spin g)) = bloch_runs (stdout g)"
  by (simp_all add: BF_init_spin_def BF_start_spin_def Let_def)

lemma BF_call_integrator_fields:
  "BFBmin (BF_call_integrator env g) = BFBmin g"
  "BFTargetB (BF_call_integrator env g) = BFTargetB g"
  "BFPolmin (BF_call_integrator env g) = BFPolmin g"
  "BFsurvprob (BF_call_integrator env g) = BFsurvprob g"
  "BFflipprob (BF_call_integrator env g) = BFflipprob g"
  "flipspin (BF_call_integrator env g) = flipspin g"
  "mt_pos (BF_call_integrator env g) = mt_pos g"
  "hfs (BF_call_integrator env g) = hfs g"
  "mu_n (BF_call_integrator env g) = mu_n g"
  "mumB (BF_call_integrator env g) = mumB g"
  "M (BF_call_integrator env g) = M g"
  "NSF (BF_call_integrator env g) = NSF g"
  "offset (BF_call_integrator env g) = offset g"
  "BFtime (BF_call_integrator env g) = BFtime g"
  "BFField (BF_call_integrator env g) = BFField g"
  "ausgabewunsch (BF_call_integrator env g) = ausgabewunsch g"
  "BFLOG (BF_call_integrator env g) = BFLOG g"
  "BFZeilencount (BF_call_integrator env g) = BFZeilencount g"
  "I_n (BF_call_integrator env g) = I_end (BFodeintrk env (I_n g) (BFtime g 1)
      (BFtime g (offset g)) (BFtime g) (BFField g) (offset g))"
  "BFkount (BF_call_integrator env g) = o_BFkount (BFodeintrk env (I_n g) (BFtime g 1)
      (BFtime g (offset g)) (BFtime g) (BFField g) (offset g))"
  "BFyp (BF_call_integrator env g) = o_BFyp (BFodeintrk env (I_n g) (BFtime g 1)
      (BFtime g (offset g)) (BFtime g) (BFField g) (offset g))"
  "BFypFields (BF_call_integrator env g) = o_BFypFields (BFodeintrk env (I_n g) (BFtime g 1)
      (BFtime g (offset g)) (BFtime g) (BFField g) (offset g))"
  "BFxp (BF_call_integrator env g) = o_BFxp (BFodeintrk env (I_n g) (BFtime g 1)
      (BFtime g (offset g)) (BFtime g) (BFField g) (offset g))"
  "firstint (BF_call_integrator env g) = False"
  "bloch_runs (stdout (BF_call_integrator env g)) = Suc (bloch_runs (stdout g))"
  by (simp_all add: BF_call_integrator_def Let_def)

lemma BF_call_integrator_BFpol:
  "BFpol (BF_call_integrator env g) =
     BF_proj (BFyp (BF_call_integrator env g) (BFkount (BF_call_integrator env g)))
             (BFypFields (BF_call_integrator env g) (BFkount (BF_call_integrator env g)))"
  by (simp add: BF_call_integrator_def Let_def BF_proj_def power2_eq_square)

lemma BF_log_rows_same:
  "BFBmin (BF_log_rows env g) = BFBmin g"
  "BFTargetB (BF_log_rows env g) = BFTargetB g"
  "BFPolmin (BF_log_rows env g) = BFPolmin g"
  "BFsurvprob (BF_log_rows env g) = BFsurvprob g"
  "BFflipprob (BF_log_rows env g) = BFflipprob g"
  "flipspin (BF_log_rows env g) = flipspin g"
  "mt_pos (BF_log_rows env g) = mt_pos g"
  "hfs (BF_log_rows env g) = hfs g"
  "mu_n (BF_log_rows env g) = mu_n g"
  "mumB (BF_log_rows env g) = mumB g"
  "M (BF_log_rows env g) = M g"
  "NSF (BF_log_rows env g) = NSF g"
  "firstint (BF_log_rows env g) = firstint g"
  "offset (BF_log_rows env g) = offset g"
  "BFtime (BF_log_rows env g) = BFtime g"
  "BFField (BF_log_rows env g) = BFField g"
  "I_n (BF_log_rows env g) = I_n g"
  "ausgabewunsch (BF_log_rows env g) = ausgabewunsch g"
  "BFkount (BF_log_rows env g) = BFkount g"
  "BFyp (BF_log_rows env g) = BFyp g"
  "BFypFields (BF_log_rows env g) = BFypFields g"
  "BFxp (BF_log_rows env g) = BFxp g"
  "stdout (BF_log_rows env g) = stdout g"
  by (simp_all add: BF_log_rows_def fold_log_row_same)

lemma BF_log_rows_changed:
  "BFpol (BF_log_rows env g) =
     (if BF_logmode env g \<and> 2 \<le> BFkount g
      then BF_proj (BFyp g (BFkount g)) (BFypFields g (BFkount g)) else BFpol g)"
  "BFZeilencount (BF_log_rows env g) =
     BFZeilencount g + (if BF_logmode env g \<and> 2 \<le> BFkount g then BFkount g - 1 else 0)"
  "sname (BFLOG (BF_log_rows env g)) = sname (BFLOG g)"
  "\<exists>rows. slines (BFLOG (BF_log_rows env g)) = slines (BFLOG g) @ rows
          \<and> (\<forall>r\<in>set rows. is_Row r)
          \<and> int (length rows) = (if BF_logmode env g \<and> 2 \<le> BFkount g then BFkount g - 1 else 0)"
proof -
  from fold_log_row_frame [of "[2..BFkount g]" g] obtain w p l rows where
    e: "fold BF_log_row [2..BFkount g] g =
      g\<lparr>BFBws := w, BFpol := p, BFlogpol := l,
        BFLOG := (BFLOG g)\<lparr>slines := slines (BFLOG g) @ rows\<rparr>,
        BFZeilencount := BFZeilencount g + int (length [2..BFkount g])\<rparr>"
    and n: "length rows = length [2..BFkount g]" and r: "\<forall>r\<in>set rows. is_Row r"
    and p: "p = (if [2..BFkount g] = [] then BFpol g
                 else BF_proj (BFyp g (last [2..BFkount g])) (BFypFields g (last [2..BFkount g])))"
    by blast
  have l: "2 \<le> BFkount g \<Longrightarrow> last [2..BFkount g] = BFkount g"
    by (simp add: upto_rec2)
  have z: "\<not> 2 \<le> BFkount g \<Longrightarrow> [2..BFkount g] = []" by simp
  have len: "int (length [2..BFkount g]) = (if 2 \<le> BFkount g then BFkount g - 1 else 0)"
    by simp
  show "BFpol (BF_log_rows env g) =
     (if BF_logmode env g \<and> 2 \<le> BFkount g
      then BF_proj (BFyp g (BFkount g)) (BFypFields g (BFkount g)) else BFpol g)"
    using p l z by (auto simp: BF_log_rows_def BF_logmode_def e)
  show "BFZeilencount (BF_log_rows env g) =
     BFZeilencount g + (if BF_logmode env g \<and> 2 \<le> BFkount g then BFkount g - 1 else 0)"
    using len by (auto simp: BF_log_rows_def BF_logmode_def e)
  show "sname (BFLOG (BF_log_rows env g)) = sname (BFLOG g)"
    by (auto simp: BF_log_rows_def e)
  show "\<exists>rows. slines (BFLOG (BF_log_rows env g)) = slines (BFLOG g) @ rows
          \<and> (\<forall>r\<in>set rows. is_Row r)
          \<and> int (length rows) = (if BF_logmode env g \<and> 2 \<le> BFkount g then BFkount g - 1 else 0)"
  proof (cases "BF_logmode env g")
    case True
    then have "slines (BFLOG (BF_log_rows env g)) = slines (BFLOG g) @ rows"
      by (auto simp: BF_log_rows_def BF_logmode_def e)
    moreover have "int (length rows) = (if BF_logmode env g \<and> 2 \<le> BFkount g then BFkount g - 1 else 0)"
      using n len True by simp
    ultimately show ?thesis using r by blast
  next
    case False
    then have "slines (BFLOG (BF_log_rows env g)) = slines (BFLOG g) @ []"
      by (auto simp: BF_log_rows_def BF_logmode_def)
    then show ?thesis using False by (intro exI [of _ "[]"]) simp
  qed
qed


lemma BF_run_init_spin:
  "BFodeintrk env (I_n (BF_init_spin g)) (BFtime g 1) (BFtime g (offset g)) (BFtime g)
     (BFField g) (offset g) = BF_run env g"
  by (simp add: BF_run_def BF_init_spin_fields)

lemma BF_integrate_same:
  "BFBmin (BF_integrate env g) = BFBmin g"
  "BFTargetB (BF_integrate env g) = BFTargetB g"
  "BFPolmin (BF_integrate env g) = BFPolmin g"
  "BFsurvprob (BF_integrate env g) = BFsurvprob g"
  "BFflipprob (BF_integrate env g) = BFflipprob g"
  "flipspin (BF_integrate env g) = flipspin g"
  "mt_pos (BF_integrate env g) = mt_pos g"
  "hfs (BF_integrate env g) = hfs g"
  "mu_n (BF_integrate env g) = mu_n g"
  "mumB (BF_integrate env g) = mumB g"
  "M (BF_integrate env g) = M g"
  "NSF (BF_integrate env g) = NSF g"
  "BFtime (BF_integrate env g) = BFtime g"
  "BFField (BF_integrate env g) = BFField g"
  "ausgabewunsch (BF_integrate env g) = ausgabewunsch g"
  by (simp_all add: BF_integrate_def Let_def BF_log_rows_same BF_call_integrator_fields
      BF_init_spin_fields)

lemma BF_integrate_changed:
  "offset (BF_integrate env g) = 0"
  "firstint (BF_integrate env g) = False"
  "I_n (BF_integrate env g) = I_end (BF_run env g)"
  "BFkount (BF_integrate env g) = o_BFkount (BF_run env g)"
  "BFyp (BF_integrate env g) = o_BFyp (BF_run env g)"
  "BFypFields (BF_integrate env g) = o_BFypFields (BF_run env g)"
  "BFxp (BF_integrate env g) = o_BFxp (BF_run env g)"
  "bloch_runs (stdout (BF_integrate env g)) = Suc (bloch_runs (stdout g))"
  "sname (BFLOG (BF_integrate env g)) = sname (BFLOG g)"
  by (simp_all add: BF_integrate_def Let_def BF_log_rows_same BF_log_rows_changed
      BF_call_integrator_fields BF_init_spin_fields BF_run_def)


lemma BF_integrate_BFpol:
  "BFpol (BF_integrate env g) =
     BF_proj (BFyp (BF_integrate env g) (BFkount (BF_integrate env g)))
             (BFypFields (BF_integrate env g) (BFkount (BF_integrate env g)))"
proof -
  define h where "h = BF_call_integrator env (BF_init_spin g)"
  have a: "BFpol h = BF_proj (BFyp h (BFkount h)) (BFypFields h (BFkount h))"
    unfolding h_def by (rule BF_call_integrator_BFpol)
  have b: "BFpol (BF_log_rows env h) = BF_proj (BFyp h (BFkount h)) (BFypFields h (BFkount h))"
    using a by (simp add: BF_log_rows_changed)
  have c: "BF_integrate env g = (BF_log_rows env h)\<lparr>offset := 0\<rparr>"
    by (simp add: BF_integrate_def Let_def h_def)
  show ?thesis
    by (simp add: c b BF_log_rows_same)
qed


lemma BF_block_integrate_same:
  "BFBmin (BF_block_integrate env g) = BFBmin g"
  "BFTargetB (BF_block_integrate env g) = BFTargetB g"
  "BFPolmin (BF_block_integrate env g) = BFPolmin g"
  "BFsurvprob (BF_block_integrate env g) = BFsurvprob g"
  "BFflipprob (BF_block_integrate env g) = BFflipprob g"
  "flipspin (BF_block_integrate env g) = flipspin g"
  "mt_pos (BF_block_integrate env g) = mt_pos g"
  "hfs (BF_block_integrate env g) = hfs g"
  "mu_n (BF_block_integrate env g) = mu_n g"
  "mumB (BF_block_integrate env g) = mumB g"
  "M (BF_block_integrate env g) = M g"
  "NSF (BF_block_integrate env g) = NSF g"
  "BFtime (BF_block_integrate env g) = BFtime g"
  "BFField (BF_block_integrate env g) = BFField g"
  "ausgabewunsch (BF_block_integrate env g) = ausgabewunsch g"
  by (simp_all add: BF_block_integrate_def BF_integrate_same)

lemma BF_block_integrate_changed:
  "offset (BF_block_integrate env g) = (if BF_integration_due g then 0 else offset g)"
  "firstint (BF_block_integrate env g) = (\<not> BF_integration_due g \<and> firstint g)"
  "bloch_runs (stdout (BF_block_integrate env g)) =
     bloch_runs (stdout g) + (if BF_integration_due g then 1 else 0)"
  "BFpol (BF_block_integrate env g) =
     (if BF_integration_due g
      then BF_proj (BFyp (BF_block_integrate env g) (BFkount (BF_block_integrate env g)))
             (BFypFields (BF_block_integrate env g) (BFkount (BF_block_integrate env g)))
      else BFpol g)"
  "sname (BFLOG (BF_block_integrate env g)) = sname (BFLOG g)"
  "\<not> BF_integration_due g \<Longrightarrow> BF_block_integrate env g = g"
  "BF_integration_due g \<Longrightarrow> I_n (BF_block_integrate env g) = I_end (BF_run env g)"
  "BF_integration_due g \<Longrightarrow> BFkount (BF_block_integrate env g) = o_BFkount (BF_run env g)"
  "BF_integration_due g \<Longrightarrow> BFyp (BF_block_integrate env g) = o_BFyp (BF_run env g)"
  "BF_integration_due g \<Longrightarrow> BFypFields (BF_block_integrate env g) = o_BFypFields (BF_run env g)"
  "BF_integration_due g \<Longrightarrow> BFxp (BF_block_integrate env g) = o_BFxp (BF_run env g)"
  using BF_integrate_BFpol [of env g]
  by (simp_all add: BF_block_integrate_def BF_integrate_same BF_integrate_changed)

lemma BF_prepare_same:
  "BFTargetB (BF_prepare env d g) = BFTargetB g"
  "BFpol (BF_prepare env d g) = BFpol g"
  "flipspin (BF_prepare env d g) = flipspin g"
  "M (BF_prepare env d g) = M g"
  "I_n (BF_prepare env d g) = I_n g"
  "ausgabewunsch (BF_prepare env d g) = ausgabewunsch g"
  "BFLOG (BF_prepare env d g) = BFLOG g"
  "BFZeilencount (BF_prepare env d g) = BFZeilencount g"
  "bloch_runs (stdout (BF_prepare env d g)) = bloch_runs (stdout g)"
  by (simp_all add: BF_prepare_def Let_def BF_block_append_same BF_block_firstint_fields
      BF_block_prob_same BF_block_min_fields)

lemma BF_prepare_changed:
  "BFBmin (BF_prepare env d g) = step_Bmin d"
  "BFPolmin (BF_prepare env d g) = (BFBmin g < BFTargetB g)"
  "firstint (BF_prepare env d g) = (BFTargetB g < step_Bmin d \<or> firstint g)"
  "BFsurvprob (BF_prepare env d g) =
     (if BFTargetB g < step_Bmin d \<and> BFBmin g < BFTargetB g then (BFpol g + 0.5) * BFsurvprob g
      else BFsurvprob g)"
  "BFflipprob (BF_prepare env d g) =
     (if BFTargetB g < step_Bmin d \<and> BFBmin g < BFTargetB g
      then 1 - (BFpol g + 0.5) * BFsurvprob g else BFflipprob g)"
  "mt_pos (BF_prepare env d g) =
     (if BFTargetB g < step_Bmin d \<and> BFBmin g < BFTargetB g \<and> flipspin g
      then mt_pos g + 2 else mt_pos g)"
  "hfs (BF_prepare env d g) =
     (if BFTargetB g < step_Bmin d \<and> BFBmin g < BFTargetB g \<and> flipspin g
         \<and> mt_double env (Suc (mt_pos g)) < 1 - (BFpol g + 0.5)
      then - hfs g else hfs g)"
  "mu_n (BF_prepare env d g) =
     (if BFTargetB g < step_Bmin d \<and> BFBmin g < BFTargetB g \<and> flipspin g
         \<and> mt_double env (Suc (mt_pos g)) < 1 - (BFpol g + 0.5)
      then of_int (- hfs g) * mu_nSI / ele_e else mu_n g)"
  "mumB (BF_prepare env d g) =
     (if BFTargetB g < step_Bmin d \<and> BFBmin g < BFTargetB g \<and> flipspin g
         \<and> mt_double env (Suc (mt_pos g)) < 1 - (BFpol g + 0.5)
      then (of_int (- hfs g) * mu_nSI / ele_e) / M g else mumB g)"
  "NSF (BF_prepare env d g) =
     (if BFTargetB g < step_Bmin d \<and> BFBmin g < BFTargetB g \<and> flipspin g
         \<and> mt_double env (Suc (mt_pos g)) < 1 - (BFpol g + 0.5)
      then NSF g + 1 else NSF g)"
  "offset (BF_prepare env d g) =
     (if step_Bmin d < BFTargetB g
      then offset g + kount d - ((if 0 < offset g then 2 else 1) - 1) else offset g)"
  "BFtime (BF_prepare env d g) i =
     (if step_Bmin d < BFTargetB g
         \<and> i - offset g + ((if 0 < offset g then 2 else 1) - 1)
             \<in> {(if 0 < offset g then 2 else 1)..kount d}
      then xp d (i - offset g + ((if 0 < offset g then 2 else 1) - 1)) else BFtime g i)"
  "BFField (BF_prepare env d g) j i =
     (if step_Bmin d < BFTargetB g \<and> j \<in> {1..5}
         \<and> i - offset g + ((if 0 < offset g then 2 else 1) - 1)
             \<in> {(if 0 < offset g then 2 else 1)..kount d}
      then stored_field env d j (i - offset g + ((if 0 < offset g then 2 else 1) - 1))
      else BFField g j i)"
  by (simp_all add: BF_prepare_def Let_def BF_block_append_same BF_block_append_changed
      BF_block_firstint_fields BF_block_prob_same BF_block_prob_changed BF_block_min_fields)

lemma step_Bmin_dense_of: "step_Bmin (dense_of b) = (if b < 10 then b else 10)"
  by (simp add: step_Bmin_def dense_of_def upto_rec1)

lemma due_prepare:
  "BF_integration_due (BF_prepare env d g) \<longleftrightarrow>
     (let m = step_Bmin d; T = BFTargetB g; ks = (if 0 < offset g then 2 else 1);
          fill = (if m < T then offset g + kount d - (ks - 1) else offset g)
      in (T \<le> m \<and> 10 \<le> fill) \<or> 2000 \<le> fill)"
  by (simp add: BF_integration_due_def BF_prepare_changed BF_prepare_same Let_def)

lemma lagrange3:
  fixes a1 a2 a3 b1 b2 b3 :: real
  shows "(a1 * b1 + a2 * b2 + a3 * b3)\<^sup>2 \<le> (a1\<^sup>2 + a2\<^sup>2 + a3\<^sup>2) * (b1\<^sup>2 + b2\<^sup>2 + b3\<^sup>2)"
proof -
  have "(a1\<^sup>2 + a2\<^sup>2 + a3\<^sup>2) * (b1\<^sup>2 + b2\<^sup>2 + b3\<^sup>2) - (a1 * b1 + a2 * b2 + a3 * b3)\<^sup>2
        = (a1 * b2 - a2 * b1)\<^sup>2 + (a1 * b3 - a3 * b1)\<^sup>2 + (a2 * b3 - a3 * b2)\<^sup>2"
    by (simp add: power2_eq_square algebra_simps)
  moreover have "0 \<le> (a1 * b2 - a2 * b1)\<^sup>2 + (a1 * b3 - a3 * b1)\<^sup>2 + (a2 * b3 - a3 * b2)\<^sup>2"
    by simp
  ultimately show ?thesis by linarith
qed

lemma BF_proj_bound:
  assumes "norm3 s \<le> 1 / 2" and "0 < norm3 b"
  shows "\<bar>BF_proj s b\<bar> \<le> 1 / 2"
proof -
  let ?d = "c1 s * c1 b + c2 s * c2 b + c3 s * c3 b"
  have "?d\<^sup>2 \<le> ((c1 s)\<^sup>2 + (c2 s)\<^sup>2 + (c3 s)\<^sup>2) * ((c1 b)\<^sup>2 + (c2 b)\<^sup>2 + (c3 b)\<^sup>2)"
    by (rule lagrange3)
  then have "\<bar>?d\<bar> \<le> sqrt (((c1 s)\<^sup>2 + (c2 s)\<^sup>2 + (c3 s)\<^sup>2) * ((c1 b)\<^sup>2 + (c2 b)\<^sup>2 + (c3 b)\<^sup>2))"
    by (rule real_le_rsqrt [OF order_trans [OF eq_refl [OF power2_abs]]])
  then have cs: "\<bar>?d\<bar> \<le> norm3 s * norm3 b"
    by (simp add: norm3_def real_sqrt_mult)
  have p: "BF_proj s b = ?d / norm3 b"
    by (simp add: BF_proj_def norm3_def power2_eq_square)
  have "\<bar>BF_proj s b\<bar> = \<bar>?d\<bar> / norm3 b"
    using assms(2) by (simp add: p)
  also have "\<dots> \<le> norm3 s"
    using cs assms(2) by (simp add: divide_le_eq)
  finally show ?thesis using assms(1) by linarith
qed

subsection \<open>Buffering and the trigger of the Bloch integration\<close>

text \<open>
  C3, as stated, fails: a step whose smallest field magnitude is back at or above
  \<^verbatim>\<open>BFTargetB\<close> does not start a Bloch integration while fewer than ten samples are
  buffered.  Here five samples were buffered below the threshold, the step is above it,
  and nothing is integrated; the five samples stay in the buffer.
\<close>

theorem integration_needs_ten_samples_counterexample:
  "(let g = globals_start\<lparr>offset := 5, BFBmin := 1 / 20\<rparr>;
        g' = BruteForceIntegration spin_env0 (dense_of 1) g
    in BFBmin g < BFTargetB g \<and> BFTargetB g \<le> step_Bmin (dense_of 1)
       \<and> bloch_runs (stdout g') = bloch_runs (stdout g) \<and> offset g' = 5)"
  by (simp add: Let_def BruteForceIntegration_def BF_block_integrate_changed due_prepare
      BF_prepare_same step_Bmin_dense_of BF_prepare_changed globals_start_def)

text \<open>
  C3, amended.  With \<open>m\<close> the smallest of 10 and the step's dense field magnitudes, the
  samples \<open>klaufstart..kount\<close> of the step are copied behind the buffered ones exactly when
  \<open>m < BFTargetB\<close> (\<open>klaufstart\<close> is 2 if the buffer holds samples already, else 1), and the
  buffer is otherwise untouched.  With \<open>fill\<close> the number of buffered samples after that,
  the Bloch integrator runs exactly when \<open>BFTargetB \<le> m\<close> and \<open>fill \<ge> 10\<close>, or
  \<open>fill \<ge> 2000\<close>; it runs over the buffered interval \<open>BFtime[1] .. BFtime[fill]\<close> and
  empties the buffer.  While \<open>m\<close> is below the threshold and fewer than 2000 samples are
  buffered, nothing is integrated.
\<close>

theorem BruteForceIntegration_buffer_and_trigger:
  "(let g' = BruteForceIntegration env d g; gp = BF_prepare env d g;
        m = step_Bmin d; T = BFTargetB g;
        ks = (if 0 < offset g then 2 else 1);
        fill = (if m < T then offset g + kount d - (ks - 1) else offset g);
        due = ((T \<le> m \<and> 10 \<le> fill) \<or> 2000 \<le> fill)
    in (m < T \<longleftrightarrow> 10 < T \<or> (\<exists>k\<in>{1..kount d}. Bp13 (Bp d k) < T))
       \<and> (\<forall>i. BFtime g' i =
              (if m < T \<and> i - offset g + (ks - 1) \<in> {ks..kount d}
               then xp d (i - offset g + (ks - 1)) else BFtime g i))
       \<and> (\<forall>j i. BFField g' j i =
              (if m < T \<and> j \<in> {1..5} \<and> i - offset g + (ks - 1) \<in> {ks..kount d}
               then stored_field env d j (i - offset g + (ks - 1)) else BFField g j i))
       \<and> offset gp = fill
       \<and> bloch_runs (stdout g') = bloch_runs (stdout g) + (if due then 1 else 0)
       \<and> offset g' = (if due then 0 else fill)
       \<and> (due \<longrightarrow> I_n g' = I_end (BFodeintrk env (BF_start_spin gp) (BFtime g' 1)
                                      (BFtime g' fill) (BFtime g') (BFField g') fill))
       \<and> (m < T \<and> fill < 2000 \<longrightarrow> bloch_runs (stdout g') = bloch_runs (stdout g)))"
proof -
  let ?gp = "BF_prepare env d g"
  let ?g' = "BruteForceIntegration env d g"
  have g': "?g' = BF_block_integrate env ?gp"
    by (simp add: BruteForceIntegration_def)
  have t: "BFtime ?g' = BFtime ?gp" "BFField ?g' = BFField ?gp"
    by (simp_all add: g' BF_block_integrate_same)
  have run: "BF_integration_due ?gp \<Longrightarrow>
      I_n ?g' = I_end (BFodeintrk env (BF_start_spin ?gp) (BFtime ?g' 1)
                  (BFtime ?g' (offset ?gp)) (BFtime ?g') (BFField ?g') (offset ?gp))"
    by (simp add: t) (simp add: g' BF_block_integrate_changed BF_run_def)
  show ?thesis
    unfolding Let_def
    apply (intro conjI allI)
           apply (rule step_Bmin_less)
          apply (simp add: t BF_prepare_changed)
         apply (simp add: t BF_prepare_changed)
        apply (simp add: BF_prepare_changed)
       apply (simp add: g' BF_block_integrate_changed BF_prepare_same due_prepare Let_def)
      apply (simp add: g' BF_block_integrate_changed due_prepare Let_def BF_prepare_changed)
     apply (use run in \<open>simp add: due_prepare Let_def BF_prepare_changed\<close>)
    apply (simp add: g' BF_block_integrate_changed BF_prepare_same due_prepare Let_def)
    done
qed

theorem BruteForceIntegration_buffer_and_trigger_witness:
  "(let g = globals_start\<lparr>offset := 1999, BFBmin := 1 / 20\<rparr>;
        g' = BruteForceIntegration spin_env0 (dense_of (1 / 20)) g
    in step_Bmin (dense_of (1 / 20)) < BFTargetB g
       \<and> BFtime g' 2000 = 1 / 500 \<and> BFField g' 3 2000 = 1 / 20
       \<and> bloch_runs (stdout g') = 1 \<and> offset g' = 0)"
  using BruteForceIntegration_buffer_and_trigger
          [of spin_env0 "dense_of (1 / 20)" "globals_start\<lparr>offset := 1999, BFBmin := 1 / 20\<rparr>"]
  by (simp add: Let_def step_Bmin_dense_of globals_start_def)
     (simp add: dense_of_def stored_field_def spin_env0_def)

subsection \<open>Survival and flip probability\<close>

text \<open>
  C2.  The block that updates the survival probability (under the comment "output of
  polarisation after BF int completed") stands before the block that integrates, so at
  the end of a passage through a low field it uses the projection \<^verbatim>\<open>BFpol\<close> that was
  stored before the passage was integrated.  Here a particle after the reset of
  \<^verbatim>\<open>IntegrateParticle\<close> (\<^verbatim>\<open>BFpol = 0.5\<close>, \<^verbatim>\<open>BFsurvprob = 1\<close>) has buffered twelve
  samples below the threshold and the step is back above it: the Bloch integration of
  the passage runs in this call and leaves the projection \<open>2/5\<close>, but the survival
  probability has been multiplied by \<open>0.5 + 0.5\<close> and stays 1, where the product with
  the projection of the completed segment is \<open>9/10\<close>; the flip probability stays 0.
\<close>

theorem survival_update_uses_stale_projection:
  "(let g = globals_start\<lparr>offset := 12, BFBmin := 1 / 20\<rparr>;
        g' = BruteForceIntegration spin_env0 (dense_of 1) g
    in BFpol g = 1 / 2 \<and> BFsurvprob g = 1 \<and> BFflipprob g = 0
       \<and> BFBmin g < BFTargetB g \<and> BFTargetB g < step_Bmin (dense_of 1)
       \<and> bloch_runs (stdout g') = bloch_runs (stdout g) + 1
       \<and> offset g' = 0
       \<and> BFpol g' = 2 / 5
       \<and> BFsurvprob g' = 1
       \<and> BFsurvprob g' \<noteq> (BFpol g' + 0.5) * BFsurvprob g
       \<and> BFflipprob g' = 0)"
proof -
  let ?g = "globals_start\<lparr>offset := 12, BFBmin := 1 / 20\<rparr>"
  let ?gp = "BF_prepare spin_env0 (dense_of 1) ?g"
  have due: "BF_integration_due ?gp"
    by (simp add: due_prepare Let_def step_Bmin_dense_of globals_start_def)
  have r: "BF_run spin_env0 ?gp =
        \<lparr>I_end = \<lparr>c1 = 3 / 10, c2 = 0, c3 = 2 / 5\<rparr>, o_BFkount = 1,
         o_BFxp = (\<lambda>k. BFtime ?gp (offset ?gp)),
         o_BFyp = (\<lambda>k. \<lparr>c1 = 3 / 10, c2 = 0, c3 = 2 / 5\<rparr>),
         o_BFypFields = (\<lambda>k. \<lparr>c1 = 0, c2 = 0, c3 = 1\<rparr>)\<rparr>"
    by (simp add: BF_run_def spin_env0_def)
  have pol: "BFpol (BF_block_integrate spin_env0 ?gp) = 2 / 5"
    using due
    by (simp add: BF_block_integrate_changed r BF_proj_def)
  have sv: "BFsurvprob (BF_block_integrate spin_env0 ?gp) = 1"
    "BFflipprob (BF_block_integrate spin_env0 ?gp) = 0"
    by (simp_all add: BF_block_integrate_same BF_prepare_changed step_Bmin_dense_of
        globals_start_def)
  show ?thesis
    using due pol sv
    by (simp add: Let_def BruteForceIntegration_def BF_block_integrate_changed BF_prepare_same
        step_Bmin_dense_of)
       (simp add: globals_start_def)
qed

subsection \<open>The random flip of the spin label\<close>

text \<open>
  C4.  The flip of the label is decided in the same block, before the passage is
  integrated, against the projection stored before.  Here the state is the one above,
  \<^verbatim>\<open>flipspin\<close> is set, and the Bloch integration of the passage leaves the spin opposite
  to the field (projection \<open>-1/2\<close>), so that the label is to be flipped if a fresh random
  number is below \<open>1 - (-1/2 + 0.5) = 1\<close>.  Two numbers are drawn, the compared one is 0,
  and the label, the magnetic moment and the flip counter are unchanged: the comparison
  was with \<open>1 - (0.5 + 0.5) = 0\<close>.
\<close>

theorem spin_flip_uses_stale_projection:
  "(let g = globals_start\<lparr>offset := 12, BFBmin := 1 / 20\<rparr>;
        g' = BruteForceIntegration spin_env_reversed (dense_of 1) g
    in flipspin g \<and> BFpol g = 1 / 2
       \<and> BFBmin g < BFTargetB g \<and> BFTargetB g < step_Bmin (dense_of 1)
       \<and> bloch_runs (stdout g') = bloch_runs (stdout g) + 1
       \<and> BFpol g' = - 1 / 2
       \<and> mt_pos g' = mt_pos g + 2
       \<and> mt_double spin_env_reversed (Suc (mt_pos g)) < 1 - (BFpol g' + 0.5)
       \<and> \<not> mt_double spin_env_reversed (Suc (mt_pos g)) < 1 - (BFpol g + 0.5)
       \<and> hfs g' = hfs g \<and> mu_n g' = mu_n g \<and> mumB g' = mumB g \<and> NSF g' = NSF g)"
proof -
  let ?g = "globals_start\<lparr>offset := 12, BFBmin := 1 / 20\<rparr>"
  let ?gp = "BF_prepare spin_env_reversed (dense_of 1) ?g"
  have due: "BF_integration_due ?gp"
    by (simp add: due_prepare Let_def step_Bmin_dense_of globals_start_def)
  have r: "BF_run spin_env_reversed ?gp =
        \<lparr>I_end = \<lparr>c1 = 0, c2 = 0, c3 = - 1 / 2\<rparr>, o_BFkount = 1,
         o_BFxp = (\<lambda>k. BFtime ?gp (offset ?gp)),
         o_BFyp = (\<lambda>k. \<lparr>c1 = 0, c2 = 0, c3 = - 1 / 2\<rparr>),
         o_BFypFields = (\<lambda>k. \<lparr>c1 = 0, c2 = 0, c3 = 1\<rparr>)\<rparr>"
    by (simp add: BF_run_def spin_env_reversed_def)
  have pol: "BFpol (BF_block_integrate spin_env_reversed ?gp) = - 1 / 2"
    using due
    by (simp add: BF_block_integrate_changed r BF_proj_def)
  have m: "mt_double spin_env_reversed n = 0" for n
    by (simp add: spin_env_reversed_def spin_env0_def)
  have same: "hfs (BF_block_integrate spin_env_reversed ?gp) = hfs ?g"
    "mu_n (BF_block_integrate spin_env_reversed ?gp) = mu_n ?g"
    "mumB (BF_block_integrate spin_env_reversed ?gp) = mumB ?g"
    "NSF (BF_block_integrate spin_env_reversed ?gp) = NSF ?g"
    "mt_pos (BF_block_integrate spin_env_reversed ?gp) = mt_pos ?g + 2"
    by (simp_all add: BF_block_integrate_same BF_prepare_changed step_Bmin_dense_of m
        globals_start_def)
  show ?thesis
    using due pol same
    by (simp add: Let_def BruteForceIntegration_def BF_block_integrate_changed BF_prepare_same
        step_Bmin_dense_of m)
       (simp add: globals_start_def)
qed

section \<open>The command line, the exit status, the summary of stop codes and the seed\<close>

lemma counter_Nil [simp]: "counter [] n c = 0"
  by (simp add: counter_def)

lemma map_of_above:
  "\<forall>x\<in>set (map fst idc). k < x \<Longrightarrow> n < k \<Longrightarrow> map_of idc (n::string) = None"
  by (induction idc) (auto split: if_splits)

lemma counter_increment:
  "sorted_wrt (<) (map fst idc) \<Longrightarrow>
   counter (increment n c idc) n' c' = counter idc n' c' + (if n = n' \<and> c = c' then 1 else 0)"
proof (induction n c idc rule: increment.induct)
  case (1 n c)
  show ?case by (simp add: counter_def)
next
  case (2 n c k m rest)
  have above: "\<forall>x\<in>set (map fst rest). k < x" using 2(2) by simp
  show ?case
  proof (cases "n = k")
    case True
    then show ?thesis by (simp add: counter_def)
  next
    case nk: False
    show ?thesis
    proof (cases "n < k")
      case True
      have "map_of rest n = None" by (rule map_of_above [OF above True])
      with True nk show ?thesis by (auto simp: counter_def)
    next
      case False
      have "counter (increment n c rest) n' c'
            = counter rest n' c' + (if n = n' \<and> c = c' then 1 else 0)"
        using 2 nk False by simp
      with nk False show ?thesis by (auto simp: counter_def)
    qed
  qed
qed

lemma keys_increment: "fst ` set (increment n c idc) = insert n (fst ` set idc)"
  by (induction n c idc rule: increment.induct) auto

lemma sorted_increment:
  "sorted_wrt (<) (map fst idc) \<Longrightarrow> sorted_wrt (<) (map fst (increment n c idc))"
proof (induction n c idc rule: increment.induct)
  case (1 n c)
  show ?case by simp
next
  case (2 n c k m rest)
  show ?case
  proof (cases "n = k")
    case True
    with 2 show ?thesis by simp
  next
    case nk: False
    show ?thesis
    proof (cases "n < k")
      case True
      with 2 nk show ?thesis by (auto intro: less_trans)
    next
      case False
      with nk have "k < n" by simp
      moreover have "sorted_wrt (<) (map fst (increment n c rest))"
        using 2 nk False by simp
      moreover have "\<forall>x\<in>fst ` set (increment n c rest). k < x"
        using 2(2) \<open>k < n\<close> unfolding keys_increment by auto
      ultimately show ?thesis using nk False by simp
    qed
  qed
qed

lemma tally_simps:
  "tally [] n c = 0"
  "tally (x # xs) n c = (if x = (n, c) then 1 else 0) + tally xs n c"
  "tally (xs @ ys) n c = tally xs n c + tally ys n c"
  by (simp_all add: tally_def)

lemma idc_ok_Nil: "idc_ok [] []"
  by (simp add: idc_ok_def tally_simps)

lemma idc_ok_increment:
  assumes "idc_ok idc xs"
  shows "idc_ok (increment n c idc) (xs @ [(n, c)])"
proof -
  have s: "sorted_wrt (<) (map fst idc)" using assms by (simp add: idc_ok_def)
  have "sorted_wrt (<) (map fst (increment n c idc))" by (rule sorted_increment [OF s])
  moreover have "fst ` set (increment n c idc) = fst ` set (xs @ [(n, c)])"
    using assms unfolding keys_increment idc_ok_def by auto
  moreover have "counter (increment n c idc) n' c' = tally (xs @ [(n, c)]) n' c'" for n' c'
    using assms unfolding counter_increment [OF s] idc_ok_def
    by (auto simp: tally_simps)
  ultimately show ?thesis unfolding idc_ok_def by blast
qed

lemma idc_ok_secondaries:
  "idc_ok (fst st) xs \<Longrightarrow>
   idc_ok (fst (fold count_secondary ss st)) (xs @ map (\<lambda>(n, f, k). (n, GetStopID f)) ss)"
proof (induction ss arbitrary: st xs)
  case Nil
  then show ?case by simp
next
  case (Cons s ss)
  obtain n f k where s: "s = (n, f, k)" by (cases s)
  have "idc_ok (fst (count_secondary s st)) (xs @ [(n, GetStopID f)])"
    using idc_ok_increment [OF Cons.prems, of n "GetStopID f"]
    by (simp add: count_secondary_def s)
  from Cons.IH [OF this] show ?case by (simp add: s)
qed

lemma idc_ok_particle:
  assumes "idc_ok (fst st) xs"
  shows "idc_ok (fst (count_particle sec p st)) (xs @ integrated sec [p])"
proof -
  let ?st = "(increment (p_name p) (GetStopID (p_fate p)) (fst st),
              snd st + word_of_int (p_steps p))"
  have a: "idc_ok (fst ?st) (xs @ [(p_name p, GetStopID (p_fate p))])"
    using idc_ok_increment [OF assms] by simp
  show ?thesis
  proof (cases "sec = 1")
    case True
    with idc_ok_secondaries [OF a, of "p_secondaries p"] show ?thesis
      by (simp add: count_particle_def Let_def integrated_def)
  next
    case False
    with a show ?thesis by (simp add: count_particle_def Let_def integrated_def)
  qed
qed

lemma idc_ok_particles:
  "idc_ok (fst st) xs \<Longrightarrow>
   idc_ok (fst (fold (count_particle sec) ps st)) (xs @ integrated sec ps)"
proof (induction ps arbitrary: st xs)
  case Nil
  then show ?case by (simp add: integrated_def)
next
  case (Cons p ps)
  have i: "integrated sec (p # ps) = integrated sec [p] @ integrated sec ps"
    by (simp add: integrated_def)
  from Cons.IH [OF idc_ok_particle [OF Cons.prems, of sec p]] show ?case
    by (simp add: i)
qed

lemma idc_by_keys:
  assumes "sorted_wrt (<) (map fst idc)"
  shows "idc = map (\<lambda>n. (n, counter idc n)) (map fst idc)"
proof -
  have d: "distinct (map fst idc)"
    using assms by (simp add: strict_sorted_iff)
  have "map (\<lambda>x. (fst x, counter idc (fst x))) idc = idc"
  proof (rule map_idI)
    fix x assume "x \<in> set idc"
    then have "(fst x, snd x) \<in> set idc" by simp
    then have "map_of idc (fst x) = Some (snd x)"
      using d by (simp only: map_of_eq_Some_iff)
    then have "counter idc (fst x) = snd x"
      by (auto simp: counter_def fun_eq_iff)
    then show "(fst x, counter idc (fst x)) = x" by simp
  qed
  then show ?thesis by (simp add: comp_def)
qed

lemma idc_ok_summary:
  assumes "idc_ok idc xs"
  shows "OutputCodes idc
         = concat (map (\<lambda>n. OutputCodes_kind n (tally xs n)) (sorted_list_of_set (fst ` set xs)))"
proof -
  have s: "sorted_wrt (<) (map fst idc)" using assms by (simp add: idc_ok_def)
  have k: "map fst idc = sorted_list_of_set (fst ` set xs)"
  proof -
    have "sorted_list_of_set (set (map fst idc)) = map fst idc"
      using s by (simp only: strict_sorted_iff sorted_list_of_set.idem_if_sorted_distinct)
    moreover have "set (map fst idc) = fst ` set xs" using assms by (simp add: idc_ok_def)
    ultimately show ?thesis by simp
  qed
  have c: "counter idc n = tally xs n" for n
    using assms by (auto simp: idc_ok_def fun_eq_iff)
  have "OutputCodes idc
        = OutputCodes (map (\<lambda>n. (n, counter idc n)) (map fst idc))"
    using idc_by_keys [OF s] by simp
  also have "\<dots> = concat (map (\<lambda>n. OutputCodes_kind n (tally xs n)) (map fst idc))"
    by (simp add: OutputCodes_def comp_def c)
  finally show ?thesis by (simp only: k)
qed

lemma main_cpp_help:
  "length argv > 1 \<Longrightarrow> argv ! 1 = ''-h'' \<Longrightarrow>
   main_cpp env clock argv = run0\<lparr>usage_shown := True, exit_status := 0\<rparr>"
  by (simp add: main_cpp_def)

lemma main_cpp_run:
  "\<not> (length argv > 1 \<and> argv ! 1 = ''-h'') \<Longrightarrow> main_cpp env clock argv = main_run env clock argv"
  unfolding main_cpp_def by (rule if_not_P)

lemma print_and_return_fields:
  "args (print_and_return r res) = args r"
  "usage_shown (print_and_return r res) = usage_shown r"
  "srand_seed (print_and_return r res) = srand_seed r"
  "generator_seed (print_and_return r res) = generator_seed r"
  "exit_status (print_and_return r res) = (if res = None then - 1 else 0)"
  "written (print_and_return r res) = (case res of None \<Rightarrow> written r | Some fs \<Rightarrow> fs)"
  by (simp_all add: print_and_return_def split: option.splits)

lemma main_run_args:
  "args (main_run env clock argv) = Some (parse_args env argv)"
  "\<not> usage_shown (main_run env clock argv)"
  by (simp_all add: main_run_def Let_def run0_def split_beta print_and_return_fields)

lemma main_run_particle:
  assumes "cfg_simtype env (a_inpath (parse_args env argv)) = PARTICLE"
  shows "summary (main_run env clock argv)
         = OutputCodes (fst (fold (count_particle (cfg_secondaries env (a_inpath (parse_args env argv))))
              (map (simulate env (parse_args env argv) clock)
                   [1..cfg_simcount env (a_inpath (parse_args env argv))]) ([], 0)))"
  using assms by (simp add: main_run_def Let_def run0_def split_beta fold_map comp_def)

lemma main_run_seed:
  "cfg_simtype env (a_inpath (parse_args env argv)) = PARTICLE \<Longrightarrow>
     generator_seed (main_run env clock argv) = Some (a_seed (parse_args env argv))"
  "cfg_simtype env (a_inpath (parse_args env argv)) = GEOMETRY \<Longrightarrow>
     srand_seed (main_run env clock argv) = Some (word_of_int clock)"
  by (simp_all add: main_run_def Let_def run0_def split_beta print_and_return_fields)

lemma main_run_geometry:
  "cfg_simtype env (a_inpath (parse_args env argv)) = GEOMETRY \<Longrightarrow>
     exit_status (main_run env clock argv) = 0
     \<and> written (main_run env clock argv)
         = (if can_open env Geometry_out_file then [Geometry_out_file] else [])"
  by (simp add: main_run_def Let_def run0_def print_and_return_fields PrintGeometry_def)

lemma main_run_bfield:
  "cfg_simtype env (a_inpath (parse_args env argv)) = SIM_BF_ONLY \<Longrightarrow>
     exit_status (main_run env clock argv) = (if can_open env BF_out_file then 0 else - 1)
     \<and> written (main_run env clock argv) = (if can_open env BF_out_file then [BF_out_file] else [])"
  by (simp add: main_run_def Let_def run0_def print_and_return_fields PrintBField_def)

lemma parse_args_eq:
  "parse_args env argv =
     \<lparr>a_jobnumber = (if length argv > 1 then read_int env (argv ! 1) else 0),
      a_inpath = (if length argv > 2 then argv ! 2 else ''./in''),
      a_outpath = (if length argv > 3 then argv ! 3 else ''./out''),
      a_seed = (if length argv > 4 then read_uint64 env (argv ! 4) else 0)\<rparr>"
  by (simp add: parse_args_def Let_def)

text \<open>
  C8.  In the mode that samples the geometry, with an output path in which
  \<^verbatim>\<open>geometry.out\<close> cannot be opened: \<^verbatim>\<open>PrintGeometry\<close> does not test its stream, nothing
  is written, and \<^verbatim>\<open>main\<close> returns 0, for a run without arguments (job number 0, paths
  \<^verbatim>\<open>./in\<close> and \<^verbatim>\<open>./out\<close>, seed 0).  In the mode that prints the field, the same failure
  ends the run with \<^verbatim>\<open>exit(-1)\<close>.
\<close>

theorem main_geometry_exit_status:
  "(let env = cpp_env0\<lparr>cfg_simtype := (\<lambda>p. GEOMETRY),
                        can_open := (\<lambda>f. f \<noteq> Geometry_out_file)\<rparr>;
        r = main_cpp env clock [''PENTrack'']
    in \<not> can_open env Geometry_out_file
       \<and> args r = Some \<lparr>a_jobnumber = 0, a_inpath = ''./in'', a_outpath = ''./out'', a_seed = 0\<rparr>
       \<and> written r = [] \<and> exit_status r = 0)
   \<and> (let env = cpp_env0\<lparr>cfg_simtype := (\<lambda>p. SIM_BF_ONLY), can_open := (\<lambda>f. f \<noteq> BF_out_file)\<rparr>;
          r = main_cpp env clock [''PENTrack'']
      in \<not> can_open env BF_out_file \<and> written r = [] \<and> exit_status r = - 1)"
proof -
  have h: "\<not> (length [''PENTrack''] > 1 \<and> [''PENTrack''] ! 1 = ''-h'')" by simp
  show ?thesis
    unfolding Let_def main_cpp_run [OF h]
    by (simp add: main_run_geometry main_run_bfield main_run_args parse_args_eq cpp_env0_def)
qed

lemma GetStopID_inj: "inj GetStopID"
  by (auto simp: inj_def GetStopID_def split: fate.splits)

lemma all_fates_UNIV: "set all_fates = UNIV"
proof -
  have "f \<in> set all_fates" for f by (cases f) (simp_all add: all_fates_def)
  then show ?thesis by auto
qed

lemma stop_codes_distinct: "distinct (map GetStopID all_fates)"
  by (simp add: all_fates_def GetStopID_def)

lemma indicator_sum:
  "distinct cs \<Longrightarrow> sum_list (map (\<lambda>c. if a = c then 1 else 0) cs) = (if a \<in> set cs then 1 else (0::int))"
  by (induction cs) auto

lemma tally_sum:
  assumes "distinct cs"
  shows "sum_list (map (tally xs n) cs)
         = int (length (filter (\<lambda>x. fst x = n \<and> snd x \<in> set cs) xs))"
proof (induction xs)
  case Nil
  show ?case by (simp add: tally_simps)
next
  case (Cons x xs)
  obtain m c where x: "x = (m, c)" by (cases x)
  have "tally (x # xs) n = (\<lambda>k. (if m = n \<and> c = k then 1 else 0) + tally xs n k)"
    by (rule ext) (simp add: tally_simps x)
  then have "sum_list (map (tally (x # xs) n) cs)
        = sum_list (map (\<lambda>k. (if m = n \<and> c = k then 1 else 0) + tally xs n k) cs)"
    by simp
  also have "\<dots> = sum_list (map (\<lambda>k. if m = n \<and> c = k then 1 else 0) cs)
                  + sum_list (map (tally xs n) cs)"
    by (simp add: sum_list_addf)
  also have "sum_list (map (\<lambda>k. if m = n \<and> c = k then 1 else 0) cs)
             = (if m = n \<and> c \<in> set cs then 1 else (0::int))"
    using indicator_sum [OF assms, of c] by (cases "m = n") simp_all
  finally show ?case by (simp add: Cons.IH x)
qed

lemma integrated_codes:
  "x \<in> set (integrated sec ps) \<Longrightarrow> snd x \<in> set (map GetStopID all_fates)"
  by (auto simp: integrated_def all_fates_UNIV split: if_splits)

lemma rows_of_name:
  "filter (\<lambda>x. f_name x = n) (OutputCodes_kind n' counts)
   = (if n' = n then OutputCodes_kind n' counts else [])"
  by (simp add: OutputCodes_kind_def)

lemma kind_sum:
  "sum_list (map f_count (OutputCodes_kind n counts))
   = sum_list (map counts (map GetStopID all_fates))"
  by (simp add: OutputCodes_kind_def all_fates_def GetStopID_def)

lemma summary_sum:
  "distinct ns \<Longrightarrow>
   sum_list (map f_count (filter (\<lambda>x. f_name x = n)
      (concat (map (\<lambda>k. OutputCodes_kind k (t k)) ns))))
   = (if n \<in> set ns then sum_list (map f_count (OutputCodes_kind n (t n))) else 0)"
  by (induction ns) (auto simp: rows_of_name)

lemma counted_once:
  assumes "\<And>x. x \<in> set xs \<Longrightarrow> snd x \<in> set (map GetStopID all_fates)"
  shows "sum_list (map f_count (filter (\<lambda>x. f_name x = n)
      (concat (map (\<lambda>k. OutputCodes_kind k (tally xs k)) (sorted_list_of_set (fst ` set xs))))))
   = int (length (filter (\<lambda>x. fst x = n) xs))"
proof -
  have f: "filter (\<lambda>x. fst x = n \<and> snd x \<in> set (map GetStopID all_fates)) xs
           = filter (\<lambda>x. fst x = n) xs"
    using assms by (intro filter_cong) auto
  have s: "sum_list (map f_count (OutputCodes_kind n (tally xs n)))
           = int (length (filter (\<lambda>x. fst x = n) xs))"
    unfolding kind_sum tally_sum [OF stop_codes_distinct] f ..
  have z: "n \<notin> fst ` set xs \<Longrightarrow> filter (\<lambda>x. fst x = n) xs = []"
    by (auto simp: filter_empty_conv)
  show ?thesis
    using s z by (simp add: summary_sum)
qed

lemma lifetime_nonneg: "0 \<le> u \<Longrightarrow> u < 1 \<Longrightarrow> 0 \<le> neutron_lifetime u"
proof -
  assume "0 \<le> u" "u < 1"
  then have "ln (1 - u) \<le> 0" by simp
  then have "0 \<le> tau * - ln (1 - u)" by (simp add: tau_def)
  then show ?thesis by (simp add: neutron_lifetime_def)
qed

lemma lifetime_less:
  assumes "u < 1"
  shows "neutron_lifetime u < T \<longleftrightarrow> u < 1 - exp (- T / tau)"
proof -
  have t: "0 < tau" by (simp add: tau_def)
  have p: "0 < 1 - u" using assms by simp
  have "neutron_lifetime u < T \<longleftrightarrow> - T < ln (1 - u) * tau"
    by (auto simp: neutron_lifetime_def mult.commute)
  also have "\<dots> \<longleftrightarrow> - T / tau < ln (1 - u)"
    using t by (simp only: pos_divide_less_eq)
  also have "\<dots> \<longleftrightarrow> exp (- T / tau) < exp (ln (1 - u))"
    by (simp only: exp_less_cancel_iff)
  also have "\<dots> \<longleftrightarrow> exp (- T / tau) < 1 - u"
    using p by (simp only: exp_ln)
  also have "\<dots> \<longleftrightarrow> u < 1 - exp (- T / tau)" by auto
  finally show ?thesis .
qed

text \<open>
  C7.  Every integrated particle carries the stop code that the table gives to the event
  that ended it, so the codes are 2, 1, 0, -1, ..., -7, one for each event, non-negative
  for the two absorptions and for "not categorized" and negative for the others.
  \<^verbatim>\<open>OutputCodes\<close> prints, for each particle name in the counters and in name order, ten
  lines: the ten codes, each with the text that reads as the event of that code, the
  counter of that code and the name.  In a particle run the counter of a name and a code
  is the number of integrated particles (primaries, and secondaries if enabled) of that
  name that stopped with that code, and the counts printed for a name add up to the
  number of integrated particles of that name: every particle is counted once, under the
  meaning of its code.  A neutron with a lifetime sampled from the exponential distribution
  with \<open>\<tau> = 885.7 s\<close> that nothing else stops gets the code -4 exactly when the lifetime
  is below the simulation time \<open>T\<close>, that is for the uniform numbers below
  \<open>1 - exp (- T / \<tau>)\<close>.
\<close>

theorem stop_codes_summary:
  "map (\<lambda>r. (f_code r, fate_of_text (f_text r))) (OutputCodes_kind name counts)
     = map (\<lambda>f. (GetStopID f, Some f)) all_fates
   \<and> map f_count (OutputCodes_kind name counts) = map (\<lambda>f. counts (GetStopID f)) all_fates
   \<and> map f_name (OutputCodes_kind name counts) = map (\<lambda>f. name) all_fates
   \<and> set all_fates = UNIV \<and> inj GetStopID
   \<and> (0 \<le> GetStopID f \<longleftrightarrow> f \<in> {AbsorbedOnSurface, AbsorbedInBulk, NotCategorized})
   \<and> (let r = main_cpp env clock argv; a = parse_args env argv;
           done = integrated (cfg_secondaries env (a_inpath a))
                    (map (simulate env a clock) [1..cfg_simcount env (a_inpath a)])
       in \<not> (length argv > 1 \<and> argv ! 1 = ''-h'') \<and> cfg_simtype env (a_inpath a) = PARTICLE
          \<longrightarrow> summary r = concat (map (\<lambda>n. OutputCodes_kind n (tally done n))
                                      (sorted_list_of_set (fst ` set done)))
              \<and> sum_list (map f_count (filter (\<lambda>x. f_name x = n) (summary r)))
                  = int (length (filter (\<lambda>x. fst x = n) done)))
   \<and> (0 \<le> u \<and> u < 1 \<longrightarrow>
         0 \<le> neutron_lifetime u
         \<and> (GetStopID (time_fate T (neutron_lifetime u)) = - 4
              \<longleftrightarrow> u < 1 - exp (- T / (8857 / 10))))"
proof -
  have a: "map (\<lambda>r. (f_code r, fate_of_text (f_text r))) (OutputCodes_kind name counts)
     = map (\<lambda>f. (GetStopID f, Some f)) all_fates"
    by (simp add: OutputCodes_kind_def all_fates_def GetStopID_def fate_of_text_def)
  have b: "map f_count (OutputCodes_kind name counts) = map (\<lambda>f. counts (GetStopID f)) all_fates"
    "map f_name (OutputCodes_kind name counts) = map (\<lambda>f. name) all_fates"
    by (simp_all add: OutputCodes_kind_def all_fates_def GetStopID_def)
  have c: "0 \<le> GetStopID f \<longleftrightarrow> f \<in> {AbsorbedOnSurface, AbsorbedInBulk, NotCategorized}"
    by (cases f) (simp_all add: GetStopID_def)
  let ?done = "integrated (cfg_secondaries env (a_inpath (parse_args env argv)))
                    (map (simulate env (parse_args env argv) clock)
                       [1..cfg_simcount env (a_inpath (parse_args env argv))])"
  have d: "summary (main_cpp env clock argv)
          = concat (map (\<lambda>n. OutputCodes_kind n (tally ?done n))
                      (sorted_list_of_set (fst ` set ?done)))
        \<and> sum_list (map f_count (filter (\<lambda>x. f_name x = n) (summary (main_cpp env clock argv))))
            = int (length (filter (\<lambda>x. fst x = n) ?done))"
    if h: "\<not> (length argv > 1 \<and> argv ! 1 = ''-h'')"
      and p: "cfg_simtype env (a_inpath (parse_args env argv)) = PARTICLE"
  proof -
    have ok: "idc_ok (fst ([], 0::32 word)) []" by (simp add: idc_ok_Nil)
    from idc_ok_summary [OF idc_ok_particles [OF ok]] main_run_particle [OF p]
    have s: "summary (main_cpp env clock argv)
          = concat (map (\<lambda>n. OutputCodes_kind n (tally ?done n))
                      (sorted_list_of_set (fst ` set ?done)))"
      by (simp add: main_cpp_run [OF h])
    show ?thesis
      unfolding s using counted_once [OF integrated_codes, of ?done] by simp
  qed
  have e: "0 \<le> neutron_lifetime u
         \<and> (GetStopID (time_fate T (neutron_lifetime u)) = - 4
              \<longleftrightarrow> u < 1 - exp (- T / (8857 / 10)))"
    if "0 \<le> u" "u < 1"
  proof -
    have "GetStopID (time_fate T (neutron_lifetime u)) = - 4 \<longleftrightarrow> neutron_lifetime u < T"
      by (simp add: time_fate_def GetStopID_def)
    also have "\<dots> \<longleftrightarrow> u < 1 - exp (- T / tau)" by (rule lifetime_less [OF that(2)])
    finally show ?thesis
      using lifetime_nonneg [OF that] by (simp add: tau_def)
  qed
  show ?thesis
    unfolding Let_def using a b c d e all_fates_UNIV GetStopID_inj by blast
qed

theorem stop_codes_summary_witness:
  "(let r = main_cpp cpp_env0 0 [''PENTrack'']
    in \<not> (length [''PENTrack''] > 1 \<and> [''PENTrack''] ! 1 = ''-h'')
       \<and> cfg_simtype cpp_env0 (a_inpath (parse_args cpp_env0 [''PENTrack''])) = PARTICLE
       \<and> map (\<lambda>x. (f_name x, f_code x, f_count x)) (filter (\<lambda>x. f_count x \<noteq> 0) (summary r))
           = [(''electron'', - 2, 1), (''neutron'', 2, 1), (''neutron'', - 4, 1),
              (''proton'', - 2, 1)]
       \<and> sum_list (map f_count (filter (\<lambda>x. f_name x = ''neutron'') (summary r))) = 2)
   \<and> (0::real) \<le> 0 \<and> (0::real) < 1 \<and> neutron_lifetime 0 = 0
   \<and> GetStopID (time_fate 1 (neutron_lifetime 0)) = - 4
   \<and> GetStopID (time_fate 0 (neutron_lifetime 0)) = - 1"
proof -
  have p: "cfg_simtype cpp_env0 (a_inpath (parse_args cpp_env0 [''PENTrack''])) = PARTICLE"
    by (simp add: cpp_env0_def parse_args_eq)
  have d: "integrated (cfg_secondaries cpp_env0 (a_inpath (parse_args cpp_env0 [''PENTrack''])))
             (map (simulate cpp_env0 (parse_args cpp_env0 [''PENTrack'']) 0)
                [1..cfg_simcount cpp_env0 (a_inpath (parse_args cpp_env0 [''PENTrack'']))])
           = [(''neutron'', - 4), (''proton'', - 2), (''electron'', - 2), (''neutron'', 2)]"
    by (simp add: cpp_env0_def parse_args_eq integrated_def upto_rec1 GetStopID_def)
  note t = stop_codes_summary [of "''neutron''" "\<lambda>c. 0" NeutronDecayed cpp_env0 0 "[''PENTrack'']"
      "''neutron''" 0 1]
  note t0 = stop_codes_summary [of "''neutron''" "\<lambda>c. 0" NeutronDecayed cpp_env0 0 "[''PENTrack'']"
      "''neutron''" 0 0]
  have h: "\<not> (length [''PENTrack''] > 1 \<and> [''PENTrack''] ! 1 = ''-h'')" by simp
  from t [unfolded Let_def d] h p
  have e: "summary (main_cpp cpp_env0 0 [''PENTrack''])
        = concat (map (\<lambda>n. OutputCodes_kind n
             (tally [(''neutron'', - 4), (''proton'', - 2), (''electron'', - 2), (''neutron'', 2)] n))
           (sorted_list_of_set (fst ` set
             [(''neutron'', - 4 :: int), (''proton'', - 2), (''electron'', - 2),
              (''neutron'', 2)])))"
    and n: "sum_list (map f_count (filter (\<lambda>x. f_name x = ''neutron'')
              (summary (main_cpp cpp_env0 0 [''PENTrack'']))))
        = int (length (filter (\<lambda>x. fst x = ''neutron'')
            [(''neutron'', - 4 :: int), (''proton'', - 2), (''electron'', - 2),
              (''neutron'', 2)]))"
    by blast+
  have n2: "sum_list (map f_count (filter (\<lambda>x. f_name x = ''neutron'')
              (summary (main_cpp cpp_env0 0 [''PENTrack'']))))
        = 2"
    unfolding n by simp
  have k: "sorted_list_of_set (fst ` set
             [(''neutron'', - 4 :: int), (''proton'', - 2), (''electron'', - 2), (''neutron'', 2)])
        = [''electron'', ''neutron'', ''proton'']"
  proof -
    have "fst ` set [(''neutron'', - 4 :: int), (''proton'', - 2), (''electron'', - 2),
                     (''neutron'', 2)] = {''neutron'', ''proton'', ''electron''}"
      by auto
    then show ?thesis by simp
  qed
  have s: "summary (main_cpp cpp_env0 0 [''PENTrack''])
        = concat (map (\<lambda>n. OutputCodes_kind n
             (tally [(''neutron'', - 4), (''proton'', - 2), (''electron'', - 2), (''neutron'', 2)] n))
           [''electron'', ''neutron'', ''proton''])"
    using e unfolding k .
  have l: "neutron_lifetime 0 = 0" by (simp add: neutron_lifetime_def)
  have x: "(0::real) < 1 - exp (- 1 / (8857 / 10))" by simp
  have y: "\<not> (0::real) < 1 - exp (- 0 / (8857 / 10))" by simp
  have f1: "GetStopID (time_fate 1 (neutron_lifetime 0)) = - 4"
    using t x by simp
  have f0: "GetStopID (time_fate 0 (neutron_lifetime 0)) = - 1"
    using t0 y by (simp add: time_fate_def GetStopID_def l)
  have a: "map (\<lambda>x. (f_name x, f_code x, f_count x))
             (filter (\<lambda>x. f_count x \<noteq> 0) (summary (main_cpp cpp_env0 0 [''PENTrack''])))
           = [(''electron'', - 2, 1), (''neutron'', 2, 1), (''neutron'', - 4, 1),
              (''proton'', - 2, 1)]"
    unfolding s by (simp add: OutputCodes_kind_def tally_def)
  show ?thesis
    unfolding Let_def using p a n2 l f1 f0 by simp
qed

text \<open>
  C6, as stated, fails: bahnen2005.c seeds the Mersenne twister with the start time
  plus the job number, so two runs of the same job that start one second apart are
  seeded differently; and the geometry sampler of src/main.cpp draws from \<^verbatim>\<open>rand\<close>,
  seeded with the start time.
\<close>

theorem seed_from_wall_clock_counterexample:
  "bahnen_seed 1000 7 \<noteq> bahnen_seed 1001 7
   \<and> srand_seed (main_cpp (cpp_env0\<lparr>cfg_simtype := (\<lambda>p. GEOMETRY)\<rparr>) 1000 [''PENTrack''])
       \<noteq> srand_seed (main_cpp (cpp_env0\<lparr>cfg_simtype := (\<lambda>p. GEOMETRY)\<rparr>) 1001 [''PENTrack''])"
  by (simp add: bahnen_seed_def main_cpp_def main_run_def Let_def run0_def cpp_env0_def
      print_and_return_def PrintGeometry_def)

text \<open>
  C6, amended.  In bahnen2005.c the one Mersenne-twister stream of a run is seeded with
  \<^verbatim>\<open>(unsigned long) time(NULL) + jobnumber\<close>: the seed is a function of the start time and
  the job number (there is no seed argument and no particle index), and two runs of the
  same job have the same seed exactly when their start times agree modulo \<open>2\<^sup>6\<^sup>4\<close>.  In
  src/main.cpp the seed handed to the generator of a particle run is the fourth argument,
  or 0 without one, whatever the clock; the geometry sampler seeds \<^verbatim>\<open>rand\<close> from the
  clock.
\<close>

theorem seed_of_the_random_stream:
  "bahnen_seed t j = word_of_int (t + j)
   \<and> (bahnen_seed t j = bahnen_seed t' j \<longleftrightarrow> (2 ^ 64 :: int) dvd t - t')
   \<and> (let a = parse_args env argv
       in \<not> (length argv > 1 \<and> argv ! 1 = ''-h'') \<longrightarrow>
            (cfg_simtype env (a_inpath a) = PARTICLE \<longrightarrow>
               generator_seed (main_cpp env clock argv)
               = Some (if length argv > 4 then read_uint64 env (argv ! 4) else 0))
            \<and> (cfg_simtype env (a_inpath a) = GEOMETRY \<longrightarrow>
                 srand_seed (main_cpp env clock argv) = Some (word_of_int clock)))"
proof -
  have a: "bahnen_seed t j = word_of_int (t + j)"
    by (simp add: bahnen_seed_def)
  have "bahnen_seed t j = bahnen_seed t' j
        \<longleftrightarrow> (word_of_int t :: 64 word) = word_of_int t'"
    by (simp add: bahnen_seed_def)
  also have "\<dots> \<longleftrightarrow> t mod 2 ^ 64 = t' mod 2 ^ 64"
    by (simp add: word_of_int_eq_iff take_bit_eq_mod)
  also have "\<dots> \<longleftrightarrow> (2 ^ 64 :: int) dvd t - t'"
    by (rule mod_eq_dvd_iff)
  finally have b: "bahnen_seed t j = bahnen_seed t' j \<longleftrightarrow> (2 ^ 64 :: int) dvd t - t'" .
  have c: "\<not> (length argv > 1 \<and> argv ! 1 = ''-h'') \<longrightarrow>
            (cfg_simtype env (a_inpath (parse_args env argv)) = PARTICLE \<longrightarrow>
               generator_seed (main_cpp env clock argv)
               = Some (if length argv > 4 then read_uint64 env (argv ! 4) else 0))
            \<and> (cfg_simtype env (a_inpath (parse_args env argv)) = GEOMETRY \<longrightarrow>
                 srand_seed (main_cpp env clock argv) = Some (word_of_int clock))"
  proof (intro impI conjI)
    assume h: "\<not> (length argv > 1 \<and> argv ! 1 = ''-h'')"
    show "generator_seed (main_cpp env clock argv)
               = Some (if length argv > 4 then read_uint64 env (argv ! 4) else 0)"
      if "cfg_simtype env (a_inpath (parse_args env argv)) = PARTICLE"
      using main_run_seed(1) [OF that] by (simp add: main_cpp_run [OF h] parse_args_eq)
    show "srand_seed (main_cpp env clock argv) = Some (word_of_int clock)"
      if "cfg_simtype env (a_inpath (parse_args env argv)) = GEOMETRY"
      using main_run_seed(2) [OF that] by (simp add: main_cpp_run [OF h])
  qed
  show ?thesis
    unfolding Let_def using a b c by blast
qed

theorem seed_of_the_random_stream_witness:
  "bahnen_seed 1000 7 = 1007
   \<and> \<not> (length [''PENTrack'', ''7''] > 1 \<and> [''PENTrack'', ''7''] ! 1 = ''-h'')
   \<and> cfg_simtype cpp_env0 (a_inpath (parse_args cpp_env0 [''PENTrack'', ''7''])) = PARTICLE
   \<and> generator_seed (main_cpp cpp_env0 1000 [''PENTrack'', ''7'']) = Some 0
   \<and> generator_seed (main_cpp cpp_env0 2000 [''PENTrack'', ''7'']) = Some 0"
  using seed_of_the_random_stream [of 1000 7 1000 cpp_env0 "[''PENTrack'', ''7'']" 1000]
    seed_of_the_random_stream [of 1000 7 1000 cpp_env0 "[''PENTrack'', ''7'']" 2000]
  by (simp add: Let_def cpp_env0_def parse_args_eq)

section \<open>The start of a particle with negative kinetic energy\<close>

lemma scan_frame_refl [simp]: "scan_frame g g"
  by (simp add: scan_frame_def)

lemma scan_frame_trans: "scan_frame a b \<Longrightarrow> scan_frame b c \<Longrightarrow> scan_frame a c"
  by (simp add: scan_frame_def)

lemma call_MCStartwerte_frame: "scan_frame g (call_MCStartwerte te g)"
  by (simp add: scan_frame_def call_MCStartwerte_def set_start_def split_beta)

lemma IP_dice_frame:
  assumes "IP_dice te g = Some g'"
  shows "scan_frame g g'"
proof (rule IP_dice.raw_induct [where P = "\<lambda>t a b. scan_frame a b", OF _ assms])
  fix f :: "track_env \<Rightarrow> tracker \<Rightarrow> tracker option" and t a b
  assume IH: "\<And>t a b. f t a = Some b \<Longrightarrow> scan_frame a b"
    and eq: "(let g = call_MCStartwerte t a
              in if GeomCheck t (r_n g) (z_n g) (phi_n g) = 1 then f t g else Some g)
             = Some b"
  let ?g = "call_MCStartwerte t a"
  show "scan_frame a b"
  proof (cases "GeomCheck t (r_n ?g) (z_n ?g) (phi_n ?g) = 1")
    case True
    with eq have "f t ?g = Some b" by (simp add: Let_def)
    then have c: "scan_frame ?g b" by (rule IH)
    show ?thesis by (rule scan_frame_trans [OF call_MCStartwerte_frame c])
  next
    case False
    with eq have "b = ?g" by (simp add: Let_def)
    then show ?thesis by (simp add: call_MCStartwerte_frame)
  qed
qed

lemma IP_montecarlo_frame: "IP_montecarlo te g = Some g' \<Longrightarrow> scan_frame g g'"
  by (auto simp: IP_montecarlo_def scan_frame_def dest!: IP_dice_frame split: if_splits)

lemma spin_setup_frame: "scan_frame g (spin_setup g)"
  by (simp add: scan_frame_def spin_setup_def set_hfs_def Let_def)

lemma IP_startfile_frame: "scan_frame g (IP_startfile te g)"
  using call_MCStartwerte_frame [of "g\<lparr>STARTIN := []\<rparr>" te]
  by (simp add: scan_frame_def IP_startfile_def Let_def)

lemma IP_reset_frame: "scan_frame g (IP_reset g)"
  by (simp add: scan_frame_def IP_reset_def)

lemma IP_prepare_frame: "IP_prepare te g = Some g' \<Longrightarrow> scan_frame g g'"
proof -
  assume "IP_prepare te g = Some g'"
  then obtain g1 where m: "IP_montecarlo te (IP_reset g) = Some g1"
    and g': "g' = (IP_startfile te (spin_setup (g1\<lparr>Hstart := Energie g1\<rparr>)))\<lparr>kennz := 0, stopall := 0\<rparr>"
    by (auto simp: IP_prepare_def Let_def)
  have a: "scan_frame g g1"
    by (rule scan_frame_trans [OF IP_reset_frame IP_montecarlo_frame [OF m]])
  have b: "scan_frame g1 (g1\<lparr>Hstart := Energie g1\<rparr>)" by (simp add: scan_frame_def)
  have c: "scan_frame (IP_startfile te (spin_setup (g1\<lparr>Hstart := Energie g1\<rparr>))) g'"
    by (simp add: g' scan_frame_def)
  show ?thesis
    by (rule scan_frame_trans [OF a scan_frame_trans [OF b scan_frame_trans
          [OF spin_setup_frame scan_frame_trans [OF IP_startfile_frame c]]]])
qed

lemma IP_energy_negative:
  assumes "protneut g = NEUTRON"
    and "Energie g - M g * gravconst * z_n g
         + mu_n g * Bws (BFeld fe (r_n g) (phi_n g * conv) (z_n g) 0) < 0"
  shows "\<exists>g'. IP_energy fe g = Inl g' \<and> v_n g' = 0 \<and> stopall g' = 1 \<and> ausgabewunsch g' = 5
           \<and> nintcalls g' = nintcalls g \<and> ENDLOG g' = ENDLOG g \<and> OUTFILE1 g' = OUTFILE1 g
           \<and> BFLOG g' = BFLOG g \<and> mt_pos g' = mt_pos g
           \<and> phi_n g' = phi_n g \<and> phie g' = phie g \<and> dphi g' = dphi g
           \<and> MonteCarlo g' = MonteCarlo g \<and> protneut g' = protneut g
           \<and> BruteForce g' = BruteForce g \<and> polarisation g' = polarisation g \<and> M g' = M g
           \<and> stdout g' = stdout g @ [Msg_Ekin_negative (Energie g - M g * gravconst * z_n g
                 + mu_n g * Bws (BFeld fe (r_n g) (phi_n g * conv) (z_n g) 0))]
           \<and> (MonteCarlo g \<noteq> 0 \<longrightarrow>
                 Energie g' = EnergieE g + 1 \<and> z_n g' = z_ne g + 1 \<and> r_n g' = r_ne g + 1
                 \<and> alpha g' = alphae g + 1 \<and> gammaa g' = gammae g + 1)
           \<and> (MonteCarlo g = 0 \<longrightarrow>
                 Energie g' = Energie g \<and> z_n g' = z_n g \<and> r_n g' = r_n g
                 \<and> alpha g' = alpha g \<and> gammaa g' = gammaa g)"
  using assms
  by (simp add: IP_energy_def Let_def IP_force_scan_end_def)

lemma IP_dice_accept:
  "GeomCheck te (r_n (call_MCStartwerte te g)) (z_n (call_MCStartwerte te g))
      (phi_n (call_MCStartwerte te g)) \<noteq> 1
   \<Longrightarrow> IP_dice te g = Some (call_MCStartwerte te g)"
  by (subst IP_dice.simps) (simp add: Let_def)

lemma IntegrateParticle_early_return:
  assumes prep: "IP_prepare te g = Some gp"
    and neutron: "protneut g = NEUTRON"
    and negative: "Energie gp - M gp * gravconst * z_n gp
         + mu_n gp * Bws (BFeld fe (r_n gp) (phi_n gp * conv) (z_n gp) 0) < 0"
  shows "\<exists>g'. IntegrateParticle fe se te g = Some (Inr g') \<and> v_n g' = 0 \<and> stopall g' = 1
           \<and> ausgabewunsch g' = 5
           \<and> nintcalls g' = nintcalls g \<and> ENDLOG g' = ENDLOG g \<and> OUTFILE1 g' = OUTFILE1 g
           \<and> BFLOG g' = BFLOG g
           \<and> stdout g' = stdout g @ [Msg_Ekin_negative (Energie gp - M gp * gravconst * z_n gp
                 + mu_n gp * Bws (BFeld fe (r_n gp) (phi_n gp * conv) (z_n gp) 0))]
           \<and> (MonteCarlo g \<noteq> 0 \<longrightarrow>
                 Energie g' = EnergieE g + 1 \<and> z_n g' = z_ne g + 1 \<and> r_n g' = r_ne g + 1
                 \<and> alpha g' = alphae g + 1 \<and> gammaa g' = gammae g + 1)
           \<and> (MonteCarlo g = 0 \<longrightarrow>
                 Energie g' = Energie gp \<and> z_n g' = z_n gp \<and> r_n g' = r_n gp
                 \<and> alpha g' = alpha gp \<and> gammaa g' = gammaa gp)
           \<and> phi_n g' = phi_n gp \<and> phie g' = phie g \<and> dphi g' = dphi g
           \<and> mt_pos g' = mt_pos gp \<and> MonteCarlo g' = MonteCarlo g \<and> protneut g' = NEUTRON
           \<and> BruteForce g' = BruteForce gp \<and> polarisation g' = polarisation gp \<and> M g' = M g"
proof -
  have f: "scan_frame g gp" by (rule IP_prepare_frame [OF prep])
  have n: "protneut gp = NEUTRON" using f neutron by (simp add: scan_frame_def)
  from IP_energy_negative [OF n negative] obtain g' where
    e: "IP_energy fe gp = Inl g'" and
    p: "v_n g' = 0" "stopall g' = 1" "ausgabewunsch g' = 5"
       "nintcalls g' = nintcalls gp" "ENDLOG g' = ENDLOG gp" "OUTFILE1 g' = OUTFILE1 gp"
       "BFLOG g' = BFLOG gp" "mt_pos g' = mt_pos gp"
       "phi_n g' = phi_n gp" "phie g' = phie gp" "dphi g' = dphi gp"
       "MonteCarlo g' = MonteCarlo gp" "protneut g' = protneut gp"
       "BruteForce g' = BruteForce gp" "polarisation g' = polarisation gp" "M g' = M gp"
       "stdout g' = stdout gp @ [Msg_Ekin_negative (Energie gp - M gp * gravconst * z_n gp
                 + mu_n gp * Bws (BFeld fe (r_n gp) (phi_n gp * conv) (z_n gp) 0))]" and
    q: "MonteCarlo gp \<noteq> 0 \<longrightarrow>
                 Energie g' = EnergieE gp + 1 \<and> z_n g' = z_ne gp + 1 \<and> r_n g' = r_ne gp + 1
                 \<and> alpha g' = alphae gp + 1 \<and> gammaa g' = gammae gp + 1" and
    r: "MonteCarlo gp = 0 \<longrightarrow>
                 Energie g' = Energie gp \<and> z_n g' = z_n gp \<and> r_n g' = r_n gp
                 \<and> alpha g' = alpha gp \<and> gammaa g' = gammaa gp"
    by blast
  have i: "IntegrateParticle fe se te g = Some (Inr g')"
    by (simp add: IntegrateParticle_def prep e)
  show ?thesis
    using i p q r f n by (intro exI [of _ g']) (simp add: scan_frame_def)
qed

text \<open>What the dice and the set-up make of a Monte-Carlo neutron with these parameters.\<close>

lemma IP_prepare_track_env0:
  assumes "protneut g = NEUTRON" "MonteCarlo g = 1" "BruteForce g"
    "polarisation g = POLARISATION_GOOD" "M g = m_n"
  shows "\<exists>gp. IP_prepare track_env0 g = Some gp \<and> Energie gp = 0 \<and> z_n gp = 1
           \<and> r_n gp = 3 / 10 \<and> phi_n gp = of_nat (mt_pos g) \<and> mt_pos gp = Suc (mt_pos g)
           \<and> mu_n gp = - mu_nSI / ele_e \<and> M gp = m_n \<and> BruteForce gp
           \<and> polarisation gp = POLARISATION_GOOD"
proof -
  define g1 where "g1 = IP_reset g"
  define g2 where "g2 = call_MCStartwerte track_env0 g1"
  define g3 where "g3 = g2\<lparr>x2 := xstart g2\<rparr>"
  have d: "IP_dice track_env0 g1 = Some g2"
    unfolding g2_def by (rule IP_dice_accept) (simp add: track_env0_def)
  have m1: "MonteCarlo g1 = 1" using assms by (simp add: g1_def IP_reset_def)
  have m: "IP_montecarlo track_env0 g1 = Some g3"
    by (simp add: IP_montecarlo_def m1 d g3_def)
  have a3: "protneut g3 = NEUTRON" "MonteCarlo g3 = 1" "BruteForce g3"
    "polarisation g3 = POLARISATION_GOOD" "M g3 = m_n" "Energie g3 = 0" "z_n g3 = 1"
    "r_n g3 = 3 / 10" "phi_n g3 = of_nat (mt_pos g)" "mt_pos g3 = Suc (mt_pos g)"
    using assms
    by (simp_all add: g3_def g2_def g1_def IP_reset_def call_MCStartwerte_def set_start_def
        get_start_def track_env0_def)
  have p: "IP_prepare track_env0 g =
      Some ((IP_startfile track_env0 (spin_setup (g3\<lparr>Hstart := Energie g3\<rparr>)))
              \<lparr>kennz := 0, stopall := 0\<rparr>)"
    using m by (simp add: IP_prepare_def g1_def Let_def)
  show ?thesis
    using a3
    by (simp add: p spin_setup_def set_hfs_def IP_startfile_def Let_def)
qed

lemma Ekin0_negative: "0 - m_n * gravconst * 1 + (- mu_nSI / ele_e) * 1 < 0"
  by (simp add: m_n_def gravconst_def mu_nSI_def ele_e_def)

lemma IntegrateParticle_track_env0:
  assumes "protneut g = NEUTRON" "MonteCarlo g = 1" "BruteForce g"
    "polarisation g = POLARISATION_GOOD" "M g = m_n"
  shows "\<exists>g'. IntegrateParticle fields0 se track_env0 g = Some (Inr g')
           \<and> protneut g' = NEUTRON \<and> MonteCarlo g' = 1 \<and> BruteForce g'
           \<and> polarisation g' = POLARISATION_GOOD \<and> M g' = m_n
           \<and> phi_n g' = of_nat (mt_pos g) \<and> mt_pos g' = Suc (mt_pos g)
           \<and> phie g' = phie g \<and> dphi g' = dphi g
           \<and> nintcalls g' = nintcalls g \<and> ENDLOG g' = ENDLOG g
           \<and> stdout g' = stdout g @ [Msg_Ekin_negative (- m_n * gravconst - mu_nSI / ele_e)]"
proof -
  from IP_prepare_track_env0 [OF assms] obtain gp where
    p: "IP_prepare track_env0 g = Some gp" and
    v: "Energie gp = 0" "z_n gp = 1" "r_n gp = 3 / 10" "phi_n gp = of_nat (mt_pos g)"
       "mt_pos gp = Suc (mt_pos g)" "mu_n gp = - mu_nSI / ele_e" "M gp = m_n" "BruteForce gp"
       "polarisation gp = POLARISATION_GOOD"
    by blast
  have b: "Bws (BFeld fields0 (r_n gp) (phi_n gp * conv) (z_n gp) 0) = 1"
    by (simp add: fields0_def)
  have e: "Energie gp - M gp * gravconst * z_n gp
         + mu_n gp * Bws (BFeld fields0 (r_n gp) (phi_n gp * conv) (z_n gp) 0)
         = - m_n * gravconst - mu_nSI / ele_e"
    unfolding b by (simp add: v)
  have n: "Energie gp - M gp * gravconst * z_n gp
         + mu_n gp * Bws (BFeld fields0 (r_n gp) (phi_n gp * conv) (z_n gp) 0) < 0"
    unfolding e using Ekin0_negative by simp
  from IntegrateParticle_early_return [OF p assms(1) n, of se] obtain g' where
    "IntegrateParticle fields0 se track_env0 g = Some (Inr g')"
    "nintcalls g' = nintcalls g" "ENDLOG g' = ENDLOG g"
    "stdout g' = stdout g @ [Msg_Ekin_negative (Energie gp - M gp * gravconst * z_n gp
         + mu_n gp * Bws (BFeld fields0 (r_n gp) (phi_n gp * conv) (z_n gp) 0))]"
    "phi_n g' = phi_n gp" "phie g' = phie g" "dphi g' = dphi g"
    "mt_pos g' = mt_pos gp" "MonteCarlo g' = MonteCarlo g" "protneut g' = NEUTRON"
    "BruteForce g' = BruteForce gp" "polarisation g' = polarisation gp" "M g' = M g"
    by blast
  then show ?thesis
    using v assms unfolding e by (intro exI [of _ g']) simp
qed

lemma scan_phi_again:
  assumes "IntegrateParticle fe se te g = Some (Inr g')" and "phi_n g \<le> phie g"
  shows "scan_phi fe se te g = scan_phi fe se te (g'\<lparr>phi_n := phi_n g' + dphi g'\<rparr>)"
  using assms by (subst scan_phi.simps) simp

lemma scan_phi_done:
  "phie g < phi_n g \<Longrightarrow> scan_phi fe se te g = Some (Inr g)"
  by (subst scan_phi.simps) simp

text \<open>
  C10.  A neutron whose kinetic energy at the start point,
  \<open>Ekin = Energie - M g z + mu_n |B|\<close> (with the start values and the magnetic moment that
  the set-up of \<^verbatim>\<open>IntegrateParticle\<close> leaves), is negative: \<^verbatim>\<open>IntegrateParticle\<close> returns
  with the velocity zero and the stop flag set, the integrator has not been called, the
  end log has no new record, and in Monte-Carlo mode the scan variables \<open>Energie\<close>, \<open>z_n\<close>,
  \<open>r_n\<close>, \<open>alpha\<close> and \<open>gammaa\<close> are past their end values.  The sixth scan variable,
  \<open>phi_n\<close>, is not: it keeps the start value, so that the innermost scan loop goes on
  whenever \<open>phi_n + dphi \<le> phie\<close>.  The block at the end of \<^verbatim>\<open>IntegrateParticle\<close>, which
  every other particle reaches, sets \<open>phi_n = phie + 1\<close> as well.
\<close>

theorem IntegrateParticle_negative_energy:
  assumes "IP_prepare te g = Some gp"
    and "protneut g = NEUTRON"
    and "Energie gp - M gp * gravconst * z_n gp
         + mu_n gp * Bws (BFeld fe (r_n gp) (phi_n gp * conv) (z_n gp) 0) < 0"
  shows "\<exists>g'. IntegrateParticle fe se te g = Some (Inr g') \<and> v_n g' = 0 \<and> stopall g' = 1
           \<and> nintcalls g' = nintcalls g \<and> ENDLOG g' = ENDLOG g
           \<and> (MonteCarlo g \<noteq> 0 \<longrightarrow>
                 Energie g' = EnergieE g + 1 \<and> z_n g' = z_ne g + 1 \<and> r_n g' = r_ne g + 1
                 \<and> alpha g' = alphae g + 1 \<and> gammaa g' = gammae g + 1)
           \<and> phi_n g' = phi_n gp \<and> phie g' = phie g \<and> dphi g' = dphi g"
proof -
  from IntegrateParticle_early_return [OF assms, of se] obtain g' where
    "IntegrateParticle fe se te g = Some (Inr g')" "v_n g' = 0" "stopall g' = 1"
    "nintcalls g' = nintcalls g" "ENDLOG g' = ENDLOG g"
    "MonteCarlo g \<noteq> 0 \<longrightarrow>
                 Energie g' = EnergieE g + 1 \<and> z_n g' = z_ne g + 1 \<and> r_n g' = r_ne g + 1
                 \<and> alpha g' = alphae g + 1 \<and> gammaa g' = gammae g + 1"
    "phi_n g' = phi_n gp" "phie g' = phie g" "dphi g' = dphi g"
    by blast
  then show ?thesis by (intro exI [of _ g']) simp
qed

lemma IP_prepare_tracker_start:
  "IP_prepare track_env0 tracker_start = Some (tracker_start\<lparr>mt_pos := 1\<rparr>)"
proof -
  define g1 where "g1 = IP_reset tracker_start"
  define g2 where "g2 = call_MCStartwerte track_env0 g1"
  have d: "IP_dice track_env0 g1 = Some g2"
    unfolding g2_def by (rule IP_dice_accept) (simp add: track_env0_def)
  have m1: "MonteCarlo g1 = 1" by (simp add: g1_def IP_reset_def tracker_start_def)
  have m: "IP_montecarlo track_env0 g1 = Some (g2\<lparr>x2 := xstart g2\<rparr>)"
    by (simp add: IP_montecarlo_def m1 d)
  have g2: "g2\<lparr>x2 := xstart g2\<rparr> = tracker_start\<lparr>mt_pos := 1\<rparr>"
    by (simp add: g2_def g1_def IP_reset_def call_MCStartwerte_def set_start_def
        get_start_def track_env0_def tracker_start_def)
  have s: "spin_setup (tracker_start\<lparr>mt_pos := 1, Hstart := Energie tracker_start\<rparr>)
           = tracker_start\<lparr>mt_pos := 1\<rparr>"
    by (simp add: spin_setup_def set_hfs_def Let_def tracker_start_def)
  have f: "IP_startfile track_env0 (tracker_start\<lparr>mt_pos := 1\<rparr>) = tracker_start\<lparr>mt_pos := 1\<rparr>"
    by (simp add: IP_startfile_def tracker_start_def)
  have "IP_prepare track_env0 tracker_start =
      Some ((IP_startfile track_env0 (spin_setup (tracker_start\<lparr>mt_pos := 1,
           Hstart := Energie tracker_start\<rparr>)))\<lparr>kennz := 0, stopall := 0\<rparr>)"
    using m unfolding g2 by (simp add: IP_prepare_def g1_def Let_def)
  also have "\<dots> = Some (tracker_start\<lparr>mt_pos := 1\<rparr>)"
    unfolding s f by (simp add: tracker_start_def)
  finally show ?thesis .
qed

theorem IntegrateParticle_negative_energy_witness:
  "IP_prepare track_env0 tracker_start = Some (tracker_start\<lparr>mt_pos := 1\<rparr>)
   \<and> protneut tracker_start = NEUTRON
   \<and> Energie (tracker_start\<lparr>mt_pos := 1\<rparr>)
       - M (tracker_start\<lparr>mt_pos := 1\<rparr>) * gravconst * z_n (tracker_start\<lparr>mt_pos := 1\<rparr>)
       + mu_n (tracker_start\<lparr>mt_pos := 1\<rparr>)
         * Bws (BFeld fields0 (r_n (tracker_start\<lparr>mt_pos := 1\<rparr>))
                  (phi_n (tracker_start\<lparr>mt_pos := 1\<rparr>) * conv)
                  (z_n (tracker_start\<lparr>mt_pos := 1\<rparr>)) 0) < 0
   \<and> (\<exists>g'. IntegrateParticle fields0 spin_env0 track_env0 tracker_start = Some (Inr g')
          \<and> v_n g' = 0 \<and> stopall g' = 1 \<and> nintcalls g' = 0
          \<and> ENDLOG g' = fopen_w (EndFile ''./out'' 0)
          \<and> Energie g' = 1 / 10 ^ 7 + 1 \<and> z_n g' = 5 / 2 \<and> r_n g' = 3 / 2
          \<and> alpha g' = 1 \<and> gammaa g' = 1
          \<and> phi_n g' = 0 \<and> phie g' = 2 \<and> dphi g' = 1
          \<and> phi_n g' + dphi g' \<le> phie g')"
proof -
  have n: "Energie (tracker_start\<lparr>mt_pos := 1\<rparr>)
       - M (tracker_start\<lparr>mt_pos := 1\<rparr>) * gravconst * z_n (tracker_start\<lparr>mt_pos := 1\<rparr>)
       + mu_n (tracker_start\<lparr>mt_pos := 1\<rparr>)
         * Bws (BFeld fields0 (r_n (tracker_start\<lparr>mt_pos := 1\<rparr>))
                  (phi_n (tracker_start\<lparr>mt_pos := 1\<rparr>) * conv)
                  (z_n (tracker_start\<lparr>mt_pos := 1\<rparr>)) 0) < 0"
    using Ekin0_negative by (simp add: tracker_start_def fields0_def)
  have t: "protneut tracker_start = NEUTRON" by (simp add: tracker_start_def)
  from IntegrateParticle_negative_energy [OF IP_prepare_tracker_start t n, of spin_env0]
  obtain g' where
    "IntegrateParticle fields0 spin_env0 track_env0 tracker_start = Some (Inr g')"
    "v_n g' = 0" "stopall g' = 1"
    "nintcalls g' = nintcalls tracker_start" "ENDLOG g' = ENDLOG tracker_start"
    "MonteCarlo tracker_start \<noteq> 0 \<longrightarrow>
        Energie g' = EnergieE tracker_start + 1 \<and> z_n g' = z_ne tracker_start + 1
        \<and> r_n g' = r_ne tracker_start + 1
        \<and> alpha g' = alphae tracker_start + 1 \<and> gammaa g' = gammae tracker_start + 1"
    "phi_n g' = phi_n (tracker_start\<lparr>mt_pos := 1\<rparr>)" "phie g' = phie tracker_start"
    "dphi g' = dphi tracker_start"
    by blast
  then have "\<exists>g'. IntegrateParticle fields0 spin_env0 track_env0 tracker_start = Some (Inr g')
          \<and> v_n g' = 0 \<and> stopall g' = 1 \<and> nintcalls g' = 0
          \<and> ENDLOG g' = fopen_w (EndFile ''./out'' 0)
          \<and> Energie g' = 1 / 10 ^ 7 + 1 \<and> z_n g' = 5 / 2 \<and> r_n g' = 3 / 2
          \<and> alpha g' = 1 \<and> gammaa g' = 1
          \<and> phi_n g' = 0 \<and> phie g' = 2 \<and> dphi g' = 1
          \<and> phi_n g' + dphi g' \<le> phie g'"
    by (intro exI [of _ g']) (simp add: tracker_start_def)
  with IP_prepare_tracker_start t n show ?thesis by blast
qed

text \<open>
  The innermost scan loop of \<^verbatim>\<open>main\<close> on that input: \<^verbatim>\<open>IntegrateParticle\<close> is entered
  three times for the one Monte-Carlo particle, each time with a newly diced start point
  and each time leaving by the early return, before \<open>phi_n\<close> has passed \<open>phie\<close>.
\<close>

theorem scan_phi_negative_energy_repeats:
  "\<exists>g'. scan_phi fields0 spin_env0 track_env0 tracker_start = Some (Inr g')
     \<and> stdout g' = replicate 3 (Msg_Ekin_negative (- m_n * gravconst - mu_nSI / ele_e))
     \<and> mt_pos g' = 3 \<and> nintcalls g' = 0 \<and> ENDLOG g' = fopen_w (EndFile ''./out'' 0)"
proof -
  let ?m = "Msg_Ekin_negative (- m_n * gravconst - mu_nSI / ele_e)"
  have s0: "protneut tracker_start = NEUTRON" "MonteCarlo tracker_start = 1"
    "BruteForce tracker_start" "polarisation tracker_start = POLARISATION_GOOD"
    "M tracker_start = m_n"
    by (simp_all add: tracker_start_def)
  from IntegrateParticle_track_env0 [OF s0, of spin_env0] obtain g1 where
    i1: "IntegrateParticle fields0 spin_env0 track_env0 tracker_start = Some (Inr g1)" and
    s1: "protneut g1 = NEUTRON" "MonteCarlo g1 = 1" "BruteForce g1"
        "polarisation g1 = POLARISATION_GOOD" "M g1 = m_n" and
    v1: "phi_n g1 = 0" "mt_pos g1 = 1" "phie g1 = 2" "dphi g1 = 1" "nintcalls g1 = 0"
        "ENDLOG g1 = fopen_w (EndFile ''./out'' 0)" "stdout g1 = [?m]"
    by (auto simp: tracker_start_def)
  define h1 where "h1 = g1\<lparr>phi_n := phi_n g1 + dphi g1\<rparr>"
  have t1: "protneut h1 = NEUTRON" "MonteCarlo h1 = 1" "BruteForce h1"
        "polarisation h1 = POLARISATION_GOOD" "M h1 = m_n"
    using s1 by (simp_all add: h1_def)
  have w1: "phi_n h1 = 1" "mt_pos h1 = 1" "phie h1 = 2" "dphi h1 = 1" "nintcalls h1 = 0"
        "ENDLOG h1 = fopen_w (EndFile ''./out'' 0)" "stdout h1 = [?m]"
    using v1 by (simp_all add: h1_def)
  from IntegrateParticle_track_env0 [OF t1, of spin_env0] obtain g2 where
    i2: "IntegrateParticle fields0 spin_env0 track_env0 h1 = Some (Inr g2)" and
    s2: "protneut g2 = NEUTRON" "MonteCarlo g2 = 1" "BruteForce g2"
        "polarisation g2 = POLARISATION_GOOD" "M g2 = m_n" and
    v2: "phi_n g2 = 1" "mt_pos g2 = 2" "phie g2 = 2" "dphi g2 = 1" "nintcalls g2 = 0"
        "ENDLOG g2 = fopen_w (EndFile ''./out'' 0)" "stdout g2 = [?m, ?m]"
    using w1 by auto
  define h2 where "h2 = g2\<lparr>phi_n := phi_n g2 + dphi g2\<rparr>"
  have t2: "protneut h2 = NEUTRON" "MonteCarlo h2 = 1" "BruteForce h2"
        "polarisation h2 = POLARISATION_GOOD" "M h2 = m_n"
    using s2 by (simp_all add: h2_def)
  have w2: "phi_n h2 = 2" "mt_pos h2 = 2" "phie h2 = 2" "dphi h2 = 1" "nintcalls h2 = 0"
        "ENDLOG h2 = fopen_w (EndFile ''./out'' 0)" "stdout h2 = [?m, ?m]"
    using v2 by (simp_all add: h2_def)
  from IntegrateParticle_track_env0 [OF t2, of spin_env0] obtain g3 where
    i3: "IntegrateParticle fields0 spin_env0 track_env0 h2 = Some (Inr g3)" and
    v3: "phi_n g3 = 2" "mt_pos g3 = 3" "phie g3 = 2" "dphi g3 = 1" "nintcalls g3 = 0"
        "ENDLOG g3 = fopen_w (EndFile ''./out'' 0)" "stdout g3 = [?m, ?m, ?m]"
    using w2 by auto
  define h3 where "h3 = g3\<lparr>phi_n := phi_n g3 + dphi g3\<rparr>"
  have w3: "phie h3 < phi_n h3" "mt_pos h3 = 3" "nintcalls h3 = 0"
        "ENDLOG h3 = fopen_w (EndFile ''./out'' 0)" "stdout h3 = [?m, ?m, ?m]"
    using v3 by (simp_all add: h3_def)
  have "scan_phi fields0 spin_env0 track_env0 tracker_start
        = scan_phi fields0 spin_env0 track_env0 h1"
    unfolding h1_def by (rule scan_phi_again [OF i1]) (simp add: tracker_start_def)
  also have "\<dots> = scan_phi fields0 spin_env0 track_env0 h2"
    unfolding h2_def by (rule scan_phi_again [OF i2]) (simp add: w1)
  also have "\<dots> = scan_phi fields0 spin_env0 track_env0 h3"
    unfolding h3_def by (rule scan_phi_again [OF i3]) (simp add: w2)
  also have "\<dots> = Some (Inr h3)"
    by (rule scan_phi_done [OF w3(1)])
  finally show ?thesis
    using w3 by (intro exI [of _ h3]) (simp add: numeral_3_eq_3)
qed

section \<open>The track file, the spin log and their rollover\<close>

lemma file_rows_simps [simp]:
  "file_rows (fopen_w n) = 0"
  "file_rows (fprintf (Row r) f) = file_rows f + 1"
  "file_rows (fprintf (Header h) f) = file_rows f"
  by (simp_all add: file_rows_def fopen_w_def fprintf_def)

lemma file_rows_append:
  "\<forall>r\<in>set rows. is_Row r \<Longrightarrow> slines f' = slines f @ rows
   \<Longrightarrow> file_rows f' = file_rows f + int (length rows)"
  by (simp add: file_rows_def)

lemma track_frame_refl [simp]: "track_frame g g"
  by (simp add: track_frame_def)


lemma spin_frame_refl [simp]: "spin_frame g g"
  by (simp add: spin_frame_def)


subsection \<open>The blocks of a pass before the output\<close>









subsection \<open>The spin tracking writes to the spin log only\<close>









subsection \<open>The output to the track file\<close>

lemma appends_rows_refl [simp]: "appends_rows f n f n"
  by (simp add: appends_rows_def)


lemma appends_rows_one [simp]: "appends_rows f n (fprintf (Row r) f) (n + 1)"
  by (simp add: appends_rows_def fprintf_def)


lemma track_out_refl [simp]: "track_out g g"
  by (simp add: track_out_def)










subsection \<open>The two rollover blocks\<close>






lemma BF_rollover_exit:
  assumes "100000 < BFZeilencount g" and "BruteForce g"
    and "\<not> can_fopen (BFFile (outpath g) (jobnumber g) (BFFilecount g + 1))"
  shows "BF_rollover can_fopen g = Inl 1"
  using assms by (simp add: BF_rollover_def Let_def)




subsection \<open>One pass of the tracking loop\<close>









end
